theory Spec2Isabelle
  imports Complex_Main "HOL-Library.Monad_Syntax"
begin

section \<open>SLA support tree planner (libslic3r/SLA/SLASupportTree.cpp)\<close>

text \<open>
  A shallow embedding of the support tree planner. Conventions used throughout:
  \<^item> a C++ \<open>double\<close> is a \<open>real\<close>: rounding, NaN and signed zeros are outside the model.
    The one infinite value the planner tests for (\<open>std::isinf\<close> on the result of
    \<open>ray_mesh_intersect\<close>) is a constructor of its own, see \<open>dbl\<close>;
  \<^item> \<open>size_t\<close>, \<open>unsigned\<close> and \<open>int\<close> counters are \<open>nat\<close> or \<open>int\<close>; where the source would
    wrap around or read out of range the model returns \<open>None\<close>;
  \<^item> a function that may not return (a loop that need not end, an out-of-range read,
    a read of a matrix row that was never written or through a reference that dangles)
    returns an \<open>option\<close>, \<open>None\<close> standing for "no result";
  \<^item> where a property speaks of the states a loop passes through, and the loop need not
    end, the states are given by an inductive relation next to the loop.
\<close>

subsection \<open>Vectors and doubles\<close>

type_synonym Vec3d = "real \<times> real \<times> real"
type_synonym Vec2d = "real \<times> real"
type_synonym Vec3crd = "int \<times> int \<times> int"

text \<open>\<open>v(X)\<close>, \<open>v(Y)\<close>, \<open>v(Z)\<close> (the source's \<open>enum { X, Y, Z }\<close>).\<close>

abbreviation vX :: "Vec3d \<Rightarrow> real" where "vX v \<equiv> fst v"
abbreviation vY :: "Vec3d \<Rightarrow> real" where "vY v \<equiv> fst (snd v)"
abbreviation vZ :: "Vec3d \<Rightarrow> real" where "vZ v \<equiv> snd (snd v)"

definition vadd :: "Vec3d \<Rightarrow> Vec3d \<Rightarrow> Vec3d" where
  "vadd a b = (vX a + vX b, vY a + vY b, vZ a + vZ b)"

definition vsub :: "Vec3d \<Rightarrow> Vec3d \<Rightarrow> Vec3d" where
  "vsub a b = (vX a - vX b, vY a - vY b, vZ a - vZ b)"

definition smul :: "real \<Rightarrow> Vec3d \<Rightarrow> Vec3d" where
  "smul c a = (c * vX a, c * vY a, c * vZ a)"

text \<open>\<open>to_vec2\<close>, and the vectors \<open>Vec2d{p(X), p(Y)}\<close> the planner builds in place.\<close>

definition to_vec2 :: "Vec3d \<Rightarrow> Vec2d" where
  "to_vec2 v3 = (vX v3, vY v3)"

text \<open>
  The two templates \<open>distance(p)\<close> = \<open>sqrt(p.transpose() * p)\<close> and
  \<open>distance(pp1, pp2)\<close> = \<open>distance(pp2 - pp1)\<close>, at \<open>Vec3d\<close> and at \<open>Vec2d\<close>.
\<close>

definition norm3d :: "Vec3d \<Rightarrow> real" where
  "norm3d p = sqrt (vX p * vX p + vY p * vY p + vZ p * vZ p)"

definition distance3d :: "Vec3d \<Rightarrow> Vec3d \<Rightarrow> real" where
  "distance3d pp1 pp2 = norm3d (vsub pp2 pp1)"

definition distance2d :: "Vec2d \<Rightarrow> Vec2d \<Rightarrow> real" where
  "distance2d pp1 pp2 =
     sqrt ((fst pp2 - fst pp1) * (fst pp2 - fst pp1) + (snd pp2 - snd pp1) * (snd pp2 - snd pp1))"

text \<open>
  Eigen's \<open>v.normalized()\<close>: \<open>v\<close> divided by its norm. The zero vector stays the zero
  vector (HOL's \<open>x / 0 = 0\<close> agrees with Eigen's guard there).
\<close>

definition normalized :: "Vec3d \<Rightarrow> Vec3d" where
  "normalized v = smul (1 / norm3d v) v"

text \<open>\<open>Eigen::Rotation2Dd(a) * Eigen::Vector2d(x, y)\<close>: the plane rotation by \<open>a\<close>.\<close>

definition Rotation2Dd :: "real \<Rightarrow> Vec2d \<Rightarrow> Vec2d" where
  "Rotation2Dd a v = (cos a * fst v - sin a * snd v, sin a * fst v + cos a * snd v)"

text \<open>
  A \<open>double\<close> that may be infinite: the result of \<open>ray_mesh_intersect\<close>, which is tested
  with \<open>std::isinf\<close> and compared with finite bounds.
\<close>

datatype dbl = Dbl real | PosInf

definition isinf :: "dbl \<Rightarrow> bool" where
  "isinf t \<longleftrightarrow> t = PosInf"

text \<open>\<open>t > x\<close> and \<open>t >= x\<close> for a possibly infinite \<open>t\<close> and a finite \<open>x\<close>.\<close>

fun dbl_gt :: "dbl \<Rightarrow> real \<Rightarrow> bool" where
  "dbl_gt (Dbl t) x \<longleftrightarrow> t > x"
| "dbl_gt PosInf x \<longleftrightarrow> True"

fun dbl_ge :: "dbl \<Rightarrow> real \<Rightarrow> bool" where
  "dbl_ge (Dbl t) x \<longleftrightarrow> t \<ge> x"
| "dbl_ge PosInf x \<longleftrightarrow> True"

text \<open>
  The cast \<open>size_t(x)\<close> of a \<open>double\<close>: truncation; undefined (no result) when the
  truncated value is negative.
\<close>

definition size_t_of :: "real \<Rightarrow> nat option" where
  "size_t_of x = (if - 1 < x then Some (nat \<lfloor>x\<rfloor>) else None)"

subsection \<open>Meshes and the collaborators that are not in this file\<close>

text \<open>\<open>Contour3D\<close>: the indexed triangle list every primitive is built in.\<close>

record Contour3D =
  points :: "Vec3d list"
  indices :: "Vec3crd list"

definition empty_contour :: Contour3D where
  "empty_contour = \<lparr>points = [], indices = []\<rparr>"

text \<open>\<open>EigenMesh3D\<close>: the flattened world-space mesh the interrogator reads.\<close>

record EigenMesh3D =
  V :: "Vec3d list"
  F :: "(nat \<times> nat \<times> nat) list"

type_synonym PointSet = "Vec3d list"
type_synonym SpatElement = "Vec3d \<times> nat"
type_synonym ClusterEl = "nat list"
type_synonym ClusteredPoints = "ClusterEl list"

text \<open>
  The functions this file calls and does not define, taken as parameters:
  \<^item> \<open>merge\<close>: \<open>Contour3D::merge\<close> (SLABoilerPlate.hpp), receiver first;
  \<^item> \<open>FromTwoVectors\<close>: \<open>Eigen::Quaternion::FromTwoVectors(a, b)\<close> applied to a point,
    that is \<open>quatern * p\<close>;
  \<^item> \<open>ray_mesh_intersect\<close>, \<open>normals\<close> and \<open>cluster\<close>, which the file only declares;
  \<^item> \<open>emplace_moves n\<close>: whether \<open>emplace_back\<close> on a \<open>std::vector\<close> of \<open>n\<close> elements
    reallocates, which moves the elements and leaves every reference into the vector
    dangling. The vectors of the tree start empty and grow by \<open>emplace_back\<close> alone
    (nothing calls \<open>reserve\<close>), so \<open>emplace_back\<close> reallocates when \<open>n\<close> is the capacity
    reached so far; which sizes these are is the library's choice (0, 1, 2, 4, 8, ...
    in the common ones).
\<close>

record Ext =
  merge :: "Contour3D \<Rightarrow> Contour3D \<Rightarrow> Contour3D"
  FromTwoVectors :: "Vec3d \<Rightarrow> Vec3d \<Rightarrow> Vec3d \<Rightarrow> Vec3d"
  ray_mesh_intersect :: "Vec3d \<Rightarrow> Vec3d \<Rightarrow> EigenMesh3D \<Rightarrow> dbl"
  normals :: "PointSet \<Rightarrow> EigenMesh3D \<Rightarrow> PointSet"
  cluster :: "PointSet \<Rightarrow> (SpatElement \<Rightarrow> SpatElement \<Rightarrow> bool) \<Rightarrow> nat \<Rightarrow> ClusteredPoints"
  emplace_moves :: "nat \<Rightarrow> bool"

subsection \<open>\<open>sphere\<close> and \<open>cylinder\<close>\<close>

text \<open>
  The loop \<open>for (double i = 0; i < 2*PI; i+=angle)\<close>, as the list of the values of \<open>i\<close>
  it visits. It ends only for a positive \<open>angle\<close>: \<open>ring_of\<close> has no result otherwise
  (the source's angle is then negative, and the loop does not end, or the quotient
  \<open>2*PI / 0\<close>, which the reals do not have).
\<close>

function ring_loop :: "real \<Rightarrow> real \<Rightarrow> real list" where
  "ring_loop angle i =
     (if 0 < angle \<and> i < 2 * pi then i # ring_loop angle (i + angle) else [])"
  by pat_completeness auto
termination
proof (relation "measure (\<lambda>(angle, i). nat \<lceil>(2 * pi - i) / angle\<rceil>)")
  show "wf (measure (\<lambda>(angle, i). nat \<lceil>(2 * pi - i) / angle\<rceil>))"
    by simp
next
  fix angle i :: real
  assume a: "0 < angle \<and> i < 2 * pi"
  then have pos: "0 < (2 * pi - i) / angle"
    by simp
  have "(2 * pi - (i + angle)) / angle = (2 * pi - i) / angle - 1"
    using a by (simp add: field_simps)
  then have "\<lceil>(2 * pi - (i + angle)) / angle\<rceil> = \<lceil>(2 * pi - i) / angle\<rceil> - 1"
    by simp
  moreover have "0 < \<lceil>(2 * pi - i) / angle\<rceil>"
    using pos by simp
  ultimately show "((angle, i + angle), (angle, i))
      \<in> measure (\<lambda>(angle, i). nat \<lceil>(2 * pi - i) / angle\<rceil>)"
    by simp
qed

declare ring_loop.simps [simp del]

definition ring_of :: "real \<Rightarrow> real list option" where
  "ring_of angle = (if 0 < angle then Some (ring_loop angle 0) else None)"

type_synonym Portion = "real \<times> real"

definition make_portion :: "real \<Rightarrow> real \<Rightarrow> Portion" where
  "make_portion a b = (a, b)"

text \<open>
  The three loops of \<open>sphere\<close> over the state \<open>(vertices, facets, id)\<close> (\<open>id_v\<close> here): the first ring,
  one further ring for the step \<open>s\<close>, and the closing fan.
\<close>

definition sphere_first_ring ::
  "real \<Rightarrow> real \<Rightarrow> nat \<Rightarrow> real list \<Rightarrow> Vec3d list \<times> Vec3crd list \<times> int
    \<Rightarrow> Vec3d list \<times> Vec3crd list \<times> int" where
  "sphere_first_ring rho increment sbegin ring =
     fold (\<lambda>i (vertices, facets, id_v).
        let z = - rho + increment * rho * 2 * (real sbegin + 1);
            r = sqrt \<bar>rho * rho - z * z\<bar>;
            b = Rotation2Dd (ring ! i) (0, r)
        in (vertices @ [(fst b, snd b, z)],
            (if sbegin = 0
             then facets @ [if i = 0 then (int (length ring), 0, 1) else (id_v - 1, 0, id_v)]
             else facets),
            id_v + 1))
       [0..<length ring]"

definition sphere_ring ::
  "real \<Rightarrow> real \<Rightarrow> real list \<Rightarrow> nat \<Rightarrow> Vec3d list \<times> Vec3crd list \<times> int
    \<Rightarrow> Vec3d list \<times> Vec3crd list \<times> int" where
  "sphere_ring rho increment ring s =
     (let z = - rho + increment * real s * 2 * rho;
          r = sqrt \<bar>rho * rho - z * z\<bar>
      in fold (\<lambda>i (vertices, facets, id_v).
           let b = Rotation2Dd (ring ! i) (0, r);
               id_ringsize = id_v - int (length ring)
           in (vertices @ [(fst b, snd b, z)],
               (if i = 0
                then facets @ [(id_v - 1, id_v, id_v + int (length ring) - 1),
                               (id_v - 1, id_ringsize, id_v)]
                else facets @ [(id_ringsize - 1, id_ringsize, id_v),
                               (id_v - 1, id_ringsize - 1, id_v)]),
               id_v + 1))
         [0..<length ring])"

definition sphere_last_fan :: "real list \<Rightarrow> int \<Rightarrow> Vec3crd list" where
  "sphere_last_fan ring id_v =
     map (\<lambda>i. let id_ringsize = id_v - int (length ring)
               in if i = 0 then (id_v - 1, id_ringsize, id_v)
                  else let ci = id_ringsize + int i in (ci - 1, ci, id_v))
       [0..<length ring]"

text \<open>
  The mesh \<open>sphere\<close> builds once it has the ring and the three casts \<open>sbegin\<close>, \<open>send\<close> and
  \<open>size_t(2*PI / angle)\<close> (here \<open>full\<close>).
\<close>

definition sphere_mesh :: "real \<Rightarrow> real list \<Rightarrow> nat \<Rightarrow> nat \<Rightarrow> nat \<Rightarrow> Contour3D" where
  "sphere_mesh rho ring sbegin send full =
     (let steps = length ring;
          increment = 1 / real steps;
          vertices0 =
            (if sbegin = 0 then [(0, 0, - rho + increment * real sbegin * 2 * rho)] else []);
          st1 = sphere_first_ring rho increment sbegin ring
                  (vertices0, [], int (length vertices0))
      in case fold (sphere_ring rho increment ring) [sbegin + 2..<send - 1] st1 of
           (vertices, facets, id_v) \<Rightarrow>
             if send \<ge> full
             then \<lparr>points = vertices @ [(0, 0, - rho + increment * real send * 2 * rho)],
                   indices = facets @ sphere_last_fan ring id_v\<rparr>
             else \<lparr>points = vertices, indices = facets\<rparr>)"

text \<open>
  \<open>sphere(rho, portion, fa)\<close>. No result when the ring loop has none, when a cast to
  \<open>size_t\<close> is undefined, and when \<open>send\<close> is 0: \<open>send - 1\<close> then wraps around to the
  largest \<open>size_t\<close> and the loop over \<open>s\<close> outruns any memory.
\<close>

definition sphere :: "real \<Rightarrow> Portion \<Rightarrow> real \<Rightarrow> Contour3D option" where
  "sphere rho portion fa =
     (if rho \<le> 0.000001 \<and> rho \<ge> - 0.000001 then Some empty_contour
      else do {
        let angle = 2 * pi / of_int \<lfloor>2 * pi / fa\<rfloor>;
        ring \<leftarrow> ring_of angle;
        sbegin \<leftarrow> size_t_of (2 * fst portion / angle);
        send \<leftarrow> size_t_of (2 * snd portion / angle);
        full \<leftarrow> size_t_of (2 * pi / angle);
        if send = 0 then None else Some (sphere_mesh rho ring sbegin send full)
      })"

text \<open>
  \<open>cylinder(r, h, fa)\<close>. The \<open>for\<close> loop over \<open>i\<close> runs through \<open>ring_of angle\<close>; \<open>id_v\<close> is 1
  (\<open>vertices.size() - 1\<close> with the two centres in) until its body sets it.
\<close>

definition cylinder_step ::
  "real \<Rightarrow> real \<Rightarrow> real \<Rightarrow> Vec3d list \<times> Vec3crd list \<times> int
    \<Rightarrow> Vec3d list \<times> Vec3crd list \<times> int" where
  "cylinder_step r h i = (\<lambda>(vertices, facets, id_v0).
     let p = Rotation2Dd i (0, r);
         vertices' = vertices @ [(fst p, snd p, 0), (fst p, snd p, h)];
         id_v = int (length vertices') - 1
     in (vertices',
         facets @ [(0, id_v - 1, id_v - 3), (id_v, 1, id_v - 2), (id_v, id_v - 2, id_v - 3),
                   (id_v, id_v - 3, id_v - 1)],
         id_v))"

definition cylinder :: "real \<Rightarrow> real \<Rightarrow> real \<Rightarrow> Contour3D option" where
  "cylinder r h fa = do {
     let angle = 2 * pi / of_int \<lfloor>2 * pi / fa\<rfloor>;
     ring \<leftarrow> ring_of angle;
     let (vertices, facets, id_v) =
       fold (cylinder_step r h) ring
         ([(0, 0, 0), (0, 0, h), (sin 0 * r, cos 0 * r, 0), (sin 0 * r, cos 0 * r, h)], [], 1);
     Some \<lparr>points = vertices,
           indices = facets @ [(2, 0, id_v - 1), (1, 3, id_v), (id_v, 3, 2), (id_v, 2, id_v - 1)]\<rparr>
   }"

subsection \<open>The primitives: \<open>Head\<close>, \<open>Pillar\<close>, \<open>Junction\<close>, \<open>Bridge\<close>\<close>

text \<open>
  Field names carry the name of their struct where several structs share one
  (\<open>mesh\<close>, \<open>steps\<close>, \<open>r\<close>) or where the name is wanted for variables (\<open>dir\<close>, \<open>tr\<close>).
\<close>

record Tail =
  tail_mesh :: Contour3D
  tail_steps :: nat
  tail_length :: real

record Head =
  head_mesh :: Contour3D
  head_steps :: nat
  head_dir :: Vec3d
  head_tr :: Vec3d
  r_back_mm :: real
  r_pin_mm :: real
  width_mm :: real
  tail :: Tail

text \<open>
  The constructor \<open>Head(r_big_mm, r_small_mm, length_mm, direction, offset, circlesteps)\<close>.
  The loop that joins the two spheres runs from \<open>s1.points.size() - steps\<close> to
  \<open>s1.points.size() - 1\<close>, both \<open>size_t\<close>: with fewer than \<open>steps\<close> points in \<open>s1\<close>, or
  with none, a bound wraps around, and the model has no result.
\<close>

definition Head_ctor ::
  "Ext \<Rightarrow> real \<Rightarrow> real \<Rightarrow> real \<Rightarrow> Vec3d \<Rightarrow> Vec3d \<Rightarrow> nat \<Rightarrow> Head option" where
  "Head_ctor E r_big_mm r_small_mm length_mm direction offset circlesteps = do {
     let steps = circlesteps;
     let detail = 2 * pi / real steps;
     let h = r_big_mm + r_small_mm + length_mm;
     let phi = pi / 2 - arccos ((r_big_mm - r_small_mm) / h);
     s1 \<leftarrow> sphere r_big_mm (make_portion 0 (pi / 2 + phi)) detail;
     s2 \<leftarrow> sphere r_small_mm (make_portion (pi / 2 + phi) pi) detail;
     let s2 = s2\<lparr>points := map (\<lambda>p. (vX p, vY p, vZ p + h)) (points s2)\<rparr>;
     let mesh = merge E (merge E empty_contour s1) s2;
     let n1 = length (points s1);
     if n1 < steps \<or> n1 = 0 then None
     else do {
       let robe = concat (map (\<lambda>idx1.
             let idx2 = idx1 + steps;
                 i1s1 = int idx1; i1s2 = int idx2;
                 i2s1 = i1s1 + 1; i2s2 = i1s2 + 1
             in [(i1s1, i2s1, i2s2), (i1s1, i2s2, i1s2)]) [n1 - steps..<n1 - 1]);
       let i1s1 = int n1 - int steps;
       let i2s1 = int n1 - 1;
       let i1s2 = int n1;
       let i2s2 = int n1 + int steps - 1;
       let mesh = mesh\<lparr>indices := indices mesh @ robe
                                   @ [(i2s2, i2s1, i1s1), (i1s2, i2s2, i1s1)]\<rparr>;
       let mesh = mesh\<lparr>points :=
                    map (\<lambda>p. (vX p, vY p, vZ p - (h + r_small_mm))) (points mesh)\<rparr>;
       Some \<lparr>head_mesh = mesh, head_steps = steps, head_dir = direction, head_tr = offset,
             r_back_mm = r_big_mm, r_pin_mm = r_small_mm, width_mm = length_mm,
             tail = \<lparr>tail_mesh = empty_contour, tail_steps = 45,
                     tail_length = 0.8 * length_mm\<rparr>\<rparr>
     }
   }"

text \<open>\<open>Head::transform\<close>: every mesh point becomes \<open>quatern * p + tr\<close>.\<close>

definition transform :: "Ext \<Rightarrow> Head \<Rightarrow> Head" where
  "transform E head =
     head\<lparr>head_mesh := (head_mesh head)\<lparr>points :=
        map (\<lambda>p. vadd (FromTwoVectors E (0, 0, - 1) (head_dir head) p) (head_tr head))
          (points (head_mesh head))\<rparr>\<rparr>"

definition fullwidth :: "Head \<Rightarrow> real" where
  "fullwidth head = 2 * r_pin_mm head + width_mm head + 2 * r_back_mm head"

definition junction_point :: "Head \<Rightarrow> Vec3d" where
  "junction_point head =
     vadd (head_tr head)
       (smul (2 * r_pin_mm head + width_mm head + r_back_mm head) (head_dir head))"

definition request_pillar_radius :: "Head \<Rightarrow> real \<Rightarrow> real" where
  "request_pillar_radius head radius =
     (if radius > 0 \<and> radius < r_back_mm head then radius else r_back_mm head * 0.65)"

text \<open>
  The side wall both \<open>add_tail\<close> and the \<open>Pillar\<close> constructor triangulate between a ring
  of \<open>steps\<close> points and the ring \<open>offs = steps\<close> further on, the loop
  \<open>for(int i = 0; i < steps - 1; ++i)\<close> and the two closing facets.
\<close>

definition side_facets :: "nat \<Rightarrow> Vec3crd list" where
  "side_facets steps =
     (let offs = int steps; last = int steps - 1
      in concat (map (\<lambda>i. [(int i, int i + offs, offs + int i + 1),
                            (int i, offs + int i + 1, int i + 1)]) [0..<steps - 1])
         @ [(0, last, offs), (last, offs + last, offs)])"

text \<open>
  \<open>Head::add_tail(length, radius)\<close>; both arguments default to \<open>-1\<close>. With \<open>steps = 0\<close>
  the bound \<open>steps - 1\<close> of the facet loop wraps around: no result.
\<close>

definition add_tail :: "real \<Rightarrow> real \<Rightarrow> Head \<Rightarrow> Head option" where
  "add_tail len radius head =
     (if head_steps head = 0 then None
      else
        let steps = head_steps head;
            tail_len = (if len > 0 then len else tail_length (tail head));
            h = r_back_mm head + 2 * r_pin_mm head + width_mm head;
            c = vadd (head_tr head) (smul h (head_dir head));
            r = r_back_mm head * 0.9;
            r_low = request_pillar_radius head radius;
            a = 2 * pi / real steps;
            z = vZ c;
            upper = map (\<lambda>i. let phi = real i * a
                               in (vX c + r * cos phi, vY c + r * sin phi, z)) [0..<steps];
            lower = map (\<lambda>i. let phi = real i * a
                               in (vX c + r_low * cos phi, vY c + r_low * sin phi,
                                   z - tail_len)) [0..<steps];
            cntr = tail_mesh (tail head)
        in Some (head\<lparr>tail := (tail head)\<lparr>
                   tail_length := tail_len,
                   tail_mesh := \<lparr>points = points cntr @ upper @ lower,
                                 indices = indices cntr @ side_facets steps\<rparr>\<rparr>\<rparr>))"

text \<open>
  \<open>Pillar\<close>. \<open>headref\<close>, the \<open>std::reference_wrapper\<close> to a head of the tree, is the
  position of that head in \<open>m_heads\<close>.
\<close>

record Pillar =
  pillar_mesh :: Contour3D
  pillar_base :: Contour3D
  pillar_r :: real
  pillar_steps :: nat
  endpoint :: Vec3d
  headref :: nat

text \<open>
  The constructor \<open>Pillar(head, endp, radius)\<close>, for the head at position \<open>href\<close>. It
  reads the tail's points from \<open>begin() + steps\<close> on: no result when the tail has fewer
  than \<open>steps\<close> points (no tail added yet), nor when \<open>steps = 0\<close>.
\<close>

definition Pillar_ctor :: "Head \<Rightarrow> nat \<Rightarrow> Vec3d \<Rightarrow> real \<Rightarrow> Pillar option" where
  "Pillar_ctor head href endp radius =
     (let steps = head_steps head;
          tpoints = points (tail_mesh (tail head))
      in if steps = 0 \<or> length tpoints < steps then None
         else
           let lower = drop steps tpoints
           in Some \<lparr>pillar_mesh =
                      \<lparr>points = lower @ map (\<lambda>s. (vX s, vY s, vZ endp)) lower,
                       indices = side_facets steps\<rparr>,
                    pillar_base = empty_contour,
                    pillar_r = request_pillar_radius head radius,
                    pillar_steps = steps,
                    endpoint = endp,
                    headref = href\<rparr>)"

text \<open>\<open>Pillar::add_base(height, radius)\<close>; a non-positive height returns at once.\<close>

definition add_base :: "real \<Rightarrow> real \<Rightarrow> Pillar \<Rightarrow> Pillar option" where
  "add_base height radius0 pillar =
     (if height \<le> 0 then Some pillar
      else if pillar_steps pillar = 0 then None
      else
        let r = pillar_r pillar;
            radius = (if radius0 < r then r else radius0);
            steps = pillar_steps pillar;
            ep0 = endpoint pillar;
            a = 2 * pi / real steps;
            z = vZ ep0 + height;
            upper = map (\<lambda>i. let phi = real i * a
                               in (vX ep0 + r * cos phi, vY ep0 + r * sin phi, z)) [0..<steps];
            lower = map (\<lambda>i. let phi = real i * a
                               in (vX ep0 + radius * cos phi, vY ep0 + radius * sin phi,
                                   z - height)) [0..<steps];
            ep = (vX ep0, vY ep0, vZ ep0 + height);
            bpoints = points (pillar_base pillar) @ upper @ lower @ [ep0, ep];
            hcenter = int (length bpoints) - 1;
            lcenter = int (length bpoints) - 2;
            offs = int steps;
            last = int steps - 1;
            facets = concat (map (\<lambda>i. [(int i, int i + offs, offs + int i + 1),
                                        (int i, offs + int i + 1, int i + 1),
                                        (int i, int i + 1, hcenter),
                                        (lcenter, offs + int i + 1, offs + int i)])
                               [0..<steps - 1])
                     @ [(0, last, offs), (last, offs + last, offs), (hcenter, last, 0),
                        (offs, offs + last, lcenter)]
        in Some (pillar\<lparr>pillar_base :=
                   \<lparr>points = bpoints,
                    indices = indices (pillar_base pillar) @ facets\<rparr>\<rparr>))"

definition has_base :: "Pillar \<Rightarrow> bool" where
  "has_base pillar \<longleftrightarrow> points (pillar_base pillar) \<noteq> []"

record Junction =
  junction_mesh :: Contour3D
  junction_r :: real
  junction_steps :: nat
  pos :: Vec3d

text \<open>The constructor \<open>Junction(tr, r_mm, stepnum)\<close>.\<close>

definition Junction_ctor :: "Vec3d \<Rightarrow> real \<Rightarrow> nat \<Rightarrow> Junction option" where
  "Junction_ctor tr r_mm stepnum = do {
     mesh \<leftarrow> sphere r_mm (make_portion 0 pi) (2 * pi / real stepnum);
     Some \<lparr>junction_mesh = mesh\<lparr>points := map (\<lambda>p. vadd p tr) (points mesh)\<rparr>,
           junction_r = r_mm, junction_steps = stepnum, pos = tr\<rparr>
   }"

record Bridge =
  bridge_mesh :: Contour3D
  bridge_r :: real

text \<open>
  The three constructors of \<open>Bridge\<close>. Only the first has a body; the other two leave the
  mesh as it is default-initialised, and the third leaves \<open>r\<close> at its default 0.8.
\<close>

definition Bridge_junctions :: "Ext \<Rightarrow> Junction \<Rightarrow> Junction \<Rightarrow> real \<Rightarrow> Bridge option" where
  "Bridge_junctions E j1 j2 r_mm = do {
     let r = r_mm;
     let dir = normalized (vsub (pos j2) (pos j1));
     let d = distance3d (pos j2) (pos j1);
     mesh \<leftarrow> cylinder r d (2 * pi / 45);
     Some \<lparr>bridge_mesh = mesh\<lparr>points :=
              map (\<lambda>p. vadd (FromTwoVectors E (0, 0, 1) dir p) (pos j1)) (points mesh)\<rparr>,
           bridge_r = r\<rparr>
   }"

definition Bridge_head_junction :: "Head \<Rightarrow> Junction \<Rightarrow> real \<Rightarrow> Bridge" where
  "Bridge_head_junction h j2 r_mm = \<lparr>bridge_mesh = empty_contour, bridge_r = r_mm\<rparr>"

definition Bridge_junction_pillar :: "Junction \<Rightarrow> Pillar \<Rightarrow> Bridge" where
  "Bridge_junction_pillar j cl = \<lparr>bridge_mesh = empty_contour, bridge_r = 0.8\<rparr>"

subsection \<open>\<open>SLASupportTree::Impl\<close>, the tree\<close>

record Impl =
  m_heads :: "Head list"
  m_pillars :: "Pillar list"
  m_junctions :: "Junction list"
  m_bridges :: "Bridge list"

definition empty_Impl :: Impl where
  "empty_Impl = \<lparr>m_heads = [], m_pillars = [], m_junctions = [], m_bridges = []\<rparr>"

text \<open>
  The builders \<open>emplace_back\<close> what the caller's arguments construct; here the caller
  constructs the primitive and the builder appends it.
\<close>

definition add_head :: "Head \<Rightarrow> Impl \<Rightarrow> Impl" where
  "add_head h result = result\<lparr>m_heads := m_heads result @ [h]\<rparr>"

definition add_pillar :: "Pillar \<Rightarrow> Impl \<Rightarrow> Impl" where
  "add_pillar p result = result\<lparr>m_pillars := m_pillars result @ [p]\<rparr>"

definition add_junction :: "Junction \<Rightarrow> Impl \<Rightarrow> Impl" where
  "add_junction j result = result\<lparr>m_junctions := m_junctions result @ [j]\<rparr>"

definition add_bridge :: "Bridge \<Rightarrow> Impl \<Rightarrow> Impl" where
  "add_bridge b result = result\<lparr>m_bridges := m_bridges result @ [b]\<rparr>"

subsection \<open>The stages FILTER, PINHEADS and CLASSIFY\<close>

text \<open>
  Modelled from the spec: \<open>SupportConfig\<close> is declared in SLASupportTree.hpp, which is
  not among the sources; its options are those of the spec's configuration list.
\<close>

record SupportConfig =
  head_front_radius_mm :: real
  head_back_radius_mm :: real
  head_width_mm :: real
  pillar_radius_mm :: real
  base_radius_mm :: real
  base_height_mm :: real
  tilt :: real
  junction_distance :: real

definition D_SP :: real where
  "D_SP = 0.1"

text \<open>
  Reading row \<open>i\<close> of a matrix or element \<open>i\<close> of a vector: no result out of range.
\<close>

definition row :: "'a list \<Rightarrow> nat \<Rightarrow> 'a option" where
  "row xs i = (if i < length xs then Some (xs ! i) else None)"

text \<open>\<open>std::atan2(y, x)\<close> on the reals (\<open>atan2(0, 0) = 0\<close>).\<close>

definition atan2 :: "real \<Rightarrow> real \<Rightarrow> real" where
  "atan2 y x =
     (if x > 0 then arctan (y / x)
      else if x < 0 \<and> y \<ge> 0 then arctan (y / x) + pi
      else if x < 0 \<and> y < 0 then arctan (y / x) - pi
      else if y > 0 then pi / 2
      else if y < 0 then - pi / 2
      else 0)"

text \<open>
  The body of the loop of \<open>filterfn\<close> for one point \<open>hp = filt_pts.row(i)\<close> with normal
  \<open>n = nmls.row(i)\<close>, on the state \<open>(filt_norm, head_pos, headless_pos)\<close>; the counters
  \<open>pcount\<close> and \<open>hlcount\<close> are the lengths of \<open>head_pos\<close> and \<open>headless_pos\<close>. \<open>std::acos\<close>
  is NaN outside \<open>[-1, 1]\<close>, and a NaN fails the test \<open>polar >= PI / 2\<close>.
\<close>

definition filter_point ::
  "Ext \<Rightarrow> SupportConfig \<Rightarrow> EigenMesh3D \<Rightarrow> Vec3d \<Rightarrow> Vec3d
    \<Rightarrow> PointSet \<times> PointSet \<times> PointSet \<Rightarrow> PointSet \<times> PointSet \<times> PointSet" where
  "filter_point E cfg mesh hp n = (\<lambda>(filt_norm, head_pos, headless_pos).
     let z = vZ n;
         r = 1;
         polar = arccos (z / r);
         azimuth = atan2 (vY n) (vX n)
     in if - 1 \<le> z / r \<and> z / r \<le> 1 \<and> polar \<ge> pi / 2 then
          let polar = max polar (3 * pi / 4);
              nn = (cos azimuth * sin polar, sin azimuth * sin polar, cos polar);
              w = head_width_mm cfg + head_back_radius_mm cfg + 2 * head_front_radius_mm cfg;
              t = ray_mesh_intersect E (vadd hp (smul 0.1 nn)) nn mesh
          in if dbl_gt t (2 * w) \<or> isinf t
             then (filt_norm @ [nn], head_pos @ [hp], headless_pos)
             else (filt_norm, head_pos, headless_pos @ [hp])
        else (filt_norm, head_pos, headless_pos))"

text \<open>
  \<open>filterfn\<close> (\<open>support_pts\<close> is its parameter \<open>points\<close>); the result is
  \<open>(filt_pts, filt_norm, head_pos, headless_pos)\<close>. An empty
  cluster (\<open>a.front()\<close>) and a row out of range have no result.
\<close>

definition filterfn ::
  "Ext \<Rightarrow> SupportConfig \<Rightarrow> PointSet \<Rightarrow> EigenMesh3D
    \<Rightarrow> (PointSet \<times> PointSet \<times> PointSet \<times> PointSet) option" where
  "filterfn E cfg support_pts mesh = do {
     let aliases = cluster E support_pts (\<lambda>p se. distance3d (fst p) (fst se) < D_SP) 2;
     filt_pts \<leftarrow> those (map (\<lambda>a. case a of [] \<Rightarrow> None | front # _ \<Rightarrow> row support_pts front)
                          aliases);
     let count = length filt_pts;
     let nmls = normals E filt_pts mesh;
     (filt_norm, head_pos, headless_pos) \<leftarrow>
       fold (\<lambda>i st. do {
               s \<leftarrow> st;
               n \<leftarrow> row nmls i;
               hp \<leftarrow> row filt_pts i;
               Some (filter_point E cfg mesh hp n s)
             }) [0..<count] (Some ([], [], []));
     Some (filt_pts, filt_norm, head_pos, headless_pos)
   }"

text \<open>
  What the FILTER stage decides for one point, in the words of its description: whether
  the tilt is sane (a polar angle \<open>acos(z)\<close> of at least \<open>PI / 2\<close>), the corrected normal
  (the polar angle saturated to at least \<open>3 PI / 4\<close>, the azimuth kept), and whether the
  head has room: the ray from \<open>hp + 0.1 * nn\<close> along \<open>nn\<close> hits beyond twice the
  head's width, or not at all.
\<close>

definition tilt_sane :: "Vec3d \<Rightarrow> bool" where
  "tilt_sane n \<longleftrightarrow> - 1 \<le> vZ n \<and> vZ n \<le> 1 \<and> arccos (vZ n) \<ge> pi / 2"

definition corrected_normal :: "Vec3d \<Rightarrow> Vec3d" where
  "corrected_normal n =
     (let polar = max (arccos (vZ n)) (3 * pi / 4);
          azimuth = atan2 (vY n) (vX n)
      in (cos azimuth * sin polar, sin azimuth * sin polar, cos polar))"

definition head_has_room :: "Ext \<Rightarrow> SupportConfig \<Rightarrow> EigenMesh3D \<Rightarrow> Vec3d \<Rightarrow> Vec3d \<Rightarrow> bool" where
  "head_has_room E cfg mesh origin nn \<longleftrightarrow>
     (let w = head_width_mm cfg + head_back_radius_mm cfg + 2 * head_front_radius_mm cfg;
          t = ray_mesh_intersect E origin nn mesh
      in dbl_gt t (2 * w) \<or> isinf t)"

text \<open>\<open>pinheadfn\<close>: one head per row of \<open>head_pos\<close>, with the default 45 circle steps.\<close>

definition pinheadfn :: "Ext \<Rightarrow> SupportConfig \<Rightarrow> PointSet \<Rightarrow> PointSet \<Rightarrow> Impl \<Rightarrow> Impl option" where
  "pinheadfn E cfg head_pos nmls result =
     fold (\<lambda>i st. do {
             res \<leftarrow> st;
             dir \<leftarrow> row nmls i;
             hp \<leftarrow> row head_pos i;
             h \<leftarrow> Head_ctor E (head_back_radius_mm cfg) (head_front_radius_mm cfg)
                    (head_width_mm cfg) dir hp 45;
             Some (add_head h res)
           }) [0..<length head_pos] (Some result)"

text \<open>
  The first loop of \<open>classifyfn\<close>, on the state \<open>(gndheight, gndidx, nogndidx)\<close>: the
  three vectors are appended to, whatever they hold already.
\<close>

definition classify_head ::
  "Ext \<Rightarrow> EigenMesh3D \<Rightarrow> Impl \<Rightarrow> nat
    \<Rightarrow> (dbl list \<times> nat list \<times> nat list) option \<Rightarrow> (dbl list \<times> nat list \<times> nat list) option" where
  "classify_head E mesh result i st = do {
     (gndheight, gndidx, nogndidx) \<leftarrow> st;
     head \<leftarrow> row (m_heads result) i;
     let dir = (0, 0, - 1);
     let startpoint = junction_point head;
     let t = ray_mesh_intersect E startpoint dir mesh;
     Some (gndheight @ [t],
           if isinf t then gndidx @ [i] else gndidx,
           if isinf t then nogndidx else nogndidx @ [i])
   }"

text \<open>
  The body of the last loop of \<open>classifyfn\<close>, for one \<open>idx\<close> of \<open>nogndidx\<close>. An infinite
  \<open>gndheight[idx]\<close> (left by an earlier run of the stage) would give the pillar an
  infinite coordinate: no result.
\<close>

definition classify_noground ::
  "Ext \<Rightarrow> SupportConfig \<Rightarrow> dbl list \<Rightarrow> nat \<Rightarrow> Impl option \<Rightarrow> Impl option" where
  "classify_noground E cfg gndheight idx st = do {
     result \<leftarrow> st;
     head \<leftarrow> row (m_heads result) idx;
     let head = transform E head;
     head \<leftarrow> add_tail (- 1) (- 1) head;
     let result = result\<lparr>m_heads := (m_heads result)[idx := head]\<rparr>;
     t \<leftarrow> row gndheight idx;
     gh \<leftarrow> (case t of Dbl gh \<Rightarrow> Some gh | PosInf \<Rightarrow> None);
     let headend = junction_point head;
     base_head \<leftarrow> Head_ctor E (head_back_radius_mm cfg) (head_front_radius_mm cfg)
                    (head_width_mm cfg) (0, 0, 1)
                    (vX headend, vY headend, vZ headend - gh - r_pin_mm head) 45;
     let base_head = transform E base_head;
     let hl = fullwidth head - r_back_mm head;
     cs \<leftarrow> Pillar_ctor head idx (vX headend, vY headend, vZ headend - gh + hl)
             (pillar_radius_mm cfg);
     let cs = cs\<lparr>pillar_base := head_mesh base_head\<rparr>;
     Some (add_pillar cs result)
   }"

text \<open>
  \<open>classifyfn\<close>, on the state \<open>(gndidx, nogndidx, gndheight, ground_clusters, result)\<close>
  it reads and writes through its reference parameters.
\<close>

definition classifyfn ::
  "Ext \<Rightarrow> SupportConfig \<Rightarrow> EigenMesh3D \<Rightarrow> PointSet
    \<Rightarrow> nat list \<times> nat list \<times> dbl list \<times> ClusteredPoints \<times> Impl
    \<Rightarrow> (nat list \<times> nat list \<times> dbl list \<times> ClusteredPoints \<times> Impl) option" where
  "classifyfn E cfg mesh head_pos = (\<lambda>(gndidx, nogndidx, gndheight, ground_clusters, result). do {
     (gndheight, gndidx, nogndidx) \<leftarrow>
       fold (classify_head E mesh result) [0..<length head_pos]
         (Some (gndheight, gndidx, nogndidx));
     gnd \<leftarrow> those (map (row head_pos) gndidx);
     let d_base = 4 * base_radius_mm cfg;
     let ground_clusters =
       cluster E gnd (\<lambda>p s. distance2d (vX (fst p), vY (fst p)) (vX (fst s), vY (fst s)) < d_base) 4;
     result \<leftarrow> fold (classify_noground E cfg gndheight) nogndidx (Some result);
     Some (gndidx, nogndidx, gndheight, ground_clusters, result)
   })"

subsection \<open>\<open>cluster_centroid\<close>\<close>

text \<open>
  \<open>std::next_permutation\<close> on a bit mask, \<open>False < True\<close>. Read from the right end, the
  mask splits into its longest non-decreasing run (\<open>std::is_sorted_until\<close> on the
  reversed range) and the rest, whose first element is the pivot.
\<close>

fun sorted_run :: "bool list \<Rightarrow> bool list \<times> bool list" where
  "sorted_run [] = ([], [])"
| "sorted_run [x] = ([x], [])"
| "sorted_run (x # y # zs) =
     (if y < x then ([x], y # zs)
      else let (run, rest) = sorted_run (y # zs) in (x # run, rest))"

text \<open>\<open>std::upper_bound\<close> in a non-decreasing run: the first position whose element is greater.\<close>

fun upper_bound :: "bool list \<Rightarrow> bool \<Rightarrow> nat" where
  "upper_bound [] v = 0"
| "upper_bound (x # xs) v = (if v < x then 0 else Suc (upper_bound xs v))"

text \<open>
  The next mask and the returned flag. With no pivot the whole mask is reversed and the
  flag is \<open>False\<close>; otherwise pivot and upper bound are swapped and the run after the
  pivot is reversed.
\<close>

definition next_permutation :: "bool list \<Rightarrow> bool list \<times> bool" where
  "next_permutation sel =
     (case sorted_run (rev sel) of
        (run, []) \<Rightarrow> (rev sel, False)
      | (run, pivot # rest) \<Rightarrow>
          (let right = upper_bound run pivot
           in (rev rest @ [run ! right] @ run[right := pivot], True)))"

text \<open>The positions of the set bits, as the loop \<open>if(sel[i]) idx[j++] = i\<close> collects them.\<close>

definition sel_positions :: "bool list \<Rightarrow> nat list" where
  "sel_positions sel = filter (\<lambda>i. sel ! i) [0..<length sel]"

text \<open>
  The body of the \<open>do ... while\<close> loop for the set positions \<open>idx = {i0, i1}\<close>: the
  distance of the two members is added to both sums.
\<close>

definition add_dist ::
  "(nat \<Rightarrow> 'p) \<Rightarrow> ('p \<Rightarrow> 'p \<Rightarrow> real) \<Rightarrow> nat list \<Rightarrow> nat \<Rightarrow> nat \<Rightarrow> real list \<Rightarrow> real list" where
  "add_dist pointfn df clust i0 i1 avgs =
     (let d = df (pointfn (clust ! i0)) (pointfn (clust ! i1));
          avgs = avgs[i0 := avgs ! i0 + d]
      in avgs[i1 := avgs ! i1 + d])"

text \<open>
  The \<open>do ... while(std::next_permutation(...))\<close> loop on the state \<open>(sel, avgs)\<close>. \<open>idx\<close>
  has two slots: a mask with another number of set bits has no result.
\<close>

partial_function (option) centroid_loop ::
  "(nat \<Rightarrow> 'p) \<Rightarrow> ('p \<Rightarrow> 'p \<Rightarrow> real) \<Rightarrow> nat list \<Rightarrow> bool list \<Rightarrow> real list
    \<Rightarrow> real list option" where
  "centroid_loop pointfn df clust sel avgs =
     (case sel_positions sel of
        [i0, i1] \<Rightarrow>
          (let avgs = add_dist pointfn df clust i0 i1 avgs
           in if snd (next_permutation sel)
              then centroid_loop pointfn df clust (fst (next_permutation sel)) avgs
              else Some avgs)
      | _ \<Rightarrow> None)"

text \<open>\<open>std::min_element\<close>: the position of the first smallest element (0 on an empty range).\<close>

definition min_element :: "real list \<Rightarrow> nat" where
  "min_element xs =
     fold (\<lambda>i smallest. if xs ! i < xs ! smallest then i else smallest) [1..<length xs] 0"

text \<open>\<open>cluster_centroid(clust, pointfn, df)\<close>; the result is a \<open>long\<close>.\<close>

definition cluster_centroid ::
  "nat list \<Rightarrow> (nat \<Rightarrow> 'p) \<Rightarrow> ('p \<Rightarrow> 'p \<Rightarrow> real) \<Rightarrow> int option" where
  "cluster_centroid clust pointfn df =
     (if length clust = 0 then Some (- 1)
      else if length clust = 1 then Some 0
      else if length clust = 2 then Some 0
      else do {
        let sel = replicate (length clust - 2) False @ [True, True];
        let avgs = replicate (length clust) 0;
        avgs \<leftarrow> centroid_loop pointfn df clust sel avgs;
        let avgs = map (\<lambda>a. a / real (length clust)) avgs;
        Some (int (min_element avgs))
      })"

text \<open>
  For the statement of what \<open>cluster_centroid\<close> computes: the distance it takes between
  the members at positions \<open>k\<close> and \<open>j\<close> of the cluster (\<open>df\<close> receives the two points in
  the order of their positions), and the sum of these distances from \<open>k\<close> to all other
  members.
\<close>

definition member_dist ::
  "nat list \<Rightarrow> (nat \<Rightarrow> 'p) \<Rightarrow> ('p \<Rightarrow> 'p \<Rightarrow> real) \<Rightarrow> nat \<Rightarrow> nat \<Rightarrow> real" where
  "member_dist clust pointfn df k j =
     df (pointfn (clust ! min k j)) (pointfn (clust ! max k j))"

definition dist_sum ::
  "nat list \<Rightarrow> (nat \<Rightarrow> 'p) \<Rightarrow> ('p \<Rightarrow> 'p \<Rightarrow> real) \<Rightarrow> nat \<Rightarrow> real" where
  "dist_sum clust pointfn df k =
     sum_list (map (member_dist clust pointfn df k) (filter (\<lambda>j. j \<noteq> k) [0..<length clust]))"

text \<open>
  The mask with \<open>a\<close> clear bits, a set bit, \<open>b\<close> clear bits, a set bit and \<open>c\<close> clear bits,
  and the pairs of set positions the loop runs through when it starts from that mask.
\<close>

definition mask2 :: "nat \<Rightarrow> nat \<Rightarrow> nat \<Rightarrow> bool list" where
  "mask2 a b c = replicate a False @ [True] @ replicate b False @ [True] @ replicate c False"

fun mask_pairs :: "nat \<Rightarrow> nat \<Rightarrow> nat \<Rightarrow> (nat \<times> nat) list" where
  "mask_pairs 0 0 c = [(0, 1)]"
| "mask_pairs (Suc a) 0 c = (Suc a, Suc (Suc a)) # mask_pairs a (Suc c) 0"
| "mask_pairs a (Suc b) c = (a, a + b + 2) # mask_pairs a b (Suc c)"

subsection \<open>\<open>pts_convex_hull\<close>\<close>

definition ERR :: real where
  "ERR = 0.000001"

definition orientation :: "Vec2d \<Rightarrow> Vec2d \<Rightarrow> Vec2d \<Rightarrow> nat" where
  "orientation p q r =
     (let val = (snd q - snd p) * (fst r - fst q) - (fst q - fst p) * (snd r - snd q)
      in if \<bar>val\<bar> < ERR then 0 else if val > ERR then 1 else 2)"

text \<open>The search for the leftmost point, \<open>l\<close>.\<close>

definition leftmost :: "Vec2d list \<Rightarrow> nat" where
  "leftmost pts =
     fold (\<lambda>i l. if \<bar>fst (pts ! i) - fst (pts ! l)\<bar> < ERR
                  then (if snd (pts ! i) < snd (pts ! l) then i else l)
                  else if fst (pts ! i) < fst (pts ! l) then i else l)
       [1..<length pts] 0"

text \<open>
  The wrapping loop \<open>do ... while (p != l)\<close>, which need not come back to \<open>l\<close>. The
  vector \<open>hull\<close> it builds (\<open>hull_v\<close>) holds the positions \<open>p\<close> within \<open>inpts\<close>, as the
  source pushes them.
\<close>

partial_function (option) hull_loop ::
  "Vec2d list \<Rightarrow> nat \<Rightarrow> nat \<Rightarrow> nat list \<Rightarrow> nat list option" where
  "hull_loop pts l p hull_v =
     (let hull_v = hull_v @ [p];
          n = length pts;
          q = fold (\<lambda>i q. if orientation (pts ! p) (pts ! i) (pts ! q) = 2 then i else q)
                [0..<n] ((p + 1) mod n)
      in if q \<noteq> l then hull_loop pts l q hull_v else Some hull_v)"

text \<open>
  \<open>pts_convex_hull(inpts, pfn)\<close>. \<open>pfn\<close> reads a matrix row and has no result out of
  range; it is called on every input once there are three of them.
\<close>

definition pts_convex_hull :: "ClusterEl \<Rightarrow> (nat \<Rightarrow> Vec2d option) \<Rightarrow> ClusterEl option" where
  "pts_convex_hull inpts pfn =
     (if length inpts < 3 then Some inpts
      else do {
        pts \<leftarrow> those (map pfn inpts);
        let l = leftmost pts;
        hull_loop pts l l []
      })"

subsection \<open>The stage ROUTING_GROUND\<close>

text \<open>
  Modelled from the spec: \<open>SpatIndex\<close> (SLASpatIndex.hpp) is not among the sources. It
  holds \<open>(point, id)\<close> pairs; \<open>insert\<close> adds one and \<open>query\<close> returns those that satisfy a
  predicate, in an order the spec leaves open: here the order of insertion.
\<close>

type_synonym SpatIndex = "SpatElement list"

definition spat_insert :: "SpatElement \<Rightarrow> SpatIndex \<Rightarrow> SpatIndex" where
  "spat_insert el index = index @ [el]"

definition spat_query :: "SpatIndex \<Rightarrow> (SpatElement \<Rightarrow> bool) \<Rightarrow> SpatElement list" where
  "spat_query index pred = filter pred index"

text \<open>
  \<open>std::max_element\<close> with the comparison \<open>se1.first(2) < se2.first(2)\<close>: the first of the
  largest elements. The argument is not empty where it is called.
\<close>

definition max_element_z :: "SpatElement list \<Rightarrow> SpatElement" where
  "max_element_z juncs =
     fold (\<lambda>se largest. if vZ (fst largest) < vZ (fst se) then se else largest)
       (tl juncs) (hd juncs)"

text \<open>\<open>std::set_difference\<close> of two sorted ranges.\<close>

fun set_difference :: "nat list \<Rightarrow> nat list \<Rightarrow> nat list" where
  "set_difference [] ys = []"
| "set_difference (x # xs) [] = x # xs"
| "set_difference (x # xs) (y # ys) =
     (if x < y then x # set_difference xs (y # ys)
      else if y < x then set_difference (x # xs) ys
      else set_difference xs ys)"

text \<open>
  The lambda \<open>gnd_head_pt\<close> of \<open>generate\<close>, which reads \<open>ground_heads\<close> and
  \<open>head_positions\<close> by reference.
\<close>

definition gnd_head_pt :: "nat list \<Rightarrow> PointSet \<Rightarrow> nat \<Rightarrow> Vec3d option" where
  "gnd_head_pt ground_heads head_positions idx = do {
     g \<leftarrow> row ground_heads idx;
     row head_positions g
   }"

text \<open>
  The body of the loop \<open>for(auto c : cl)\<close> over the side heads of a cluster whose main
  head sits at \<open>index_to_heads\<close>. Junctions are built with the default 45 steps. The
  bridge is built from the references \<open>jjp\<close> and \<open>jjn\<close> that \<open>add_junction\<close> returned. When
  the second \<open>add_junction\<close> reallocates \<open>m_junctions\<close>, \<open>jjp\<close> dangles and the \<open>Bridge\<close>
  constructor reads it all the same: no result.
\<close>

definition route_sidehead ::
  "Ext \<Rightarrow> SupportConfig \<Rightarrow> nat list \<Rightarrow> nat \<Rightarrow> nat \<Rightarrow> Impl option \<Rightarrow> Impl option" where
  "route_sidehead E cfg gndidx index_to_heads c st = do {
     result \<leftarrow> st;
     let hbr = head_back_radius_mm cfg;
     g \<leftarrow> row gndidx c;
     sidehead \<leftarrow> row (m_heads result) g;
     let sidehead = transform E sidehead;
     sidehead \<leftarrow> add_tail (- 1) (- 1) sidehead;
     let result = result\<lparr>m_heads := (m_heads result)[g := sidehead]\<rparr>;
     let r_pillar = request_pillar_radius sidehead (pillar_radius_mm cfg);
     let jstep = fullwidth sidehead;
     let jp = junction_point sidehead;
     let jp = (vX jp, vY jp, vZ jp - jstep);
     head \<leftarrow> row (m_heads result) index_to_heads;
     let jh = junction_point head;
     let d = distance2d (vX jp, vY jp) (vX jh, vY jh);
     let jn = (vX jh, vY jh, vZ jp + d * sin (- tilt cfg));
     if vZ jn > 0 then do {
       jjp \<leftarrow> Junction_ctor jp hbr 45;
       let result = add_junction jjp result;
       cs \<leftarrow> Pillar_ctor sidehead g jp (pillar_radius_mm cfg);
       let result = add_pillar cs result;
       jjn \<leftarrow> Junction_ctor jn hbr 45;
       jjp \<leftarrow> (if emplace_moves E (length (m_junctions result)) then None else Some jjp);
       let result = add_junction jjn result;
       b \<leftarrow> Bridge_junctions E jjp jjn r_pillar;
       Some (add_bridge b result)
     } else do {
       let jp = (vX jp, vY jp, 0);
       sidecs \<leftarrow> Pillar_ctor sidehead g jp (pillar_radius_mm cfg);
       sidecs \<leftarrow> add_base (base_height_mm cfg) (base_radius_mm cfg) sidecs;
       Some (add_pillar sidecs result)
     }
   }"

text \<open>
  The body of the loop \<open>for(auto cl : gnd_clusters)\<close>, on the state
  \<open>(cl_centroids, result)\<close>. \<open>cluster_centroid\<close> evaluates \<open>gnd_head_pt\<close> on every member
  of a cluster of three or more. Its result goes into an \<open>unsigned\<close>: \<open>-1\<close>, for an empty
  cluster, becomes an index beyond the cluster.
\<close>

definition route_cluster ::
  "Ext \<Rightarrow> SupportConfig \<Rightarrow> nat list \<Rightarrow> PointSet \<Rightarrow> ClusterEl
    \<Rightarrow> (ClusterEl \<times> Impl) option \<Rightarrow> (ClusterEl \<times> Impl) option" where
  "route_cluster E cfg gndidx head_positions cl st = do {
     (cl_centroids, result) \<leftarrow> st;
     _ \<leftarrow> (if 3 \<le> length cl then those (map (gnd_head_pt gndidx head_positions) cl)
           else Some []);
     c \<leftarrow> cluster_centroid cl (\<lambda>i. the (gnd_head_pt gndidx head_positions i))
            (\<lambda>p1 p2. distance2d (vX p1, vY p1) (vX p2, vY p2));
     cidx \<leftarrow> (if c < 0 then None else Some (nat c));
     centroid \<leftarrow> row cl cidx;
     let cl_centroids = cl_centroids @ [centroid];
     index_to_heads \<leftarrow> row gndidx centroid;
     head \<leftarrow> row (m_heads result) index_to_heads;
     head \<leftarrow> add_tail (- 1) (- 1) head;
     let head = transform E head;
     let result = result\<lparr>m_heads := (m_heads result)[index_to_heads := head]\<rparr>;
     let startpoint = junction_point head;
     let endpoint = (vX startpoint, vY startpoint, 0);
     cs \<leftarrow> Pillar_ctor head index_to_heads endpoint (pillar_radius_mm cfg);
     cs \<leftarrow> add_base (base_height_mm cfg) (base_radius_mm cfg) cs;
     let result = add_pillar cs result;
     let cl = take cidx cl @ drop (Suc cidx) cl;
     result \<leftarrow> fold (route_sidehead E cfg gndidx index_to_heads) cl (Some result);
     Some (cl_centroids, result)
   }"

text \<open>
  The \<open>if\<close> statement in the inner \<open>while\<close> of the ring weaving: two junctions and the
  bridge between them, when the cast is clear and \<open>ej\<close> lies below the next head. The
  bridge is built from the references \<open>jS\<close> and \<open>jE\<close>; as above there is no result when the
  second \<open>add_junction\<close> reallocates \<open>m_junctions\<close> and leaves \<open>jS\<close> dangling.
\<close>

definition weave_bridge ::
  "Ext \<Rightarrow> SupportConfig \<Rightarrow> Pillar \<Rightarrow> real \<Rightarrow> real \<Rightarrow> Vec3d \<Rightarrow> Vec3d \<Rightarrow> dbl \<Rightarrow> Impl
    \<Rightarrow> Impl option" where
  "weave_bridge E cfg pillar pillar_dist nstartz sj ej chkd result =
     (if dbl_ge chkd pillar_dist \<and> nstartz > vZ ej
      then do {
        jS \<leftarrow> Junction_ctor sj (head_back_radius_mm cfg) 45;
        let result = add_junction jS result;
        jE \<leftarrow> Junction_ctor ej (head_back_radius_mm cfg) 45;
        jS \<leftarrow> (if emplace_moves E (length (m_junctions result)) then None else Some jS);
        let result = add_junction jE result;
        b \<leftarrow> Bridge_junctions E jS jE (pillar_r pillar);
        Some (add_bridge b result)
      }
      else Some result)"

text \<open>
  The inner \<open>while\<close> of the ring weaving, on the state \<open>(sj, ej, chkd, result)\<close>: its
  condition, its body, and the loop. The loop ends only if the junctions descend
  (\<open>pillar_dist * sin(-tilt) < 0\<close>).
\<close>

type_synonym weave_state = "Vec3d \<times> Vec3d \<times> dbl \<times> Impl"

definition weave_while_cond :: "Pillar \<Rightarrow> Pillar \<Rightarrow> weave_state \<Rightarrow> bool" where
  "weave_while_cond pillar nextpillar st =
     (case st of (sj, ej, chkd, result) \<Rightarrow>
        vZ (endpoint nextpillar) < vZ ej \<and> vZ (endpoint pillar) < vZ sj)"

definition weave_while_body ::
  "Ext \<Rightarrow> SupportConfig \<Rightarrow> EigenMesh3D \<Rightarrow> Pillar \<Rightarrow> real \<Rightarrow> real \<Rightarrow> weave_state
    \<Rightarrow> weave_state option" where
  "weave_while_body E cfg emesh pillar pillar_dist nstartz st =
     (case st of (sj, ej, chkd, result) \<Rightarrow> do {
        result \<leftarrow> weave_bridge E cfg pillar pillar_dist nstartz sj ej chkd result;
        let sj' = ej;
        let ej' = (vX sj, vY sj, vZ sj' + pillar_dist * sin (- tilt cfg));
        let chkd = ray_mesh_intersect E sj' (normalized (vsub ej' sj')) emesh;
        Some (sj', ej', chkd, result)
      })"

partial_function (option) weave_while ::
  "Ext \<Rightarrow> SupportConfig \<Rightarrow> EigenMesh3D \<Rightarrow> Pillar \<Rightarrow> Pillar \<Rightarrow> real \<Rightarrow> real
    \<Rightarrow> weave_state \<Rightarrow> weave_state option" where
  "weave_while E cfg emesh pillar nextpillar pillar_dist nstartz st =
     (if weave_while_cond pillar nextpillar st then
        (case weave_while_body E cfg emesh pillar pillar_dist nstartz st of
           None \<Rightarrow> None
         | Some st \<Rightarrow> weave_while E cfg emesh pillar nextpillar pillar_dist nstartz st)
      else Some st)"

text \<open>
  The states the inner \<open>while\<close> passes through, whether it ends or not: its state at the
  head of the loop after any number of turns.
\<close>

inductive weave_while_reaches ::
  "Ext \<Rightarrow> SupportConfig \<Rightarrow> EigenMesh3D \<Rightarrow> Pillar \<Rightarrow> Pillar \<Rightarrow> real \<Rightarrow> real
    \<Rightarrow> weave_state \<Rightarrow> weave_state \<Rightarrow> bool"
  for E cfg emesh pillar nextpillar pillar_dist nstartz where
  weave_while_start:
    "weave_while_reaches E cfg emesh pillar nextpillar pillar_dist nstartz st st"
| weave_while_turn:
    "weave_while_reaches E cfg emesh pillar nextpillar pillar_dist nstartz st st'
     \<Longrightarrow> weave_while_cond pillar nextpillar st'
     \<Longrightarrow> weave_while_body E cfg emesh pillar pillar_dist nstartz st' = Some st''
     \<Longrightarrow> weave_while_reaches E cfg emesh pillar nextpillar pillar_dist nstartz st st''"

text \<open>
  The start junction \<open>sj\<close> of a ring edge: the junction the index returns first among
  those around the pillar (every point of the index has \<open>z = 0\<close>), or the junction
  point of the pillar's head.
\<close>

definition start_junction :: "SpatIndex \<Rightarrow> Impl \<Rightarrow> Pillar \<Rightarrow> Vec3d option" where
  "start_junction junction_index result pillar =
     (let d = 2 * pillar_r pillar;
          p = endpoint pillar;
          pp = (vX p, vY p, 0);
          juncs = spat_query junction_index (\<lambda>se. distance3d pp (fst se) < d)
      in if juncs = [] then map_option junction_point (row (m_heads result) (headref pillar))
         else map_option pos (row (m_junctions result) (snd (max_element_z juncs))))"

text \<open>
  The body of the loop over the ring's edges \<open>(*it, *next)\<close>: what it computes before
  the inner \<open>while\<close> (the two pillars, \<open>pillar_dist\<close>, \<open>nstartz\<close> and the first state of the
  loop), and the whole body. \<open>pillar\<close> and \<open>nextpillar\<close> are references into \<open>m_pillars\<close>,
  which the weaving does not change.
\<close>

definition weave_edge_start ::
  "Ext \<Rightarrow> SupportConfig \<Rightarrow> EigenMesh3D \<Rightarrow> SpatIndex \<Rightarrow> nat \<times> nat \<Rightarrow> Impl
    \<Rightarrow> (Pillar \<times> Pillar \<times> real \<times> real \<times> weave_state) option" where
  "weave_edge_start E cfg emesh junction_index edge result = do {
     pillar \<leftarrow> row (m_pillars result) (fst edge);
     nextpillar \<leftarrow> row (m_pillars result) (snd edge);
     sj \<leftarrow> start_junction junction_index result pillar;
     let ej = endpoint nextpillar;
     let pillar_dist = distance2d (vX sj, vY sj) (vX ej, vY ej);
     let ej = (vX ej, vY ej, vZ sj + pillar_dist * sin (- tilt cfg));
     let chkd = ray_mesh_intersect E sj (normalized (vsub ej sj)) emesh;
     nexthead \<leftarrow> row (m_heads result) (headref nextpillar);
     let nstartz = vZ (junction_point nexthead);
     Some (pillar, nextpillar, pillar_dist, nstartz, (sj, ej, chkd, result))
   }"

definition weave_edge ::
  "Ext \<Rightarrow> SupportConfig \<Rightarrow> EigenMesh3D \<Rightarrow> SpatIndex \<Rightarrow> nat \<times> nat \<Rightarrow> Impl option
    \<Rightarrow> Impl option" where
  "weave_edge E cfg emesh junction_index edge st = do {
     result \<leftarrow> st;
     (pillar, nextpillar, pillar_dist, nstartz, st0) \<leftarrow>
       weave_edge_start E cfg emesh junction_index edge result;
     (sj, ej, chkd, result) \<leftarrow>
       weave_while E cfg emesh pillar nextpillar pillar_dist nstartz st0;
     Some result
   }"

text \<open>
  The trees the loop over the edges of a ring passes through, whether every inner loop
  ends or not: the tree it starts on, the trees within the inner loop of its first
  edge, and the trees the remaining edges pass through once the first edge is done.
\<close>

inductive weave_edges_reaches ::
  "Ext \<Rightarrow> SupportConfig \<Rightarrow> EigenMesh3D \<Rightarrow> SpatIndex \<Rightarrow> (nat \<times> nat) list \<Rightarrow> Impl \<Rightarrow> Impl
    \<Rightarrow> bool"
  for E cfg emesh junction_index where
  weave_edges_start:
    "weave_edges_reaches E cfg emesh junction_index edges result result"
| weave_edges_within:
    "weave_edge_start E cfg emesh junction_index edge result
       = Some (pillar, nextpillar, pillar_dist, nstartz, st0)
     \<Longrightarrow> weave_while_reaches E cfg emesh pillar nextpillar pillar_dist nstartz st0 st
     \<Longrightarrow> weave_edges_reaches E cfg emesh junction_index (edge # edges) result
           (snd (snd (snd st)))"
| weave_edges_next:
    "weave_edge E cfg emesh junction_index edge (Some result) = Some result'
     \<Longrightarrow> weave_edges_reaches E cfg emesh junction_index edges result' tree
     \<Longrightarrow> weave_edges_reaches E cfg emesh junction_index (edge # edges) result tree"

text \<open>
  The loop \<open>while(!rem.empty())\<close>. The ring holds positions within \<open>rem\<close>, which the
  source uses both as pillar indices and in the set difference; when no position is a
  member of \<open>rem\<close> the loop does not end. The edges are the consecutive pairs of the
  ring, without the closing one. (The ring is also printed to \<open>std::cout\<close>.)
\<close>

partial_function (option) weave_rings ::
  "Ext \<Rightarrow> SupportConfig \<Rightarrow> EigenMesh3D \<Rightarrow> nat list \<Rightarrow> PointSet \<Rightarrow> SpatIndex
    \<Rightarrow> ClusterEl \<Rightarrow> Impl \<Rightarrow> Impl option" where
  "weave_rings E cfg emesh gndidx head_positions junction_index rem result =
     (if rem = [] then Some result
      else
        (let rem = sort rem in
         case pts_convex_hull rem
                (\<lambda>i. map_option (\<lambda>p. (vX p, vY p)) (gnd_head_pt gndidx head_positions i)) of
           None \<Rightarrow> None
         | Some ring \<Rightarrow>
             (case fold (weave_edge E cfg emesh junction_index) (zip ring (tl ring))
                     (Some result) of
                None \<Rightarrow> None
              | Some result \<Rightarrow>
                  weave_rings E cfg emesh gndidx head_positions junction_index
                    (set_difference rem (sort ring)) result)))"

text \<open>
  The trees the loop \<open>while(!rem.empty())\<close> passes through, whether it ends or not: the
  tree it starts on, the trees the edges of its first ring pass through, and the trees
  the remaining rings pass through once the first ring is done.
\<close>

inductive weave_rings_reaches ::
  "Ext \<Rightarrow> SupportConfig \<Rightarrow> EigenMesh3D \<Rightarrow> nat list \<Rightarrow> PointSet \<Rightarrow> SpatIndex
    \<Rightarrow> ClusterEl \<Rightarrow> Impl \<Rightarrow> Impl \<Rightarrow> bool"
  for E cfg emesh gndidx head_positions junction_index where
  weave_rings_start:
    "weave_rings_reaches E cfg emesh gndidx head_positions junction_index rem result result"
| weave_rings_within:
    "rem \<noteq> []
     \<Longrightarrow> pts_convex_hull (sort rem)
           (\<lambda>i. map_option (\<lambda>p. (vX p, vY p)) (gnd_head_pt gndidx head_positions i))
         = Some ring
     \<Longrightarrow> weave_edges_reaches E cfg emesh junction_index (zip ring (tl ring)) result tree
     \<Longrightarrow> weave_rings_reaches E cfg emesh gndidx head_positions junction_index rem result tree"
| weave_rings_next:
    "rem \<noteq> []
     \<Longrightarrow> pts_convex_hull (sort rem)
           (\<lambda>i. map_option (\<lambda>p. (vX p, vY p)) (gnd_head_pt gndidx head_positions i))
         = Some ring
     \<Longrightarrow> fold (weave_edge E cfg emesh junction_index) (zip ring (tl ring)) (Some result)
         = Some result'
     \<Longrightarrow> weave_rings_reaches E cfg emesh gndidx head_positions junction_index
           (set_difference (sort rem) (sort ring)) result' tree
     \<Longrightarrow> weave_rings_reaches E cfg emesh gndidx head_positions junction_index rem result tree"

text \<open>Filling the spatial index from the junctions of the tree.\<close>

definition fill_junction_index :: "Junction list \<Rightarrow> SpatIndex" where
  "fill_junction_index junctions =
     fold (\<lambda>(index, j). spat_insert ((vX (pos j), vY (pos j), 0), index))
       (zip [0..<length junctions] junctions) []"

text \<open>\<open>routing_ground_fn\<close>.\<close>

definition routing_ground_fn ::
  "Ext \<Rightarrow> SupportConfig \<Rightarrow> ClusteredPoints \<Rightarrow> nat list \<Rightarrow> EigenMesh3D \<Rightarrow> PointSet \<Rightarrow> Impl
    \<Rightarrow> Impl option" where
  "routing_ground_fn E cfg gnd_clusters gndidx emesh head_positions result = do {
     (cl_centroids, result) \<leftarrow>
       fold (route_cluster E cfg gndidx head_positions) gnd_clusters (Some ([], result));
     let junction_index = fill_junction_index (m_junctions result);
     let rem = cl_centroids;
     weave_rings E cfg emesh gndidx head_positions junction_index rem result
   }"

text \<open>
  For the statement of what the ring weaving guarantees: a bridge between two junctions
  of the configured back radius at \<open>sj\<close> and \<open>ej\<close> is clear when the ray cast from \<open>sj\<close>
  toward \<open>ej\<close> meets the mesh no nearer than the distance of \<open>sj\<close> and \<open>ej\<close> in the plane.
\<close>

definition clear_bridge :: "Ext \<Rightarrow> SupportConfig \<Rightarrow> EigenMesh3D \<Rightarrow> Bridge \<Rightarrow> bool" where
  "clear_bridge E cfg emesh b \<longleftrightarrow>
     (\<exists>sj ej jS jE r.
        Junction_ctor sj (head_back_radius_mm cfg) 45 = Some jS
      \<and> Junction_ctor ej (head_back_radius_mm cfg) 45 = Some jE
      \<and> Bridge_junctions E jS jE r = Some b
      \<and> dbl_ge (ray_mesh_intersect E sj (normalized (vsub ej sj)) emesh)
           (distance2d (vX sj, vY sj) (vX ej, vY ej)))"

text \<open>
  What the ring weaving may add to a tree: junctions and clear bridges behind those
  already there, and nothing else.
\<close>

definition weave_adds :: "Ext \<Rightarrow> SupportConfig \<Rightarrow> EigenMesh3D \<Rightarrow> Impl \<Rightarrow> Impl \<Rightarrow> bool" where
  "weave_adds E cfg emesh result result' \<longleftrightarrow>
     m_heads result' = m_heads result \<and> m_pillars result' = m_pillars result
     \<and> (\<exists>js. m_junctions result' = m_junctions result @ js)
     \<and> (\<exists>bs. m_bridges result' = m_bridges result @ bs
           \<and> (\<forall>b \<in> set bs. clear_bridge E cfg emesh b))"

subsection \<open>The control step of \<open>SLASupportTree::generate\<close>\<close>

text \<open>The local \<open>enum Steps\<close>; \<open>NUM_STEPS\<close> (the array length, 10) is not a state.\<close>

datatype Steps =
  BEGIN | FILTER | PINHEADS | CLASSIFY | ROUTING_GROUND | ROUTING_NONGROUND
  | HEADLESS | DONE | HALT | ABORT

text \<open>The value of each enumerator, used by the comparison \<open>pc < DONE\<close>.\<close>

fun step_index :: "Steps \<Rightarrow> nat" where
  "step_index BEGIN = 0"
| "step_index FILTER = 1"
| "step_index PINHEADS = 2"
| "step_index CLASSIFY = 3"
| "step_index ROUTING_GROUND = 4"
| "step_index ROUTING_NONGROUND = 5"
| "step_index HEADLESS = 6"
| "step_index DONE = 7"
| "step_index HALT = 8"
| "step_index ABORT = 9"

text \<open>\<open>Controller::Cmd\<close>, the commands \<open>ctl.nextcmd\<close> hands to the planner.\<close>

datatype Cmd = START_RESUME | PAUSE | STOP | SYNCH

text \<open>
  \<open>stepstr\<close>: the initialiser lacks three commas, so adjacent literals are concatenated,
  seven strings initialise the ten slots and the last three are empty.
\<close>

fun stepstr :: "Steps \<Rightarrow> string" where
  "stepstr BEGIN = ''Filtering''"
| "stepstr FILTER = ''Generate pinheadsClassification''"
| "stepstr PINHEADS = ''Routing to ground''"
| "stepstr CLASSIFY = ''Routing supports to model surface''"
| "stepstr ROUTING_GROUND = ''Processing small holesDone''"
| "stepstr ROUTING_NONGROUND = ''Halt''"
| "stepstr HEADLESS = ''Abort''"
| "stepstr DONE = ''''"
| "stepstr HALT = ''''"
| "stepstr ABORT = ''''"

fun stepstate :: "Steps \<Rightarrow> nat" where
  "stepstate BEGIN = 0"
| "stepstate FILTER = 10"
| "stepstate PINHEADS = 30"
| "stepstate CLASSIFY = 50"
| "stepstate ROUTING_GROUND = 60"
| "stepstate ROUTING_NONGROUND = 70"
| "stepstate HEADLESS = 80"
| "stepstate DONE = 100"
| "stepstate HALT = 0"
| "stepstate ABORT = 0"

text \<open>The inner \<open>switch(pc)\<close> of the \<open>START_RESUME\<close> case.\<close>

fun start_resume :: "Steps \<Rightarrow> Steps \<Rightarrow> Steps" where
  "start_resume BEGIN pc_prev = FILTER"
| "start_resume FILTER pc_prev = PINHEADS"
| "start_resume PINHEADS pc_prev = CLASSIFY"
| "start_resume CLASSIFY pc_prev = ROUTING_GROUND"
| "start_resume ROUTING_GROUND pc_prev = ROUTING_NONGROUND"
| "start_resume ROUTING_NONGROUND pc_prev = HEADLESS"
| "start_resume HEADLESS pc_prev = DONE"
| "start_resume HALT pc_prev = pc_prev"
| "start_resume DONE pc_prev = DONE"
| "start_resume ABORT pc_prev = ABORT"

text \<open>
  The lambda \<open>progress\<close>. Its state is the pair \<open>(pc, pc_prev)\<close>; the command is the value
  \<open>ctl.nextcmd\<close> returned; the result carries the calls of \<open>ctl.statuscb\<close> made by the
  step, in order (none under \<open>SYNCH\<close>).
\<close>

fun progress :: "Cmd \<Rightarrow> Steps \<times> Steps \<Rightarrow> (Steps \<times> Steps) \<times> (nat \<times> string) list" where
  "progress START_RESUME (pc, pc_prev) =
     (let pc' = start_resume pc pc_prev
      in ((pc', pc_prev), [(stepstate pc', stepstr pc')]))"
| "progress PAUSE (pc, pc_prev) = ((HALT, pc), [(stepstate HALT, stepstr HALT)])"
| "progress STOP (pc, pc_prev) = ((ABORT, pc_prev), [(stepstate ABORT, stepstr ABORT)])"
| "progress SYNCH (pc, pc_prev) = ((BEGIN, pc_prev), [])"

text \<open>The condition of the driving loop, \<open>while(pc < DONE || pc == HALT)\<close>.\<close>

definition loop_cond :: "Steps \<Rightarrow> bool" where
  "loop_cond pc \<longleftrightarrow> step_index pc < step_index DONE \<or> pc = HALT"

subsection \<open>The host model, \<open>support_points\<close> and \<open>to_eigenmesh\<close>\<close>

text \<open>
  Modelled from the spec: \<open>Model\<close>, \<open>ModelObject\<close> and \<open>ModelInstance\<close> (Model.hpp) are
  not among the sources. A model provides objects; an object has instances, a raw
  triangle mesh, a list of support points in local coordinates and the volumes added
  to it; an instance has a world transform, which \<open>transform_vector\<close> applies to a
  point and \<open>transform_mesh\<close> to every vertex of a mesh. The \<open>Vec3f\<close> support points
  are reals like every other coordinate.
\<close>

record ModelInstance =
  transform_vector :: "Vec3d \<Rightarrow> Vec3d"

type_synonym stl_facet = "Vec3d \<times> Vec3d \<times> Vec3d"

record ModelObject =
  instances :: "ModelInstance list"
  sla_support_points :: "Vec3d list"
  raw_mesh :: "stl_facet list"
  volumes :: "Contour3D list"

record Model =
  objects :: "ModelObject list"

definition model_coord :: "ModelInstance \<Rightarrow> Vec3d \<Rightarrow> Vec3d" where
  "model_coord object mesh_coord = transform_vector object mesh_coord"

text \<open>
  \<open>support_points\<close>. \<open>PointSet ret(sum, 3)\<close> allocates \<open>sum\<close> rows without writing them:
  a row is \<open>None\<close> until it is assigned. The row counter \<open>i\<close> starts at 0 for every
  instance.
\<close>

definition support_points :: "Model \<Rightarrow> Vec3d option list" where
  "support_points model =
     (let sum_v = fold (\<lambda>obj sum_v. sum_v + length (instances obj) * length (sla_support_points obj))
                    (objects model) 0;
          ret = replicate sum_v None
      in fold (\<lambda>obj ret.
           fold (\<lambda>inst ret.
             fold (\<lambda>(i, msource) ret. ret[i := Some (model_coord inst msource)])
               (zip [0..<length (sla_support_points obj)] (sla_support_points obj)) ret)
             (instances obj) ret)
           (objects model) ret)"

text \<open>\<open>to_eigenmesh(model)\<close>: every instance's transformed copy of its object's mesh, merged.\<close>

definition to_eigenmesh :: "Model \<Rightarrow> EigenMesh3D" where
  "to_eigenmesh model =
     (let combined_mesh =
            concat (map (\<lambda>obj. concat (map (\<lambda>inst.
                map (\<lambda>(a, b, c). (transform_vector inst a, transform_vector inst b,
                                   transform_vector inst c)) (raw_mesh obj))
              (instances obj))) (objects model))
      in \<lparr>V = concat (map (\<lambda>(a, b, c). [a, b, c]) combined_mesh),
          F = map (\<lambda>i. (3 * i + 0, 3 * i + 1, 3 * i + 2)) [0..<length combined_mesh]\<rparr>)"

subsection \<open>\<open>SLASupportTree::generate\<close> and \<open>add_sla_supports\<close>\<close>

text \<open>
  The local variables of \<open>generate\<close> that the stages share, with the tree \<open>result\<close>, the
  program counter, and the calls of \<open>ctl.statuscb\<close> made so far. The fields carry the
  prefix \<open>g_\<close>, which leaves the plain names to the variables of the stages.
\<close>

record Planner =
  g_filtered_points :: PointSet
  g_filtered_normals :: PointSet
  g_head_positions :: PointSet
  g_headless_positions :: PointSet
  g_head_heights :: "dbl list"
  g_ground_heads :: "nat list"
  g_noground_heads :: "nat list"
  g_ground_connectors :: ClusteredPoints
  g_result :: Impl
  g_pc :: Steps
  g_pc_prev :: Steps
  g_statuscb :: "(nat \<times> string) list"

definition init_Planner :: "Impl \<Rightarrow> Planner" where
  "init_Planner impl =
     \<lparr>g_filtered_points = [], g_filtered_normals = [], g_head_positions = [],
      g_headless_positions = [], g_head_heights = [], g_ground_heads = [], g_noground_heads = [],
      g_ground_connectors = [], g_result = impl, g_pc = BEGIN, g_pc_prev = BEGIN, g_statuscb = []\<rparr>"

text \<open>
  The array \<open>program\<close>: the worker of each step, on the shared variables. \<open>points\<close> is
  what \<open>support_points\<close> returned, rows it never wrote included. Only \<open>filterfn\<close> receives
  \<open>points\<close>, and it hands all of them to \<open>cluster\<close>: an unwritten row holds no determined
  value, and the step has no result.
\<close>

fun program ::
  "Ext \<Rightarrow> SupportConfig \<Rightarrow> Vec3d option list \<Rightarrow> EigenMesh3D \<Rightarrow> Steps \<Rightarrow> Planner
    \<Rightarrow> Planner option" where
  "program E cfg support_pts mesh FILTER st = do {
     read_pts \<leftarrow> those support_pts;
     (filt_pts, filt_norm, head_pos, headless_pos) \<leftarrow> filterfn E cfg read_pts mesh;
     Some (st\<lparr>g_filtered_points := filt_pts, g_filtered_normals := filt_norm,
              g_head_positions := head_pos, g_headless_positions := headless_pos\<rparr>)
   }"
| "program E cfg support_pts mesh PINHEADS st = do {
     res \<leftarrow> pinheadfn E cfg (g_head_positions st) (g_filtered_normals st) (g_result st);
     Some (st\<lparr>g_result := res\<rparr>)
   }"
| "program E cfg support_pts mesh CLASSIFY st = do {
     (gndidx, nogndidx, gndheight, ground_clusters, res) \<leftarrow>
       classifyfn E cfg mesh (g_head_positions st)
         (g_ground_heads st, g_noground_heads st, g_head_heights st, g_ground_connectors st, g_result st);
     Some (st\<lparr>g_ground_heads := gndidx, g_noground_heads := nogndidx, g_head_heights := gndheight,
              g_ground_connectors := ground_clusters, g_result := res\<rparr>)
   }"
| "program E cfg support_pts mesh ROUTING_GROUND st = do {
     res \<leftarrow> routing_ground_fn E cfg (g_ground_connectors st) (g_ground_heads st) mesh
              (g_head_positions st) (g_result st);
     Some (st\<lparr>g_result := res\<rparr>)
   }"
| "program E cfg support_pts mesh BEGIN st = Some st"
| "program E cfg support_pts mesh ROUTING_NONGROUND st = Some st"
| "program E cfg support_pts mesh HEADLESS st = Some st"
| "program E cfg support_pts mesh DONE st = Some st"
| "program E cfg support_pts mesh HALT st = Some st"
| "program E cfg support_pts mesh ABORT st = Some st"

text \<open>
  The loop \<open>while(pc < DONE || pc == HALT) { progress(); program[pc](); }\<close>. The list holds
  the commands \<open>ctl.nextcmd\<close> returns, one per turn; when it is used up while the loop
  still runs, \<open>nextcmd\<close> has nothing to return and there is no result.
\<close>

primrec generate_loop ::
  "Ext \<Rightarrow> SupportConfig \<Rightarrow> Vec3d option list \<Rightarrow> EigenMesh3D \<Rightarrow> Cmd list \<Rightarrow> Planner
    \<Rightarrow> Planner option" where
  "generate_loop E cfg support_pts mesh [] st = (if loop_cond (g_pc st) then None else Some st)"
| "generate_loop E cfg support_pts mesh (cmd # cmds) st =
     (if loop_cond (g_pc st) then
        (let (pcs, msgs) = progress cmd (g_pc st, g_pc_prev st);
             st = st\<lparr>g_pc := fst pcs, g_pc_prev := snd pcs, g_statuscb := g_statuscb st @ msgs\<rparr>
         in case program E cfg support_pts mesh (g_pc st) st of
              None \<Rightarrow> None
            | Some st \<Rightarrow> generate_loop E cfg support_pts mesh cmds st)
      else Some st)"

text \<open>
  \<open>generate(model, cfg, ctl)\<close> on the tree \<open>m_impl\<close>: the returned flag \<open>pc == ABORT\<close> and
  the tree.
\<close>

definition generate ::
  "Ext \<Rightarrow> Impl \<Rightarrow> Model \<Rightarrow> SupportConfig \<Rightarrow> Cmd list \<Rightarrow> (bool \<times> Impl) option" where
  "generate E m_impl model cfg ctl = do {
     let support_pts = support_points model;
     let mesh = to_eigenmesh model;
     st \<leftarrow> generate_loop E cfg support_pts mesh ctl (init_Planner m_impl);
     Some (g_pc st = ABORT, g_result st)
   }"

text \<open>
  The volumes \<open>add_sla_supports\<close> adds, in its order: per head the mesh and the tail,
  per pillar the mesh and the base, then the junctions, then the bridges.
\<close>

definition tree_volumes :: "Impl \<Rightarrow> Contour3D list" where
  "tree_volumes stree =
     concat (map (\<lambda>head. [head_mesh head, tail_mesh (tail head)]) (m_heads stree))
     @ concat (map (\<lambda>stick. [pillar_mesh stick, pillar_base stick]) (m_pillars stree))
     @ map junction_mesh (m_junctions stree)
     @ map bridge_mesh (m_bridges stree)"

text \<open>
  \<open>add_sla_supports\<close>: the planner runs on a fresh tree, its returned flag is dropped,
  and a new object with one instance (modelled from the spec: the identity transform)
  receives the volumes.
\<close>

definition add_sla_supports :: "Ext \<Rightarrow> Model \<Rightarrow> SupportConfig \<Rightarrow> Cmd list \<Rightarrow> Model option" where
  "add_sla_supports E model cfg ctl = do {
     (aborted, stree) \<leftarrow> generate E empty_Impl model cfg ctl;
     let obj = \<lparr>instances = [\<lparr>transform_vector = (\<lambda>v. v)\<rparr>], sla_support_points = [],
              raw_mesh = [], volumes = tree_volumes stree\<rparr>;
     Some (model\<lparr>objects := objects model @ [obj]\<rparr>)
   }"

subsection \<open>Concrete inputs\<close>

text \<open>
  Closed inputs on which the theorems below are evaluated. The collaborators are
  instantiated by simple functions of their own kind: a \<open>merge\<close> that appends and shifts
  the indices, the rotation that turns one unit vector into another along the shorter
  arc, interrogators for an empty scene, for a wall \<open>x = c\<close> and for a plate \<open>z = c\<close>,
  a surface with one normal everywhere, a clustering that links no two points, and
  vectors that double their capacity.
\<close>

definition merge_example :: "Contour3D \<Rightarrow> Contour3D \<Rightarrow> Contour3D" where
  "merge_example a b =
     (let s3 = int (length (points a))
      in \<lparr>points = points a @ points b,
          indices = indices a @ map (\<lambda>(i, j, k). (i + s3, j + s3, k + s3)) (indices b)\<rparr>)"

definition cross :: "Vec3d \<Rightarrow> Vec3d \<Rightarrow> Vec3d" where
  "cross a b = (vY a * vZ b - vZ a * vY b, vZ a * vX b - vX a * vZ b, vX a * vY b - vY a * vX b)"

definition dot :: "Vec3d \<Rightarrow> Vec3d \<Rightarrow> real" where
  "dot a b = vX a * vX b + vY a * vY b + vZ a * vZ b"

definition rotation_example :: "Vec3d \<Rightarrow> Vec3d \<Rightarrow> Vec3d \<Rightarrow> Vec3d" where
  "rotation_example a b p =
     (let v0 = normalized a; v1 = normalized b;
          v = cross v0 v1; c = dot v0 v1
      in vadd p (vadd (cross v p) (smul (1 / (1 + c)) (cross v (cross v p)))))"

definition ray_free :: "Vec3d \<Rightarrow> Vec3d \<Rightarrow> EigenMesh3D \<Rightarrow> dbl" where
  "ray_free s dir m = PosInf"

definition ray_plane_x :: "real \<Rightarrow> Vec3d \<Rightarrow> Vec3d \<Rightarrow> EigenMesh3D \<Rightarrow> dbl" where
  "ray_plane_x c s dir m =
     (if vX dir \<noteq> 0 \<and> 0 < (c - vX s) / vX dir then Dbl ((c - vX s) / vX dir) else PosInf)"

definition ray_plane_z :: "real \<Rightarrow> Vec3d \<Rightarrow> Vec3d \<Rightarrow> EigenMesh3D \<Rightarrow> dbl" where
  "ray_plane_z c s dir m =
     (if vZ dir \<noteq> 0 \<and> 0 < (c - vZ s) / vZ dir then Dbl ((c - vZ s) / vZ dir) else PosInf)"

text \<open>
  Two libraries: one whose vectors take the capacities 1, 2, 4, 8, ... as they grow,
  as the common ones do, and one whose vectors take the capacities 4, 8, 16, ....
  \<open>emplace_back\<close> reallocates when the size has reached the capacity.
\<close>

definition grows_doubling :: "nat \<Rightarrow> bool" where
  "grows_doubling n \<longleftrightarrow> n = 0 \<or> (\<exists>k < n. n = 2 ^ k)"

definition grows_from_four :: "nat \<Rightarrow> bool" where
  "grows_from_four n \<longleftrightarrow> n = 0 \<or> (4 \<le> n \<and> (\<exists>k < n. n = 2 ^ k))"

definition ext_example :: "(Vec3d \<Rightarrow> Vec3d \<Rightarrow> EigenMesh3D \<Rightarrow> dbl) \<Rightarrow> Vec3d \<Rightarrow> Ext" where
  "ext_example ray n =
     \<lparr>merge = merge_example,
      FromTwoVectors = rotation_example,
      ray_mesh_intersect = ray,
      normals = (\<lambda>pts m. map (\<lambda>p. n) pts),
      cluster = (\<lambda>pts pred max_points. map (\<lambda>i. [i]) [0..<length pts]),
      emplace_moves = grows_doubling\<rparr>"

text \<open>The same collaborators with the library whose vectors start with room for four.\<close>

definition ext_roomy :: "(Vec3d \<Rightarrow> Vec3d \<Rightarrow> EigenMesh3D \<Rightarrow> dbl) \<Rightarrow> Vec3d \<Rightarrow> Ext" where
  "ext_roomy ray n = (ext_example ray n)\<lparr>emplace_moves := grows_from_four\<rparr>"

text \<open>The standard configuration of the spec's scenario S2.\<close>

definition cfg_std :: SupportConfig where
  "cfg_std =
     \<lparr>head_front_radius_mm = 0.2, head_back_radius_mm = 0.5, head_width_mm = 1.0,
      pillar_radius_mm = 0.3, base_radius_mm = 1.0, base_height_mm = 1.0,
      tilt = pi / 4, junction_distance = 1.0\<rparr>"

definition mesh_example :: EigenMesh3D where
  "mesh_example = \<lparr>V = [(0, 0, 10), (1, 0, 10), (0, 1, 10)], F = [(0, 1, 2)]\<rparr>"

text \<open>A head of the standard configuration at \<open>(x, y, 10)\<close>, pointing straight down.\<close>

definition head_at :: "Ext \<Rightarrow> real \<Rightarrow> real \<Rightarrow> Head" where
  "head_at E x y = the (Head_ctor E 0.5 0.2 1.0 (0, 0, - 1) (x, y, 10) 45)"

text \<open>One object with one support point \<open>(1, 2, 3)\<close> and two instances, 10 apart in \<open>x\<close>.\<close>

definition model_two_instances :: Model where
  "model_two_instances =
     \<lparr>objects = [\<lparr>instances = [\<lparr>transform_vector = (\<lambda>v. v)\<rparr>,
                              \<lparr>transform_vector = (\<lambda>v. vadd v (10, 0, 0))\<rparr>],
                 sla_support_points = [(1, 2, 3)],
                 raw_mesh = [((0, 0, 3), (2, 0, 3), (0, 4, 3))],
                 volumes = []\<rparr>]\<rparr>"

text \<open>One object with one instance and one support point \<open>(0, 0, 10)\<close>.\<close>

definition model_one_point :: Model where
  "model_one_point =
     \<lparr>objects = [\<lparr>instances = [\<lparr>transform_vector = (\<lambda>v. v)\<rparr>],
                 sla_support_points = [(0, 0, 10)],
                 raw_mesh = [((0, 0, 10), (1, 0, 10), (0, 1, 10))],
                 volumes = []\<rparr>]\<rparr>"

text \<open>
  Three points on a line, at 0, 1 and 3, and the distance in the plane that
  \<open>routing_ground_fn\<close> hands to \<open>cluster_centroid\<close>.
\<close>

definition points_on_line :: "nat \<Rightarrow> Vec3d" where
  "points_on_line i = [(0, 0, 0), (1, 0, 0), (3, 0, 0)] ! i"

definition dist_xy :: "Vec3d \<Rightarrow> Vec3d \<Rightarrow> real" where
  "dist_xy p1 p2 = distance2d (vX p1, vY p1) (vX p2, vY p2)"

text \<open>
  The standard configuration with bridges that descend by half their run in the plane.
\<close>

definition cfg_tilt30 :: SupportConfig where
  "cfg_tilt30 = cfg_std\<lparr>tilt := pi / 6\<rparr>"

text \<open>
  The primitives the constructors return where they return one, as the planner builds them:
  a junction of 45 steps, the bridge of two junctions, a head with its default tail, the
  pillar of a head and a pillar with its base.
\<close>

definition junction_at :: "Vec3d \<Rightarrow> real \<Rightarrow> Junction" where
  "junction_at p r = the (Junction_ctor p r 45)"

definition bridge_of :: "Ext \<Rightarrow> Junction \<Rightarrow> Junction \<Rightarrow> real \<Rightarrow> Bridge" where
  "bridge_of E j1 j2 r = the (Bridge_junctions E j1 j2 r)"

definition tailed :: "Head \<Rightarrow> Head" where
  "tailed h = the (add_tail (- 1) (- 1) h)"

definition pillar_of :: "Head \<Rightarrow> nat \<Rightarrow> Vec3d \<Rightarrow> real \<Rightarrow> Pillar" where
  "pillar_of h i e r = the (Pillar_ctor h i e r)"

definition based :: "real \<Rightarrow> real \<Rightarrow> Pillar \<Rightarrow> Pillar" where
  "based height radius p = the (add_base height radius p)"

text \<open>
  A ground head of the standard configuration at \<open>(x, y, 10)\<close> after ROUTING_GROUND has
  given it its tail, and its pillar down to the ground, with the standard base.
\<close>

definition ground_head :: "Ext \<Rightarrow> real \<Rightarrow> real \<Rightarrow> Head" where
  "ground_head E x y = transform E (tailed (head_at E x y))"

definition ground_pillar :: "Ext \<Rightarrow> nat \<Rightarrow> real \<Rightarrow> real \<Rightarrow> Pillar" where
  "ground_pillar E i x y = based 1 1 (pillar_of (ground_head E x y) i (x, y, 0) 0.3)"

text \<open>
  Two heads, 2 apart in \<open>x\<close>, as PINHEADS leaves them.
\<close>

definition heads_pair :: "Ext \<Rightarrow> Impl" where
  "heads_pair E =
     \<lparr>m_heads = [head_at E 0 0, head_at E 2 0], m_pillars = [], m_junctions = [],
      m_bridges = []\<rparr>"

definition positions_triangle :: PointSet where
  "positions_triangle = [(0, 0, 10), (12, 0, 10), (12, 16, 10)]"

text \<open>
  Three heads at the corners of a right triangle with legs 12 and 16, as PINHEADS leaves
  them; the tree once each has its pillar; the tree once the ring of the three pillars
  is woven.
\<close>

definition heads_triangle :: "Ext \<Rightarrow> Impl" where
  "heads_triangle E =
     \<lparr>m_heads = [head_at E 0 0, head_at E 12 0, head_at E 12 16],
      m_pillars = [], m_junctions = [], m_bridges = []\<rparr>"

definition pillars_triangle :: "Ext \<Rightarrow> Impl" where
  "pillars_triangle E =
     \<lparr>m_heads = [ground_head E 0 0, ground_head E 12 0, ground_head E 12 16],
      m_pillars = [ground_pillar E 0 0 0, ground_pillar E 1 12 0, ground_pillar E 2 12 16],
      m_junctions = [], m_bridges = []\<rparr>"

definition woven_triangle :: "Ext \<Rightarrow> Impl" where
  "woven_triangle E =
     (pillars_triangle E)
       \<lparr>m_junctions := [junction_at (0, 0, 8.1) 0.5, junction_at (12, 0, 2.1) 0.5,
                        junction_at (12, 0, 8.1) 0.5, junction_at (12, 16, 0.1) 0.5],
        m_bridges := [bridge_of E (junction_at (0, 0, 8.1) 0.5) (junction_at (12, 0, 2.1) 0.5) 0.3,
                      bridge_of E (junction_at (12, 0, 8.1) 0.5) (junction_at (12, 16, 0.1) 0.5)
                        0.3]\<rparr>"

text \<open>
  The triangle once a wall at \<open>x = 6\<close> has kept the ring from bridging its first edge:
  after one pass over the ring, and after two.
\<close>

definition walled_triangle :: "Ext \<Rightarrow> Impl" where
  "walled_triangle E =
     (pillars_triangle E)
       \<lparr>m_junctions := [junction_at (12, 0, 8.1) 0.5, junction_at (12, 16, 0.1) 0.5],
        m_bridges := [bridge_of E (junction_at (12, 0, 8.1) 0.5) (junction_at (12, 16, 0.1) 0.5)
                        0.3]\<rparr>"

definition rewoven_triangle :: "Ext \<Rightarrow> Impl" where
  "rewoven_triangle E =
     (pillars_triangle E)
       \<lparr>m_junctions := [junction_at (12, 0, 8.1) 0.5, junction_at (12, 16, 0.1) 0.5,
                        junction_at (12, 0, 8.1) 0.5, junction_at (12, 16, 0.1) 0.5],
        m_bridges := [bridge_of E (junction_at (12, 0, 8.1) 0.5) (junction_at (12, 16, 0.1) 0.5)
                        0.3,
                      bridge_of E (junction_at (12, 0, 8.1) 0.5) (junction_at (12, 16, 0.1) 0.5)
                        0.3]\<rparr>"

section \<open>Properties\<close>

subsection \<open>The control step\<close>

text \<open>
  Claim C2, as stated, has every transition report a percentage. Under \<open>SYNCH\<close> the
  planner resets to \<open>BEGIN\<close> and calls \<open>statuscb\<close> not at all: from \<open>FILTER\<close> the step
  reports nothing, so the percentage 0 of \<open>BEGIN\<close> is never sent.
\<close>

theorem progress_synch_reports_nothing:
  "progress SYNCH (FILTER, BEGIN) = ((BEGIN, BEGIN), [])
   \<and> map fst (snd (progress SYNCH (FILTER, BEGIN))) \<noteq> [stepstate BEGIN]"
  by simp

text \<open>
  Claim C2, amended: under \<open>START_RESUME\<close> the state advances one step along
  \<open>BEGIN, FILTER, PINHEADS, CLASSIFY, ROUTING_GROUND, ROUTING_NONGROUND, HEADLESS, DONE\<close>
  (staying at \<open>DONE\<close> and at \<open>ABORT\<close>), and from \<open>HALT\<close> it returns to the state saved at
  the last \<open>PAUSE\<close>; \<open>PAUSE\<close> saves the current state and moves to \<open>HALT\<close>; \<open>STOP\<close> moves
  to \<open>ABORT\<close> from every state; \<open>SYNCH\<close> resets to \<open>BEGIN\<close>. Every transition under
  \<open>START_RESUME\<close>, \<open>PAUSE\<close> and \<open>STOP\<close> reports exactly once, with the percentage of the
  state it enters: 0, 10, 30, 50, 60, 70, 80, 100 for \<open>BEGIN\<close> through \<open>DONE\<close> and 0 for
  \<open>HALT\<close> and \<open>ABORT\<close>; a transition under \<open>SYNCH\<close> reports nothing. The driving loop
  runs while the state is below \<open>DONE\<close> or equals \<open>HALT\<close>.
\<close>

theorem progress_control_step:
  "map (\<lambda>pc. fst (fst (progress START_RESUME (pc, prev))))
       [BEGIN, FILTER, PINHEADS, CLASSIFY, ROUTING_GROUND, ROUTING_NONGROUND, HEADLESS,
        DONE, ABORT]
     = [FILTER, PINHEADS, CLASSIFY, ROUTING_GROUND, ROUTING_NONGROUND, HEADLESS, DONE,
        DONE, ABORT]
   \<and> fst (progress START_RESUME (HALT, prev)) = (prev, prev)
   \<and> fst (progress START_RESUME (fst (progress PAUSE (pc, prev)))) = (pc, pc)
   \<and> fst (progress PAUSE (pc, prev)) = (HALT, pc)
   \<and> fst (progress STOP (pc, prev)) = (ABORT, prev)
   \<and> fst (progress SYNCH (pc, prev)) = (BEGIN, prev)
   \<and> (cmd \<noteq> SYNCH \<longrightarrow>
        map fst (snd (progress cmd (pc, prev)))
          = [stepstate (fst (fst (progress cmd (pc, prev))))])
   \<and> snd (progress SYNCH (pc, prev)) = []
   \<and> map stepstate [BEGIN, FILTER, PINHEADS, CLASSIFY, ROUTING_GROUND, ROUTING_NONGROUND,
                    HEADLESS, DONE, HALT, ABORT]
        = [0, 10, 30, 50, 60, 70, 80, 100, 0, 0]
   \<and> (loop_cond pc \<longleftrightarrow> pc \<in> {BEGIN, FILTER, PINHEADS, CLASSIFY, ROUTING_GROUND,
                               ROUTING_NONGROUND, HEADLESS, HALT})"
proof -
  have reports: "cmd \<noteq> SYNCH \<longrightarrow>
        map fst (snd (progress cmd (pc, prev)))
          = [stepstate (fst (fst (progress cmd (pc, prev))))]"
    by (cases cmd) (simp_all add: Let_def)
  have loop: "loop_cond pc \<longleftrightarrow> pc \<in> {BEGIN, FILTER, PINHEADS, CLASSIFY, ROUTING_GROUND,
                               ROUTING_NONGROUND, HEADLESS, HALT}"
    by (cases pc) (simp_all add: loop_cond_def)
  show ?thesis
    using reports loop by (simp add: Let_def)
qed

theorem progress_control_step_witness:
  "START_RESUME \<noteq> SYNCH
   \<and> map fst (snd (progress START_RESUME (CLASSIFY, BEGIN))) = [60]
   \<and> fst (progress START_RESUME (CLASSIFY, BEGIN)) = (ROUTING_GROUND, BEGIN)
   \<and> loop_cond CLASSIFY"
  using progress_control_step [of BEGIN CLASSIFY START_RESUME] by simp

subsection \<open>The primitives\<close>

lemma transform_frame:
  "transform E head = head\<lparr>head_mesh := head_mesh (transform E head)\<rparr>"
  by (simp add: transform_def)

lemma add_tail_frame:
  "add_tail len radius head = Some h' \<Longrightarrow> h' = head\<lparr>tail := tail h'\<rparr>"
  by (auto simp: add_tail_def Let_def split: if_splits)

lemma cylinder_fold_prefix:
  "fold (cylinder_step r h) ring (vs, fs, i) = (vs', fs', i') \<Longrightarrow> take (length vs) vs' = vs"
proof (induction ring arbitrary: vs fs i)
  case Nil
  then show ?case by simp
next
  case (Cons a ring)
  obtain vs1 fs1 i1 where st: "cylinder_step r h a (vs, fs, i) = (vs1, fs1, i1)"
    by (cases "cylinder_step r h a (vs, fs, i)") auto
  then have vs1: "vs1 = vs @ [(fst (Rotation2Dd a (0, r)), snd (Rotation2Dd a (0, r)), 0),
                            (fst (Rotation2Dd a (0, r)), snd (Rotation2Dd a (0, r)), h)]"
    by (auto simp: cylinder_step_def Let_def)
  from Cons.prems st have "fold (cylinder_step r h) ring (vs1, fs1, i1) = (vs', fs', i')"
    by simp
  from Cons.IH[OF this] have "take (length vs1) vs' = vs1" .
  then have "take (length vs) (take (length vs1) vs') = take (length vs) vs1" by simp
  then show ?case using vs1 by (simp add: min_def)
qed

lemma angle45: "2 * pi / real_of_int \<lfloor>2 * pi / (2 * pi / 45)\<rfloor> = 2 * pi / 45"
  by simp

lemma cylinder_45:
  "\<exists>m. cylinder r h (2 * pi / 45) = Some m
       \<and> take 4 (points m) = [(0, 0, 0), (0, 0, h), (0, r, 0), (0, r, h)]
       \<and> indices m \<noteq> []"
proof -
  let ?init = "([(0, 0, 0), (0, 0, h), (sin 0 * r, cos 0 * r, 0), (sin 0 * r, cos 0 * r, h)], [], 1)
      :: Vec3d list \<times> Vec3crd list \<times> int"
  obtain vs fs i where f: "fold (cylinder_step r h) (ring_loop (2 * pi / 45) 0) ?init = (vs, fs, i)"
    by (cases "fold (cylinder_step r h) (ring_loop (2 * pi / 45) 0) ?init") auto
  from cylinder_fold_prefix[OF f] have "take 4 vs = [(0, 0, 0), (0, 0, h), (0, r, 0), (0, r, h)]"
    by (simp add: eval_nat_numeral)
  then show ?thesis
    using f by (simp add: cylinder_def ring_of_def Let_def)
qed

lemma norm3d_vsub_commute: "norm3d (vsub a b) = norm3d (vsub b a)"
proof -
  have "(x - y) * (x - y) = (y - x) * (y - x)" for x y :: real
    by (simp add: algebra_simps)
  then show ?thesis
    by (simp add: norm3d_def vsub_def)
qed

lemma smul_normalized:
  "smul (distance3d b a) (normalized (vsub b a)) = vsub b a"
proof (cases "norm3d (vsub b a) = 0")
  case True
  then have "vX (vsub b a) * vX (vsub b a) + vY (vsub b a) * vY (vsub b a)
             + vZ (vsub b a) * vZ (vsub b a) = 0"
    by (simp add: norm3d_def)
  then have "vX (vsub b a) = 0 \<and> vY (vsub b a) = 0 \<and> vZ (vsub b a) = 0"
    by (smt (verit) mult_nonneg_nonneg zero_le_square add_nonneg_eq_0_iff mult_eq_0_iff)
  then show ?thesis
    by (cases "vsub b a") (simp add: smul_def normalized_def distance3d_def)
next
  case False
  then show ?thesis
    by (simp add: smul_def normalized_def distance3d_def norm3d_vsub_commute [of a b])
qed


lemma ring_loop_length_aux:
  assumes a: "0 < a" and n: "real n * a = 2 * pi"
  shows "k \<le> n \<Longrightarrow> length (ring_loop a (real k * a)) = n - k"
proof (induction "n - k" arbitrary: k)
  case 0
  then have "k = n" by simp
  then have "\<not> (0 < a \<and> real k * a < 2 * pi)" using n by simp
  then have "ring_loop a (real k * a) = []"
    by (subst ring_loop.simps) (simp only: if_False)
  then show ?case using 0 by simp
next
  case (Suc m)
  then have kn: "k < n" by simp
  then have "real k * a < real n * a" using a by simp
  then have c: "0 < a \<and> real k * a < 2 * pi" using a n by simp
  have step: "real k * a + a = real (Suc k) * a"
    by (simp add: ring_distribs)
  have unfold: "ring_loop a (real k * a) = real k * a # ring_loop a (real k * a + a)"
    using c by (subst ring_loop.simps) (simp only: if_True simp_thms)
  have "m = n - Suc k" using Suc by simp
  moreover have "Suc k \<le> n" using kn by simp
  ultimately have "length (ring_loop a (real (Suc k) * a)) = n - Suc k"
    by (rule Suc.hyps(1))
  then show ?case
    unfolding unfold step using kn by simp
qed

lemma ring_loop_length:
  "0 < n \<Longrightarrow> length (ring_loop (2 * pi / real n) 0) = n"
  using ring_loop_length_aux [of "2 * pi / real n" n 0] by simp

lemma ring_of_steps:
  "0 < n \<Longrightarrow> \<exists>ring. ring_of (2 * pi / real n) = Some ring \<and> length ring = n"
  using ring_loop_length [of n] by (simp add: ring_of_def)

lemma angle_steps: "0 < n \<Longrightarrow> 2 * pi / real_of_int \<lfloor>2 * pi / (2 * pi / real n)\<rfloor> = 2 * pi / real n"
  by simp

lemma fold_append_length:
  assumes "\<And>i vs fs k. \<exists>v fs' k'. f i (vs, fs, k) = (vs @ [v], fs', k')"
  shows "length (fst (fold f xs (vs, fs, k))) = length vs + length xs"
proof (induction xs arbitrary: vs fs k)
  case Nil
  then show ?case by simp
next
  case (Cons a xs)
  obtain v fs' k' where "f a (vs, fs, k) = (vs @ [v], fs', k')"
    using assms by blast
  then show ?case using Cons.IH [of "vs @ [v]" fs' k'] by simp
qed

lemma sphere_first_ring_length:
  "length (fst (sphere_first_ring rho inc sbegin ring (vs, fs, k))) = length vs + length ring"
  unfolding sphere_first_ring_def
  by (subst fold_append_length) (auto simp: Let_def)

lemma sphere_ring_length:
  "length (fst (sphere_ring rho inc ring s (vs, fs, k))) = length vs + length ring"
  unfolding sphere_ring_def Let_def
  by (subst fold_append_length) (auto simp: Let_def)

lemma sphere_rings_length:
  "length (fst (fold (sphere_ring rho inc ring) ss st)) \<ge> length (fst st)"
proof (induction ss arbitrary: st)
  case Nil
  then show ?case by simp
next
  case (Cons s ss)
  obtain vs fs k where st: "st = (vs, fs, k)" by (cases st) auto
  have "length (fst st) \<le> length (fst (sphere_ring rho inc ring s st))"
    using sphere_ring_length [of rho inc ring s vs fs k] st by simp
  also have "\<dots> \<le> length (fst (fold (sphere_ring rho inc ring) ss (sphere_ring rho inc ring s st)))"
    using Cons.IH .
  finally show ?case by simp
qed

lemma size_t_of_nonneg: "0 \<le> x \<Longrightarrow> size_t_of x = Some (nat \<lfloor>x\<rfloor>)"
  by (simp add: size_t_of_def)

lemma sphere_mesh_length: "length ring \<le> length (points (sphere_mesh rho ring sbegin send full))"
proof -
  let ?inc = "1 / real (length ring)"
  let ?v0 = "(if sbegin = 0 then [(0, 0, - rho + ?inc * real sbegin * 2 * rho)] else []) :: Vec3d list"
  let ?st1 = "sphere_first_ring rho ?inc sbegin ring (?v0, [], int (length ?v0))"
  obtain vs fs k where f: "fold (sphere_ring rho ?inc ring) [sbegin + 2..<send - 1] ?st1 = (vs, fs, k)"
    by (cases "fold (sphere_ring rho ?inc ring) [sbegin + 2..<send - 1] ?st1") auto
  have "length (fst ?st1) = length ?v0 + length ring"
    by (rule sphere_first_ring_length)
  then have "length ring \<le> length (fst ?st1)" by simp
  also have "\<dots> \<le> length (fst (fold (sphere_ring rho ?inc ring) [sbegin + 2..<send - 1] ?st1))"
    by (rule sphere_rings_length)
  finally have vs: "length ring \<le> length vs" using f by simp
  show ?thesis
    unfolding sphere_mesh_def Let_def f using vs by simp
qed

lemma sphere_Some:
  assumes n: "0 < n" and a: "0 \<le> a" and b: "pi / real n \<le> b"
  shows "\<exists>m. sphere rho (make_portion a b) (2 * pi / real n) = Some m
           \<and> (\<not> (rho \<le> 0.000001 \<and> rho \<ge> - 0.000001) \<longrightarrow> n \<le> length (points m))"
proof (cases "rho \<le> 0.000001 \<and> rho \<ge> - 0.000001")
  case True
  then show ?thesis by (simp add: sphere_def)
next
  case False
  obtain ring where ring: "ring_of (2 * pi / real n) = Some ring" and len: "length ring = n"
    using ring_of_steps [OF n] by blast
  have pos: "0 < 2 * pi / real n" using n by simp
  have sa: "size_t_of (2 * a / (2 * pi / real n)) = Some (nat \<lfloor>2 * a / (2 * pi / real n)\<rfloor>)"
    using a pos by (intro size_t_of_nonneg) simp
  have bpos: "0 \<le> b" using b n by (meson divide_nonneg_nonneg of_nat_0_le_iff order_trans pi_ge_zero)
  have sb: "size_t_of (2 * b / (2 * pi / real n)) = Some (nat \<lfloor>2 * b / (2 * pi / real n)\<rfloor>)"
    using bpos pos by (intro size_t_of_nonneg) simp
  have "1 \<le> 2 * b / (2 * pi / real n)"
    using b n by (simp add: field_simps)
  then have "1 \<le> \<lfloor>2 * b / (2 * pi / real n)\<rfloor>" by linarith
  then have send: "nat \<lfloor>2 * b / (2 * pi / real n)\<rfloor> \<noteq> 0" by simp
  have full: "size_t_of (2 * pi / (2 * pi / real n)) = Some n"
    using n by (simp add: size_t_of_def)
  have "sphere rho (make_portion a b) (2 * pi / real n)
        = Some (sphere_mesh rho ring (nat \<lfloor>2 * a / (2 * pi / real n)\<rfloor>)
                  (nat \<lfloor>2 * b / (2 * pi / real n)\<rfloor>) n)"
    unfolding sphere_def make_portion_def Let_def fst_conv snd_conv angle_steps [OF n]
    using False by (simp only: ring sa sb full send if_False bind.bind_lunit)
  then show ?thesis
    using sphere_mesh_length [of ring rho] len by simp
qed

lemma Head_ctor_Some:
  assumes rb: "0.000001 < rb" and rs: "0 \<le> rs" "rs \<le> rb" and len: "0 \<le> len" and n: "2 \<le> n"
  shows "\<exists>m. Head_ctor E rb rs len d t n
          = Some \<lparr>head_mesh = m, head_steps = n, head_dir = d, head_tr = t,
                  r_back_mm = rb, r_pin_mm = rs, width_mm = len,
                  tail = \<lparr>tail_mesh = empty_contour, tail_steps = 45, tail_length = 0.8 * len\<rparr>\<rparr>"
proof -
  let ?h = "rb + rs + len"
  let ?x = "(rb - rs) / ?h"
  have h: "0 < ?h" using rb rs len by simp
  have x0: "0 \<le> ?x" using rs h by simp
  have x1: "?x \<le> 1" using rs len h by simp
  have ac: "arccos ?x \<le> pi / 2" using x0 x1 by (rule arccos_le_pi2)
  have ac0: "0 \<le> arccos ?x" using x0 x1 by (intro arccos_lbound) simp_all
  let ?phi = "pi / 2 - arccos ?x"
  have n0: "0 < n" using n by simp
  have "pi / real n \<le> pi / 2" using n by (simp add: field_simps)
  then have b1: "pi / real n \<le> pi / 2 + ?phi" using ac by linarith
  have b1': "0 \<le> pi / 2 + ?phi" using ac pi_ge_zero by linarith
  have b2: "pi / real n \<le> pi" using n0 by (simp add: field_simps)
  obtain s1 where s1: "sphere rb (make_portion 0 (pi / 2 + ?phi)) (2 * pi / real n) = Some s1"
    and l1: "n \<le> length (points s1)"
    using sphere_Some [OF n0 order_refl b1, of rb] rb by auto
  obtain s2 where s2: "sphere rs (make_portion (pi / 2 + ?phi) pi) (2 * pi / real n) = Some s2"
    using sphere_Some [OF n0 b1' b2, of rs] by auto
  have "points s1 \<noteq> []" using l1 n0 by auto
  then show ?thesis
    using s1 s2 l1 n0 by (simp add: Head_ctor_def Let_def)
qed

lemma Junction_ctor_Some:
  "0 < n \<Longrightarrow> \<exists>m. Junction_ctor tr r n
      = Some \<lparr>junction_mesh = m, junction_r = r, junction_steps = n, pos = tr\<rparr>"
proof -
  assume n: "0 < n"
  have "pi / real n \<le> pi" using n by (simp add: field_simps)
  from sphere_Some [OF n order_refl this, of r] obtain m where
    "sphere r (make_portion 0 pi) (2 * pi / real n) = Some m" by auto
  then show ?thesis by (simp add: Junction_ctor_def)
qed

subsection \<open>The stage CLASSIFY\<close>

lemma fold_option_None: "fold (\<lambda>i st. Option.bind st (f i)) xs None = None"
  by (induction xs) simp_all

lemma classify_head_None [simp]: "classify_head E mesh result i None = None"
  by (simp add: classify_head_def)

lemma classify_noground_None [simp]: "classify_noground E cfg gh idx None = None"
  by (simp add: classify_noground_def)

lemma fold_classify_head_None [simp]: "fold (classify_head E mesh result) xs None = None"
  by (induction xs) simp_all

lemma fold_classify_noground_None [simp]: "fold (classify_noground E cfg gh) xs None = None"
  by (induction xs) simp_all

lemma classify_heads_fold:
  "fold (classify_head E mesh result) [0..<n] (Some ([], [], [])) = Some (hs, gi, ngi) \<Longrightarrow>
     n \<le> length (m_heads result)
     \<and> hs = map (\<lambda>i. ray_mesh_intersect E (junction_point (m_heads result ! i)) (0, 0, - 1) mesh) [0..<n]
     \<and> gi = filter (\<lambda>i. isinf (ray_mesh_intersect E (junction_point (m_heads result ! i)) (0, 0, - 1) mesh)) [0..<n]
     \<and> ngi = filter (\<lambda>i. \<not> isinf (ray_mesh_intersect E (junction_point (m_heads result ! i)) (0, 0, - 1) mesh)) [0..<n]"
proof (induction n arbitrary: hs gi ngi)
  case 0
  then show ?case by simp
next
  case (Suc n)
  let ?prev = "fold (classify_head E mesh result) [0..<n] (Some ([], [], []))"
  from Suc.prems have step: "classify_head E mesh result n ?prev = Some (hs, gi, ngi)"
    by simp
  then obtain hs0 gi0 ngi0 where prev: "?prev = Some (hs0, gi0, ngi0)"
    by (cases ?prev) auto
  note IH = Suc.IH [OF prev]
  from step prev have n: "n < length (m_heads result)"
    by (auto simp: classify_head_def row_def split: if_splits)
  from step prev n show ?case
    using IH by (auto simp: classify_head_def row_def Let_def)
qed

text \<open>What one step of the last loop does.\<close>
lemma classify_noground_step:
  assumes "classify_noground E cfg gndheight idx (Some result) = Some result'"
  shows "\<exists>head' gh base_head cs.
      idx < length (m_heads result)
      \<and> add_tail (- 1) (- 1) (transform E (m_heads result ! idx)) = Some head'
      \<and> row gndheight idx = Some (Dbl gh)
      \<and> Head_ctor E (head_back_radius_mm cfg) (head_front_radius_mm cfg) (head_width_mm cfg)
           (0, 0, 1)
           (vX (junction_point head'), vY (junction_point head'),
            vZ (junction_point head') - gh - r_pin_mm head') 45 = Some base_head
      \<and> Pillar_ctor head' idx
           (vX (junction_point head'), vY (junction_point head'),
            vZ (junction_point head') - gh + (fullwidth head' - r_back_mm head'))
           (pillar_radius_mm cfg) = Some cs
      \<and> result' = result\<lparr>m_heads := (m_heads result)[idx := head'],
                          m_pillars := m_pillars result
                             @ [cs\<lparr>pillar_base := head_mesh (transform E base_head)\<rparr>]\<rparr>"
  using assms
  by (auto simp: classify_noground_def row_def Let_def add_pillar_def
           split: if_splits bind_splits dbl.splits)

lemma classify_noground_others:
  assumes "classify_noground E cfg gndheight j (Some r) = Some r'"
  shows "length (m_heads r') = length (m_heads r)
       \<and> (\<forall>i. i \<noteq> j \<longrightarrow> m_heads r' ! i = m_heads r ! i)
       \<and> (\<exists>p. m_pillars r' = m_pillars r @ [p])"
proof -
  from classify_noground_step [OF assms] obtain head' cs base_head where
    "r' = r\<lparr>m_heads := (m_heads r)[j := head'],
            m_pillars := m_pillars r @ [cs\<lparr>pillar_base := head_mesh (transform E base_head)\<rparr>]\<rparr>"
    by blast
  then show ?thesis by simp
qed

lemma fold_classify_noground_others:
  "fold (classify_noground E cfg gndheight) idxs (Some r) = Some r' \<Longrightarrow>
     length (m_heads r') = length (m_heads r)
     \<and> (\<forall>i. i \<notin> set idxs \<longrightarrow> m_heads r' ! i = m_heads r ! i)
     \<and> (\<exists>ps. m_pillars r' = m_pillars r @ ps)"
proof (induction idxs arbitrary: r)
  case Nil
  then show ?case by simp
next
  case (Cons j idxs)
  from Cons.prems obtain r1 where r1: "classify_noground E cfg gndheight j (Some r) = Some r1"
    by (cases "classify_noground E cfg gndheight j (Some r)") auto
  with Cons.prems have rest: "fold (classify_noground E cfg gndheight) idxs (Some r1) = Some r'"
    by simp
  from classify_noground_others [OF r1] Cons.IH [OF rest] show ?case
    by auto
qed

lemma fold_classify_noground_member:
  "fold (classify_noground E cfg gndheight) idxs (Some r) = Some r' \<Longrightarrow> distinct idxs \<Longrightarrow>
   i \<in> set idxs \<Longrightarrow>
     \<exists>head' gh base_head cs.
        i < length (m_heads r)
      \<and> add_tail (- 1) (- 1) (transform E (m_heads r ! i)) = Some head'
      \<and> row gndheight i = Some (Dbl gh)
      \<and> Head_ctor E (head_back_radius_mm cfg) (head_front_radius_mm cfg) (head_width_mm cfg)
           (0, 0, 1)
           (vX (junction_point head'), vY (junction_point head'),
            vZ (junction_point head') - gh - r_pin_mm head') 45 = Some base_head
      \<and> Pillar_ctor head' i
           (vX (junction_point head'), vY (junction_point head'),
            vZ (junction_point head') - gh + (fullwidth head' - r_back_mm head'))
           (pillar_radius_mm cfg) = Some cs
      \<and> m_heads r' ! i = head'
      \<and> cs\<lparr>pillar_base := head_mesh (transform E base_head)\<rparr> \<in> set (m_pillars r')"
proof (induction idxs arbitrary: r)
  case Nil
  then show ?case by simp
next
  case (Cons j idxs)
  from Cons.prems(1) obtain r1 where r1: "classify_noground E cfg gndheight j (Some r) = Some r1"
    by (cases "classify_noground E cfg gndheight j (Some r)") auto
  with Cons.prems(1) have rest: "fold (classify_noground E cfg gndheight) idxs (Some r1) = Some r'"
    by simp
  from Cons.prems(2) have dist: "distinct idxs" and jn: "j \<notin> set idxs"
    by simp_all
  show ?case
  proof (cases "i = j")
    case True
    from classify_noground_step [OF r1] obtain head' gh base_head cs where
      st: "j < length (m_heads r)"
        "add_tail (- 1) (- 1) (transform E (m_heads r ! j)) = Some head'"
        "row gndheight j = Some (Dbl gh)"
        "Head_ctor E (head_back_radius_mm cfg) (head_front_radius_mm cfg) (head_width_mm cfg)
           (0, 0, 1)
           (vX (junction_point head'), vY (junction_point head'),
            vZ (junction_point head') - gh - r_pin_mm head') 45 = Some base_head"
        "Pillar_ctor head' j
           (vX (junction_point head'), vY (junction_point head'),
            vZ (junction_point head') - gh + (fullwidth head' - r_back_mm head'))
           (pillar_radius_mm cfg) = Some cs"
        "r1 = r\<lparr>m_heads := (m_heads r)[j := head'],
                m_pillars := m_pillars r
                   @ [cs\<lparr>pillar_base := head_mesh (transform E base_head)\<rparr>]\<rparr>"
      by blast
    from fold_classify_noground_others [OF rest] jn obtain ps where
      "m_heads r' ! j = m_heads r1 ! j" "m_pillars r' = m_pillars r1 @ ps"
      by blast
    with st have "m_heads r' ! j = head'"
      "cs\<lparr>pillar_base := head_mesh (transform E base_head)\<rparr> \<in> set (m_pillars r')"
      by simp_all
    with st True show ?thesis by blast
  next
    case False
    with Cons.prems(3) have "i \<in> set idxs" by simp
    from Cons.IH [OF rest dist this] classify_noground_others [OF r1] False
    show ?thesis by simp
  qed
qed

lemma add_tail_fields:
  "add_tail len radius head = Some h' \<Longrightarrow>
     junction_point h' = junction_point head \<and> fullwidth h' = fullwidth head
     \<and> r_pin_mm h' = r_pin_mm head \<and> r_back_mm h' = r_back_mm head
     \<and> width_mm h' = width_mm head"
  by (auto simp: add_tail_def Let_def junction_point_def fullwidth_def split: if_splits)

lemma transform_fields:
  "junction_point (transform E head) = junction_point head
   \<and> fullwidth (transform E head) = fullwidth head
   \<and> r_pin_mm (transform E head) = r_pin_mm head \<and> r_back_mm (transform E head) = r_back_mm head
   \<and> width_mm (transform E head) = width_mm head"
  by (simp add: transform_def junction_point_def fullwidth_def)

lemma Pillar_ctor_fields:
  "Pillar_ctor head href endp radius = Some p \<Longrightarrow> endpoint p = endp \<and> headref p = href"
  by (auto simp: Pillar_ctor_def Let_def split: if_splits)


subsection \<open>The concrete inputs\<close>

lemma head_at_eq:
  "\<exists>m. head_at E x y = \<lparr>head_mesh = m, head_steps = 45, head_dir = (0, 0, - 1), head_tr = (x, y, 10),
          r_back_mm = 0.5, r_pin_mm = 0.2, width_mm = 1.0,
          tail = \<lparr>tail_mesh = empty_contour, tail_steps = 45, tail_length = 0.8 * 1.0\<rparr>\<rparr>"
proof -
  from Head_ctor_Some [of "0.5" "0.2" "1.0" 45 E "(0, 0, - 1)" "(x, y, 10)"]
  obtain m where "Head_ctor E 0.5 0.2 1.0 (0, 0, - 1) (x, y, 10) 45
    = Some \<lparr>head_mesh = m, head_steps = 45, head_dir = (0, 0, - 1), head_tr = (x, y, 10),
          r_back_mm = 0.5, r_pin_mm = 0.2, width_mm = 1.0,
          tail = \<lparr>tail_mesh = empty_contour, tail_steps = 45, tail_length = 0.8 * 1.0\<rparr>\<rparr>"
    by auto
  then show ?thesis by (simp add: head_at_def)
qed

lemma head_at_fields:
  "head_steps (head_at E x y) = 45" "head_dir (head_at E x y) = (0, 0, - 1)"
  "head_tr (head_at E x y) = (x, y, 10)" "r_back_mm (head_at E x y) = 0.5"
  "r_pin_mm (head_at E x y) = 0.2" "width_mm (head_at E x y) = 1"
  "junction_point (head_at E x y) = (x, y, 8.1)" "fullwidth (head_at E x y) = 2.4"
  using head_at_eq [of E x y] by (auto simp: junction_point_def fullwidth_def vadd_def smul_def)

lemma normalized_z: "0 < c \<Longrightarrow> normalized (0, 0, c) = (0, 0, 1)"
  by (simp add: normalized_def norm3d_def smul_def)

lemma rotation_example_same: "rotation_example (0, 0, 1) (0, 0, 1) p = p"
  by (cases p) (simp add: rotation_example_def normalized_def norm3d_def smul_def cross_def dot_def vadd_def)

lemma add_tail_head_at:
  "\<exists>tm. add_tail (- 1) (- 1) (transform E (head_at E x y))
     = Some ((transform E (head_at E x y))\<lparr>tail := \<lparr>tail_mesh = tm, tail_steps = 45, tail_length = 0.8\<rparr>\<rparr>)
     \<and> length (points tm) = 90"
proof -
  obtain m where m: "head_at E x y = \<lparr>head_mesh = m, head_steps = 45, head_dir = (0, 0, - 1), head_tr = (x, y, 10),
          r_back_mm = 0.5, r_pin_mm = 0.2, width_mm = 1.0,
          tail = \<lparr>tail_mesh = empty_contour, tail_steps = 45, tail_length = 0.8 * 1.0\<rparr>\<rparr>"
    using head_at_eq by blast
  show ?thesis
    unfolding m by (simp add: add_tail_def transform_def Let_def empty_contour_def)
qed

lemma classify_example:
  "map_option (\<lambda>(gndidx, nogndidx, gndheight, gc, res). (gndidx, nogndidx, gndheight, gc, map endpoint (m_pillars res), map headref (m_pillars res)))
     (classifyfn (ext_example (ray_plane_z 3.1) (0, 0, - 1)) cfg_std mesh_example [(0, 0, 10)]
       ([], [], [], [], add_head (head_at (ext_example (ray_plane_z 3.1) (0, 0, - 1)) 0 0) empty_Impl))
   = Some ([], [0], [Dbl 5], [], [(0, 0, 5)], [0])"
proof -
  let ?E = "ext_example (ray_plane_z 3.1) (0, 0, - 1)"
  let ?h = "head_at ?E 0 0"
  obtain tm where tail: "add_tail (- 1) (- 1) (transform ?E ?h)
     = Some ((transform ?E ?h)\<lparr>tail := \<lparr>tail_mesh = tm, tail_steps = 45, tail_length = 0.8\<rparr>\<rparr>)"
    and tl: "length (points tm) = 90"
    using add_tail_head_at by blast
  obtain bm where base: "Head_ctor ?E 0.5 0.2 1.0 (0, 0, 1) (0, 0, 2.9) 45
      = Some \<lparr>head_mesh = bm, head_steps = 45, head_dir = (0, 0, 1), head_tr = (0, 0, 2.9),
          r_back_mm = 0.5, r_pin_mm = 0.2, width_mm = 1.0,
          tail = \<lparr>tail_mesh = empty_contour, tail_steps = 45, tail_length = 0.8 * 1.0\<rparr>\<rparr>"
    using Head_ctor_Some [of "0.5" "0.2" "1.0" 45 ?E "(0, 0, 1)" "(0, 0, 2.9)"] by auto
  have heads: "fold (classify_head ?E mesh_example (add_head ?h empty_Impl)) [0..<1] (Some ([], [], []))
        = Some ([Dbl 5], [], [0])"
    by (simp add: classify_head_def add_head_def empty_Impl_def row_def head_at_fields
          ext_example_def ray_plane_z_def isinf_def)
  have ng: "classify_noground ?E cfg_std [Dbl 5] 0 (Some (add_head ?h empty_Impl))
      = Some r \<Longrightarrow> map endpoint (m_pillars r) = [(0, 0, 5)] \<and> map headref (m_pillars r) = [0]" for r
    using tail tl base
    by (auto simp: classify_noground_def add_head_def empty_Impl_def row_def cfg_std_def
          transform_fields head_at_fields add_pillar_def Pillar_ctor_def Let_def
          junction_point_def fullwidth_def transform_def vadd_def smul_def
          split: bind_splits if_splits)
  have "classify_noground ?E cfg_std [Dbl 5] 0 (Some (add_head ?h empty_Impl)) \<noteq> None"
    using tail tl base
    by (simp add: classify_noground_def add_head_def empty_Impl_def row_def cfg_std_def
          head_at_fields add_pillar_def Pillar_ctor_def Let_def
          junction_point_def fullwidth_def transform_def vadd_def smul_def)
  then obtain r where r: "classify_noground ?E cfg_std [Dbl 5] 0 (Some (add_head ?h empty_Impl)) = Some r"
    by auto
  show ?thesis
    using heads r ng [OF r]
    by (simp add: classifyfn_def ext_example_def)
qed

subsection \<open>Claim C10: what \<open>Head::transform\<close> and \<open>Head::add_tail\<close> leave alone\<close>

text \<open>
  Claim C10. \<open>Head::transform\<close> changes nothing but the head's mesh and \<open>Head::add_tail\<close>
  nothing but the head's tail (its mesh, and its length when a positive length is
  passed, which no call in the file does): \<open>tr\<close>, \<open>dir\<close>, \<open>r_back_mm\<close>, \<open>r_pin_mm\<close>,
  \<open>width_mm\<close> and \<open>steps\<close> are the same after both calls, and so are \<open>junction_point()\<close>
  and \<open>fullwidth()\<close>. \<open>add_tail\<close> returns for every head with \<open>steps > 0\<close>.
\<close>

theorem Head_transform_add_tail_frame:
  "(\<exists>m. transform E head = head\<lparr>head_mesh := m\<rparr>)
   \<and> junction_point (transform E head) = junction_point head
   \<and> fullwidth (transform E head) = fullwidth head
   \<and> (head_steps head \<noteq> 0 \<longrightarrow> add_tail len radius head \<noteq> None)
   \<and> (\<forall>h'. add_tail len radius head = Some h' \<longrightarrow>
         (\<exists>t. h' = head\<lparr>tail := t\<rparr>)
         \<and> head_tr h' = head_tr head \<and> head_dir h' = head_dir head
         \<and> r_back_mm h' = r_back_mm head \<and> r_pin_mm h' = r_pin_mm head
         \<and> width_mm h' = width_mm head \<and> head_steps h' = head_steps head
         \<and> head_mesh h' = head_mesh head
         \<and> junction_point h' = junction_point head \<and> fullwidth h' = fullwidth head)"
proof (intro conjI allI impI)
  show "\<exists>m. transform E head = head\<lparr>head_mesh := m\<rparr>"
    using transform_frame by blast
  show "junction_point (transform E head) = junction_point head"
    by (simp add: transform_def junction_point_def)
  show "fullwidth (transform E head) = fullwidth head"
    by (simp add: transform_def fullwidth_def)
  show "add_tail len radius head \<noteq> None" if "head_steps head \<noteq> 0"
    using that by (simp add: add_tail_def Let_def)
next
  fix h' assume a: "add_tail len radius head = Some h'"
  from add_tail_frame[OF a] have eq: "h' = head\<lparr>tail := tail h'\<rparr>" .
  show "\<exists>t. h' = head\<lparr>tail := t\<rparr>" using eq by blast
  show "head_tr h' = head_tr head" by (subst eq) simp
  show "head_dir h' = head_dir head" by (subst eq) simp
  show "r_back_mm h' = r_back_mm head" by (subst eq) simp
  show "r_pin_mm h' = r_pin_mm head" by (subst eq) simp
  show "width_mm h' = width_mm head" by (subst eq) simp
  show "head_steps h' = head_steps head" by (subst eq) simp
  show "head_mesh h' = head_mesh head" by (subst eq) simp
  show "junction_point h' = junction_point head" by (subst eq) (simp add: junction_point_def)
  show "fullwidth h' = fullwidth head" by (subst eq) (simp add: fullwidth_def)
qed

theorem Head_transform_add_tail_frame_witness:
  "head_steps (head_at (ext_example ray_free (0, 0, - 1)) 0 0) \<noteq> 0
   \<and> add_tail (- 1) (- 1) (head_at (ext_example ray_free (0, 0, - 1)) 0 0) \<noteq> None
   \<and> junction_point (the (add_tail (- 1) (- 1) (head_at (ext_example ray_free (0, 0, - 1)) 0 0)))
       = (0, 0, 8.1)
   \<and> fullwidth (the (add_tail (- 1) (- 1) (head_at (ext_example ray_free (0, 0, - 1)) 0 0)))
       = 2.4
   \<and> junction_point (transform (ext_example ray_free (0, 0, - 1))
         (head_at (ext_example ray_free (0, 0, - 1)) 0 0)) = (0, 0, 8.1)"
  using Head_transform_add_tail_frame
    [of "ext_example ray_free (0, 0, - 1)" "head_at (ext_example ray_free (0, 0, - 1)) 0 0"
        "- 1" "- 1"]
  by (auto simp: head_at_fields)

subsection \<open>Claim C6: the mesh of a \<open>Bridge\<close>\<close>

text \<open>
  Claim C6, as stated, gives every bridge a non-empty cylinder mesh. The constructors
  from a head and a junction and from a junction and a pillar have empty bodies: the
  mesh of such a bridge has no point.
\<close>

theorem Bridge_other_constructors_empty:
  "points (bridge_mesh (Bridge_head_junction (head_at (ext_example ray_free (0, 0, - 1)) 0 0)
      (the (Junction_ctor (0, 0, 2) 0.5 45)) 0.3)) = []
   \<and> points (bridge_mesh (Bridge_junction_pillar (the (Junction_ctor (0, 0, 2) 0.5 45))
      (the (Pillar_ctor
         (the (add_tail (- 1) (- 1) (head_at (ext_example ray_free (0, 0, - 1)) 0 0)))
         0 (0, 0, 0) 0.3)))) = []"
  by (simp add: Bridge_head_junction_def Bridge_junction_pillar_def empty_contour_def)

text \<open>
  Claim C6, amended: a bridge constructed from two junctions \<open>j1\<close>, \<open>j2\<close> carries the mesh
  of the cylinder of its radius \<open>r\<close> and of length \<open>d\<close>, the distance of the two junction
  positions, every point rotated by \<open>FromTwoVectors((0,0,1), dir)\<close>, with \<open>dir\<close> the
  normalized difference \<open>j2.pos - j1.pos\<close>, and moved by \<open>j1.pos\<close>; the mesh is not
  empty. Where that rotation fixes the origin and takes \<open>(0, 0, d)\<close> to \<open>d * dir\<close>, as
  the rotation of the z axis onto \<open>dir\<close> does, the two cap centres of the cylinder sit
  at \<open>j1.pos\<close> and \<open>j2.pos\<close>: its axis is the normalized difference of the endpoints and
  its length their distance. A bridge constructed from a head and a junction, or from
  a junction and a pillar, carries an empty mesh.
\<close>

theorem Bridge_junctions_cylinder:
  assumes "FromTwoVectors E (0, 0, 1) (normalized (vsub (pos j2) (pos j1))) (0, 0, 0) = (0, 0, 0)"
    and "FromTwoVectors E (0, 0, 1) (normalized (vsub (pos j2) (pos j1)))
           (0, 0, distance3d (pos j2) (pos j1))
         = smul (distance3d (pos j2) (pos j1)) (normalized (vsub (pos j2) (pos j1)))"
  shows "\<exists>m b. cylinder r_mm (distance3d (pos j2) (pos j1)) (2 * pi / 45) = Some m
        \<and> Bridge_junctions E j1 j2 r_mm = Some b
        \<and> bridge_r b = r_mm
        \<and> indices (bridge_mesh b) = indices m \<and> indices m \<noteq> []
        \<and> points (bridge_mesh b)
            = map (\<lambda>p. vadd (FromTwoVectors E (0, 0, 1) (normalized (vsub (pos j2) (pos j1))) p)
                           (pos j1)) (points m)
        \<and> take 2 (points m) = [(0, 0, 0), (0, 0, distance3d (pos j2) (pos j1))]
        \<and> take 2 (points (bridge_mesh b)) = [pos j1, pos j2]
        \<and> bridge_mesh (Bridge_head_junction h j2 r_mm) = empty_contour
        \<and> bridge_mesh (Bridge_junction_pillar j1 cl) = empty_contour"
proof -
  let ?d = "distance3d (pos j2) (pos j1)"
  obtain m where m: "cylinder r_mm ?d (2 * pi / 45) = Some m"
    and t4: "take 4 (points m) = [(0, 0, 0), (0, 0, ?d), (0, r_mm, 0), (0, r_mm, ?d)]"
    and ne: "indices m \<noteq> []"
    using cylinder_45 by blast
  from t4 have "take 2 (take 4 (points m)) = [(0, 0, 0), (0, 0, ?d)]"
    by simp
  then have t2: "take 2 (points m) = [(0, 0, 0), (0, 0, ?d)]"
    by simp
  have "vadd (smul ?d (normalized (vsub (pos j2) (pos j1)))) (pos j1) = pos j2"
    by (simp add: smul_normalized) (simp add: vadd_def vsub_def)
  moreover have "vadd (0, 0, 0) (pos j1) = pos j1"
    by (simp add: vadd_def)
  ultimately show ?thesis
    using m t2 ne assms
    by (simp add: Bridge_junctions_def take_map Bridge_head_junction_def
          Bridge_junction_pillar_def)
qed

theorem Bridge_junctions_cylinder_witness:
  "FromTwoVectors (ext_example ray_free (0, 0, - 1)) (0, 0, 1)
      (normalized (vsub (pos (the (Junction_ctor (0, 0, 2) 0.5 45)))
                        (pos (the (Junction_ctor (0, 0, 0) 0.5 45))))) (0, 0, 0) = (0, 0, 0)
   \<and> FromTwoVectors (ext_example ray_free (0, 0, - 1)) (0, 0, 1)
      (normalized (vsub (pos (the (Junction_ctor (0, 0, 2) 0.5 45)))
                        (pos (the (Junction_ctor (0, 0, 0) 0.5 45)))))
      (0, 0, distance3d (pos (the (Junction_ctor (0, 0, 2) 0.5 45)))
                        (pos (the (Junction_ctor (0, 0, 0) 0.5 45))))
      = smul (distance3d (pos (the (Junction_ctor (0, 0, 2) 0.5 45)))
                         (pos (the (Junction_ctor (0, 0, 0) 0.5 45))))
          (normalized (vsub (pos (the (Junction_ctor (0, 0, 2) 0.5 45)))
                            (pos (the (Junction_ctor (0, 0, 0) 0.5 45)))))
   \<and> Bridge_junctions (ext_example ray_free (0, 0, - 1))
        (the (Junction_ctor (0, 0, 0) 0.5 45)) (the (Junction_ctor (0, 0, 2) 0.5 45)) 0.3 \<noteq> None
   \<and> take 2 (points (bridge_mesh (the (Bridge_junctions (ext_example ray_free (0, 0, - 1))
        (the (Junction_ctor (0, 0, 0) 0.5 45)) (the (Junction_ctor (0, 0, 2) 0.5 45)) 0.3))))
       = [(0, 0, 0), (0, 0, 2)]"
proof -
  let ?E = "ext_example ray_free (0, 0, - 1)"
  let ?j1 = "the (Junction_ctor (0, 0, 0) 0.5 45)"
  let ?j2 = "the (Junction_ctor (0, 0, 2) 0.5 45)"
  have p1: "pos ?j1 = (0, 0, 0)"
    using Junction_ctor_Some [of 45 "(0, 0, 0)" "0.5"] by auto
  have p2: "pos ?j2 = (0, 0, 2)"
    using Junction_ctor_Some [of 45 "(0, 0, 2)" "0.5"] by auto
  have d: "distance3d (pos ?j2) (pos ?j1) = 2"
    using p1 p2 by (simp add: distance3d_def vsub_def norm3d_def)
  have dir: "normalized (vsub (pos ?j2) (pos ?j1)) = (0, 0, 1)"
    using p1 p2 by (simp add: vsub_def normalized_z)
  have rot: "FromTwoVectors ?E (0, 0, 1) (0, 0, 1) p = p" for p
    by (simp add: ext_example_def rotation_example_same)
  have h1: "FromTwoVectors ?E (0, 0, 1) (normalized (vsub (pos ?j2) (pos ?j1))) (0, 0, 0)
      = (0, 0, 0)"
    by (simp only: dir rot)
  have h2: "FromTwoVectors ?E (0, 0, 1) (normalized (vsub (pos ?j2) (pos ?j1)))
        (0, 0, distance3d (pos ?j2) (pos ?j1))
      = smul (distance3d (pos ?j2) (pos ?j1)) (normalized (vsub (pos ?j2) (pos ?j1)))"
    by (simp only: dir rot d) (simp add: smul_def)
  from Bridge_junctions_cylinder [OF h1 h2, of "0.3"] obtain b where
    "Bridge_junctions ?E ?j1 ?j2 0.3 = Some b" "take 2 (points (bridge_mesh b)) = [pos ?j1, pos ?j2]"
    by blast
  then show ?thesis
    using h1 h2 p1 p2 by simp
qed

subsection \<open>Claim C5: the pillar of a head that does not reach the ground\<close>

text \<open>
  Claim C5, as stated, puts the pillar's endpoint \<open>t - r_pin\<close> below the junction
  point. A head of the standard configuration at \<open>(0, 0, 10)\<close>, pointing down, has its
  junction point at height 8.1; over a plate at height 3.1 its downward ray hits at
  \<open>t = 5\<close>, and the claim asks for an endpoint at height \<open>8.1 - (5 - 0.2) = 3.3\<close>.
  CLASSIFY builds the pillar down to height 5.
\<close>

theorem classify_endpoint_counterexample:
  "classifyfn (ext_example (ray_plane_z 3.1) (0, 0, - 1)) cfg_std mesh_example [(0, 0, 10)]
       ([], [], [], [],
        add_head (head_at (ext_example (ray_plane_z 3.1) (0, 0, - 1)) 0 0) empty_Impl) \<noteq> None
   \<and> fst (snd (snd (the
        (classifyfn (ext_example (ray_plane_z 3.1) (0, 0, - 1)) cfg_std mesh_example [(0, 0, 10)]
          ([], [], [], [],
           add_head (head_at (ext_example (ray_plane_z 3.1) (0, 0, - 1)) 0 0) empty_Impl)))))
       = [Dbl 5]
   \<and> map endpoint (m_pillars (snd (snd (snd (snd (the
        (classifyfn (ext_example (ray_plane_z 3.1) (0, 0, - 1)) cfg_std mesh_example [(0, 0, 10)]
          ([], [], [], [],
           add_head (head_at (ext_example (ray_plane_z 3.1) (0, 0, - 1)) 0 0) empty_Impl))))))))
       = [(0, 0, 5)]
   \<and> vZ (junction_point (head_at (ext_example (ray_plane_z 3.1) (0, 0, - 1)) 0 0))
         - (5 - r_pin_mm (head_at (ext_example (ray_plane_z 3.1) (0, 0, - 1)) 0 0)) = 3.3"
  using classify_example by (auto simp: head_at_fields)

text \<open>
  Claim C5, amended: for every head whose downward ray from its junction point hits
  the mesh at a finite distance \<open>t\<close>, the CLASSIFY stage (entered with its three
  vectors empty) transforms the head, adds a tail, and constructs a pillar of that
  head whose endpoint lies \<open>t - (2 r_pin + width + r_back)\<close> below the head's junction
  point, that is \<open>endpoint.z = junction_point.z - t + fullwidth() - r_back\<close>; the
  pillar's base is the mesh of a second pinhead of the configured size, pointing up
  \<open>(0, 0, 1)\<close>, placed at \<open>junction_point.z - t - r_pin\<close> and transformed.
\<close>

theorem classify_nonground_pillar:
  assumes run: "classifyfn E cfg mesh head_pos ([], [], [], gc, result)
             = Some (gndidx, nogndidx, gndheight, gc', result')"
    and i: "i < length head_pos"
    and hit: "ray_mesh_intersect E (junction_point (m_heads result ! i)) (0, 0, - 1) mesh = Dbl t"
  shows "\<exists>head' base_head p.
       i \<in> set nogndidx
     \<and> add_tail (- 1) (- 1) (transform E (m_heads result ! i)) = Some head'
     \<and> m_heads result' ! i = head'
     \<and> Head_ctor E (head_back_radius_mm cfg) (head_front_radius_mm cfg) (head_width_mm cfg)
          (0, 0, 1)
          (vX (junction_point (m_heads result ! i)), vY (junction_point (m_heads result ! i)),
           vZ (junction_point (m_heads result ! i)) - t - r_pin_mm (m_heads result ! i)) 45
        = Some base_head
     \<and> p \<in> set (m_pillars result') \<and> headref p = i
     \<and> endpoint p
        = (vX (junction_point (m_heads result ! i)), vY (junction_point (m_heads result ! i)),
           vZ (junction_point (m_heads result ! i))
             - (t - (2 * r_pin_mm (m_heads result ! i) + width_mm (m_heads result ! i)
                       + r_back_mm (m_heads result ! i))))
     \<and> pillar_base p = head_mesh (transform E base_head)"
proof -
  let ?ray = "\<lambda>i. ray_mesh_intersect E (junction_point (m_heads result ! i)) (0, 0, - 1) mesh"
  let ?head = "m_heads result ! i"
  from run obtain hs gi ngi where
    heads: "fold (classify_head E mesh result) [0..<length head_pos] (Some ([], [], []))
              = Some (hs, gi, ngi)"
    by (auto simp: classifyfn_def split: bind_splits)
  from run heads have eqs: "gndheight = hs" "nogndidx = ngi"
    and loop: "fold (classify_noground E cfg hs) ngi (Some result) = Some result'"
    by (auto simp: classifyfn_def Let_def split: bind_splits)
  from classify_heads_fold [OF heads] have
    hs: "hs = map ?ray [0..<length head_pos]"
    and ngi: "ngi = filter (\<lambda>i. \<not> isinf (?ray i)) [0..<length head_pos]"
    by simp_all
  from ngi i hit have mem: "i \<in> set ngi"
    by (simp add: isinf_def)
  from ngi have dist: "distinct ngi"
    by simp
  from hs i hit have rowi: "row hs i = Some (Dbl t)"
    by (simp add: row_def)
  from fold_classify_noground_member [OF loop dist mem] rowi
  obtain head' base_head cs where
    st: "add_tail (- 1) (- 1) (transform E ?head) = Some head'"
      "Head_ctor E (head_back_radius_mm cfg) (head_front_radius_mm cfg) (head_width_mm cfg)
           (0, 0, 1)
           (vX (junction_point head'), vY (junction_point head'),
            vZ (junction_point head') - t - r_pin_mm head') 45 = Some base_head"
      "Pillar_ctor head' i
           (vX (junction_point head'), vY (junction_point head'),
            vZ (junction_point head') - t + (fullwidth head' - r_back_mm head'))
           (pillar_radius_mm cfg) = Some cs"
      "m_heads result' ! i = head'"
      "cs\<lparr>pillar_base := head_mesh (transform E base_head)\<rparr> \<in> set (m_pillars result')"
    by auto
  from add_tail_fields [OF st(1)] transform_fields [of E ?head]
  have same: "junction_point head' = junction_point ?head" "fullwidth head' = fullwidth ?head"
    "r_pin_mm head' = r_pin_mm ?head" "r_back_mm head' = r_back_mm ?head"
    by simp_all
  let ?p = "cs\<lparr>pillar_base := head_mesh (transform E base_head)\<rparr>"
  from Pillar_ctor_fields [OF st(3)] same have
    "headref ?p = i"
    "endpoint ?p = (vX (junction_point ?head), vY (junction_point ?head),
           vZ (junction_point ?head) - (t - (2 * r_pin_mm ?head + width_mm ?head + r_back_mm ?head)))"
    "pillar_base ?p = head_mesh (transform E base_head)"
    by (simp_all add: fullwidth_def)
  with st same mem eqs show ?thesis
    by (intro exI [of _ head'] exI [of _ base_head] exI [of _ ?p]) simp
qed

theorem classify_nonground_pillar_witness:
  "classifyfn (ext_example (ray_plane_z 3.1) (0, 0, - 1)) cfg_std mesh_example [(0, 0, 10)]
       ([], [], [], [],
        add_head (head_at (ext_example (ray_plane_z 3.1) (0, 0, - 1)) 0 0) empty_Impl) \<noteq> None
   \<and> (0::nat) < length [(0, 0, 10) :: Vec3d]
   \<and> ray_mesh_intersect (ext_example (ray_plane_z 3.1) (0, 0, - 1))
        (junction_point (m_heads
           (add_head (head_at (ext_example (ray_plane_z 3.1) (0, 0, - 1)) 0 0) empty_Impl) ! 0))
        (0, 0, - 1) mesh_example = Dbl 5
   \<and> (\<exists>p \<in> set (m_pillars (snd (snd (snd (snd (the
        (classifyfn (ext_example (ray_plane_z 3.1) (0, 0, - 1)) cfg_std mesh_example [(0, 0, 10)]
          ([], [], [], [],
           add_head (head_at (ext_example (ray_plane_z 3.1) (0, 0, - 1)) 0 0) empty_Impl)))))))).
        headref p = 0 \<and> endpoint p = (0, 0, 5))"
proof -
  let ?E = "ext_example (ray_plane_z 3.1) (0, 0, - 1)"
  let ?res = "add_head (head_at ?E 0 0) empty_Impl"
  let ?run = "classifyfn ?E cfg_std mesh_example [(0, 0, 10)] ([], [], [], [], ?res)"
  from classify_example obtain gi ngi gh gc r where run: "?run = Some (gi, ngi, gh, gc, r)"
    by auto
  have i: "(0::nat) < length [(0, 0, 10) :: Vec3d]"
    by simp
  have hit: "ray_mesh_intersect ?E (junction_point (m_heads ?res ! 0)) (0, 0, - 1) mesh_example
      = Dbl 5"
    by (simp add: add_head_def empty_Impl_def head_at_fields ext_example_def ray_plane_z_def)
  from classify_nonground_pillar [OF run i hit] obtain p where
    "p \<in> set (m_pillars r)" "headref p = 0"
    "endpoint p = (vX (junction_point (m_heads ?res ! 0)), vY (junction_point (m_heads ?res ! 0)),
       vZ (junction_point (m_heads ?res ! 0))
         - (5 - (2 * r_pin_mm (m_heads ?res ! 0) + width_mm (m_heads ?res ! 0)
                   + r_back_mm (m_heads ?res ! 0))))"
    by blast
  then have "\<exists>p \<in> set (m_pillars r). headref p = 0 \<and> endpoint p = (0, 0, 5)"
    by (auto simp: add_head_def empty_Impl_def head_at_fields)
  with run i hit show ?thesis
    by simp
qed


subsection \<open>Claim C1: \<open>support_points\<close>\<close>

text \<open>
  Claim C1 asks for one row per pair of an instance and a support point, none
  overwritten and none left unset. \<open>support_points\<close> counts the pairs and allocates
  that many rows, and then restarts the row counter at 0 for every instance. For one
  object with the support point \<open>(1, 2, 3)\<close> and two instances, the identity and a
  shift by 10 in \<open>x\<close>, two rows are allocated: row 0 is written for the first instance
  and overwritten for the second, row 1 is never written, and the point of the first
  instance is not in the result.
\<close>

theorem support_points_overwrites_rows:
  "support_points model_two_instances = [Some (11, 2, 3), None]
   \<and> Some (1, 2, 3) \<notin> set (support_points model_two_instances)"
  by (simp add: support_points_def model_two_instances_def model_coord_def vadd_def)


subsection \<open>Claim C7: the FILTER stage\<close>

lemma filter_point_cases:
  "filter_point E cfg mesh hp n (a, b, c) =
     (if tilt_sane n then
        (if head_has_room E cfg mesh (vadd hp (smul 0.1 (corrected_normal n))) (corrected_normal n)
         then (a @ [corrected_normal n], b @ [hp], c)
         else (a, b, c @ [hp]))
      else (a, b, c))"
  by (simp add: filter_point_def tilt_sane_def corrected_normal_def head_has_room_def Let_def)

lemma fold_filter_point:
  "fold (\<lambda>(hp, n). filter_point E cfg mesh hp n) ps (a, b, c) =
     (a @ map (\<lambda>(hp, n). corrected_normal n)
            (filter (\<lambda>(hp, n). tilt_sane n
               \<and> head_has_room E cfg mesh (vadd hp (smul 0.1 (corrected_normal n))) (corrected_normal n)) ps),
      b @ map fst
            (filter (\<lambda>(hp, n). tilt_sane n
               \<and> head_has_room E cfg mesh (vadd hp (smul 0.1 (corrected_normal n))) (corrected_normal n)) ps),
      c @ map fst
            (filter (\<lambda>(hp, n). tilt_sane n
               \<and> \<not> head_has_room E cfg mesh (vadd hp (smul 0.1 (corrected_normal n))) (corrected_normal n)) ps))"
proof (induction ps arbitrary: a b c)
  case Nil
  then show ?case by simp
next
  case (Cons p ps)
  obtain hp n where p: "p = (hp, n)" by (cases p) auto
  show ?case
    unfolding p by (simp add: filter_point_cases Cons.IH)
qed

lemma filter_loop_fold:
  "k \<le> length filt_pts \<Longrightarrow>
   fold (\<lambda>i st. do { s \<leftarrow> st; n \<leftarrow> row nmls i; hp \<leftarrow> row filt_pts i;
                      Some (filter_point E cfg mesh hp n s) }) [0..<k] (Some init)
   = (if k \<le> length nmls
      then Some (fold (\<lambda>(hp, n). filter_point E cfg mesh hp n) (zip (take k filt_pts) (take k nmls)) init)
      else None)"
proof (induction k)
  case 0
  then show ?case by simp
next
  case (Suc k)
  then have k: "k < length filt_pts" by simp
  show ?case
  proof (cases "Suc k \<le> length nmls")
    case True
    then have kn: "k < length nmls" by simp
    have "zip (take (Suc k) filt_pts) (take (Suc k) nmls)
        = zip (take k filt_pts) (take k nmls) @ [(filt_pts ! k, nmls ! k)]"
      using k kn by (simp add: take_Suc_conv_app_nth zip_append)
    then show ?thesis
      using Suc.IH k kn by (simp add: row_def)
  next
    case False
    then show ?thesis
      using Suc.IH k by (auto simp: row_def)
  qed
qed

lemma zip_take_right: "zip xs (take (length xs) ys) = zip xs ys"
proof (induction xs arbitrary: ys)
  case Nil
  then show ?case by simp
next
  case (Cons x xs)
  then show ?case by (cases ys) simp_all
qed

lemma corrected_normal_polar:
  assumes "tilt_sane n"
  shows "arccos (vZ (corrected_normal n)) = max (arccos (vZ n)) (3 * pi / 4)"
proof -
  from assms have r: "- 1 \<le> vZ n" "vZ n \<le> 1" by (simp_all add: tilt_sane_def)
  have "arccos (vZ n) \<le> pi" using r by (rule arccos_ubound)
  moreover have "0 \<le> arccos (vZ n)" using r by (rule arccos_lbound)
  ultimately have "0 \<le> max (arccos (vZ n)) (3 * pi / 4)" "max (arccos (vZ n)) (3 * pi / 4) \<le> pi"
    by (simp_all add: max_def)
  then show ?thesis
    by (simp add: corrected_normal_def Let_def arccos_cos)
qed

lemma sin_cos_3pi4: "sin (3 * pi / 4) = sqrt 2 / 2" "cos (3 * pi / 4) = - (sqrt 2 / 2)"
proof -
  have e: "3 * pi / 4 = pi - pi / 4" by simp
  show "sin (3 * pi / 4) = sqrt 2 / 2"
    unfolding e by (simp only: sin_pi_minus sin_45)
  show "cos (3 * pi / 4) = - (sqrt 2 / 2)"
    unfolding e by (simp only: cos_pi_minus cos_45)
qed

lemma sqrt2_bounds: "1 < sqrt 2" "sqrt 2 < 1.6"
proof -
  show "1 < sqrt 2" by simp
  have "sqrt 2 < sqrt (1.6 ^ 2)"
    by (subst real_sqrt_less_iff) (simp add: power2_eq_square)
  then show "sqrt 2 < 1.6" by simp
qed

lemma corrected_normal_down: "corrected_normal (0, 0, - 1) = (0, 0, - 1)"
  by (simp add: corrected_normal_def atan2_def Let_def max_def)

lemma corrected_normal_side: "corrected_normal (1, 0, 0) = (sqrt 2 / 2, 0, - (sqrt 2 / 2))"
  by (simp add: corrected_normal_def atan2_def Let_def max_def sin_cos_3pi4)

lemma tilt_sane_examples: "tilt_sane (0, 0, - 1)" "tilt_sane (1, 0, 0)"
  by (simp_all add: tilt_sane_def)

lemma filterfn_single:
  "filterfn (ext_example ray n) cfg [p] mesh
     = Some ([p],
         (if tilt_sane n \<and> head_has_room (ext_example ray n) cfg mesh
               (vadd p (smul 0.1 (corrected_normal n))) (corrected_normal n)
          then [corrected_normal n] else []),
         (if tilt_sane n \<and> head_has_room (ext_example ray n) cfg mesh
               (vadd p (smul 0.1 (corrected_normal n))) (corrected_normal n)
          then [p] else []),
         (if tilt_sane n \<and> \<not> head_has_room (ext_example ray n) cfg mesh
               (vadd p (smul 0.1 (corrected_normal n))) (corrected_normal n)
          then [p] else []))"
  by (simp add: filterfn_def ext_example_def row_def filter_point_cases)

lemma room_free: "head_has_room (ext_example ray_free n) cfg mesh origin nn"
  by (simp add: head_has_room_def ext_example_def ray_free_def isinf_def)

lemma filterfn_example:
  "filterfn (ext_example ray_free (0, 0, - 1)) cfg_std [(0, 0, 10)] mesh_example
     = Some ([(0, 0, 10)], [(0, 0, - 1)], [(0, 0, 10)], [])"
  by (simp add: filterfn_single room_free tilt_sane_examples corrected_normal_down)

lemma no_room_wall:
  "\<not> head_has_room (ext_example (ray_plane_x 0.08) (1, 0, 0)) cfg_std mesh_example
       (vadd (0, 0, 10) (smul 0.1 (corrected_normal (1, 0, 0)))) (corrected_normal (1, 0, 0))"
proof -
  define s where "s = sqrt 2 / 2"
  have s: "0.5 < s" "s < 0.8"
    using sqrt2_bounds by (simp_all add: s_def)
  have pos: "0 < (0.08 - 0.1 * s) / s"
    using s by simp
  have "0.08 - 0.1 * s \<le> 3.8 * s"
    using s by simp
  then have le: "(0.08 - 0.1 * s) / s \<le> 3.8"
    using s by (simp add: field_simps)
  have "ray_plane_x 0.08 (0.1 * s, 0, 10 + 0.1 * (- s)) (s, 0, - s) mesh_example
      = Dbl ((0.08 - 0.1 * s) / s)"
    using s pos by (simp add: ray_plane_x_def)
  then show ?thesis
    using le
    by (simp add: head_has_room_def ext_example_def corrected_normal_side s_def [symmetric]
          vadd_def smul_def cfg_std_def isinf_def)
qed


text \<open>
  Claim C7, as stated, casts the ray from \<open>point + 0.1 * n\<close> with \<open>n\<close> the face normal.
  The stage casts it from \<open>point + 0.1 * nn\<close> with \<open>nn\<close> the corrected normal. For the
  point \<open>(0, 0, 10)\<close> on a face with normal \<open>(1, 0, 0)\<close> (polar angle \<open>PI / 2\<close>, corrected
  to \<open>3 PI / 4\<close>) next to a wall at \<open>x = 0.08\<close>, the ray from \<open>point + 0.1 * n\<close> starts
  behind the wall and never hits, so the claim puts the point into \<open>head_positions\<close>;
  the stage starts its ray in front of the wall, hits it at once, and puts the point
  into \<open>headless_positions\<close>.
\<close>

theorem filter_ray_origin_counterexample:
  "filterfn (ext_example (ray_plane_x 0.08) (1, 0, 0)) cfg_std [(0, 0, 10)] mesh_example
     = Some ([(0, 0, 10)], [], [], [(0, 0, 10)])
   \<and> normals (ext_example (ray_plane_x 0.08) (1, 0, 0)) [(0, 0, 10)] mesh_example = [(1, 0, 0)]
   \<and> arccos (vZ ((1, 0, 0) :: Vec3d)) = pi / 2
   \<and> ray_mesh_intersect (ext_example (ray_plane_x 0.08) (1, 0, 0))
        (vadd (0, 0, 10) (smul 0.1 (1, 0, 0))) (corrected_normal (1, 0, 0)) mesh_example = PosInf"
proof -
  have code: "filterfn (ext_example (ray_plane_x 0.08) (1, 0, 0)) cfg_std [(0, 0, 10)] mesh_example
     = Some ([(0, 0, 10)], [], [], [(0, 0, 10)])"
    using no_room_wall by (simp add: filterfn_single tilt_sane_examples)
  have "ray_plane_x 0.08 (0.1, 0, 10) (sqrt 2 / 2, 0, - (sqrt 2 / 2)) mesh_example = PosInf"
    by (simp add: ray_plane_x_def field_simps)
  then have claimed: "ray_mesh_intersect (ext_example (ray_plane_x 0.08) (1, 0, 0))
        (vadd (0, 0, 10) (smul 0.1 (1, 0, 0))) (corrected_normal (1, 0, 0)) mesh_example = PosInf"
    by (simp add: ext_example_def corrected_normal_side vadd_def smul_def)
  have "normals (ext_example (ray_plane_x 0.08) (1, 0, 0)) [(0, 0, 10)] mesh_example = [(1, 0, 0)]"
    by (simp add: ext_example_def)
  with code claimed show ?thesis
    by simp
qed

text \<open>
  Claim C7, amended: in the FILTER stage, for every deduplicated point with face normal
  \<open>n\<close>: if the normal's polar angle is below \<open>PI / 2\<close> the point is discarded entirely;
  otherwise the polar angle is saturated to at least \<open>3 PI / 4\<close>, the normal is
  reconstituted as \<open>nn\<close>, and the point is pushed into \<open>head_positions\<close>, with \<open>nn\<close> into
  \<open>filtered_normals\<close>, exactly when the ray from \<open>point + 0.1 * nn\<close> along \<open>nn\<close> first
  hits at a distance \<open>t > 2 * (head_width + head_back_radius + 2 * head_front_radius)\<close>
  or never hits, and into \<open>headless_positions\<close> otherwise. The three outputs keep the
  order of the points.
\<close>

theorem filterfn_outputs:
  assumes "filterfn E cfg support_pts mesh = Some (filt_pts, filt_norm, head_pos, headless_pos)"
  shows "length filt_pts \<le> length (normals E filt_pts mesh)
     \<and> head_pos = map fst (filter (\<lambda>(hp, n). tilt_sane n
            \<and> head_has_room E cfg mesh (vadd hp (smul 0.1 (corrected_normal n))) (corrected_normal n))
          (zip filt_pts (normals E filt_pts mesh)))
     \<and> filt_norm = map (\<lambda>(hp, n). corrected_normal n) (filter (\<lambda>(hp, n). tilt_sane n
            \<and> head_has_room E cfg mesh (vadd hp (smul 0.1 (corrected_normal n))) (corrected_normal n))
          (zip filt_pts (normals E filt_pts mesh)))
     \<and> headless_pos = map fst (filter (\<lambda>(hp, n). tilt_sane n
            \<and> \<not> head_has_room E cfg mesh (vadd hp (smul 0.1 (corrected_normal n))) (corrected_normal n))
          (zip filt_pts (normals E filt_pts mesh)))
     \<and> (\<forall>n. tilt_sane n \<longrightarrow>
           arccos (vZ (corrected_normal n)) = max (arccos (vZ n)) (3 * pi / 4)
           \<and> 3 * pi / 4 \<le> arccos (vZ (corrected_normal n)))"
proof -
  let ?nmls = "normals E filt_pts mesh"
  from assms have loop:
    "fold (\<lambda>i st. do { s \<leftarrow> st; n \<leftarrow> row ?nmls i; hp \<leftarrow> row filt_pts i;
                      Some (filter_point E cfg mesh hp n s) }) [0..<length filt_pts] (Some ([], [], []))
     = Some (filt_norm, head_pos, headless_pos)"
    by (auto simp: filterfn_def Let_def split: bind_splits)
  have len: "length filt_pts \<le> length ?nmls"
    using loop filter_loop_fold [of "length filt_pts" filt_pts ?nmls E cfg mesh "([], [], [])"]
    by (auto split: if_splits)
  have z: "zip (take (length filt_pts) filt_pts) (take (length filt_pts) ?nmls)
      = zip filt_pts ?nmls"
    by (simp add: zip_take_right)
  from loop len have
    "fold (\<lambda>(hp, n). filter_point E cfg mesh hp n) (zip filt_pts ?nmls) ([], [], [])
      = (filt_norm, head_pos, headless_pos)"
    using filter_loop_fold [of "length filt_pts" filt_pts ?nmls E cfg mesh "([], [], [])"]
    by (simp add: zip_take_right)
  then show ?thesis
    using len corrected_normal_polar by (simp add: fold_filter_point)
qed

theorem filterfn_outputs_witness:
  "filterfn (ext_example ray_free (0, 0, - 1)) cfg_std [(0, 0, 10)] mesh_example
     = Some ([(0, 0, 10)], [(0, 0, - 1)], [(0, 0, 10)], [])
   \<and> tilt_sane (0, 0, - 1)
   \<and> arccos (vZ (corrected_normal (0, 0, - 1))) = pi"
  using filterfn_outputs [OF filterfn_example] filterfn_example tilt_sane_examples
  by (simp add: corrected_normal_down)


subsection \<open>Claim C3: cancellation\<close>

lemma generate_loop_done:
  "\<not> loop_cond (g_pc st) \<Longrightarrow> generate_loop E cfg support_pts mesh cmds st = Some st"
  by (cases cmds) simp_all

lemma loop_cond_ABORT: "\<not> loop_cond ABORT"
  by (simp add: loop_cond_def)

lemma generate_loop_stop:
  "loop_cond (g_pc st) \<Longrightarrow>
   generate_loop E cfg support_pts mesh (STOP # rest) st
     = Some (st\<lparr>g_pc := ABORT, g_pc_prev := g_pc_prev st,
               g_statuscb := g_statuscb st @ [(0, '''')]\<rparr>)"
  by (simp add: generate_loop_done loop_cond_ABORT)

lemma length_tree_volumes:
  "length (tree_volumes stree)
     = 2 * length (m_heads stree) + 2 * length (m_pillars stree)
       + length (m_junctions stree) + length (m_bridges stree)"
  by (simp add: tree_volumes_def length_concat o_def sum_list_triv)

lemma Head_ctor_head_at:
  "Head_ctor E 0.5 0.2 1.0 (0, 0, - 1) (x, y, 10) 45 = Some (head_at E x y)"
  using Head_ctor_Some [of "0.5" "0.2" "1.0" 45 E "(0, 0, - 1)" "(x, y, 10)"]
  by (auto simp: head_at_def)

lemma generate_example:
  "generate (ext_example ray_free (0, 0, - 1)) empty_Impl model_one_point cfg_std
      [START_RESUME, START_RESUME, STOP]
   = Some (True, add_head (head_at (ext_example ray_free (0, 0, - 1)) 0 0) empty_Impl)"
proof -
  let ?E = "ext_example ray_free (0, 0, - 1)"
  have sp: "support_points model_one_point = [Some (0, 0, 10)]"
    by (simp add: support_points_def model_one_point_def model_coord_def)
  have filt: "filterfn ?E cfg_std [(0, 0, 10)] mesh
     = Some ([(0, 0, 10)], [(0, 0, - 1)], [(0, 0, 10)], [])" for mesh
    by (simp add: filterfn_single room_free tilt_sane_examples corrected_normal_down)
  have pin: "pinheadfn ?E cfg_std [(0, 0, 10)] [(0, 0, - 1)] empty_Impl
     = Some (add_head (head_at ?E 0 0) empty_Impl)"
    using Head_ctor_head_at [of ?E 0 0]
    by (simp add: pinheadfn_def row_def cfg_std_def)
  show ?thesis
    by (simp add: generate_def sp init_Planner_def loop_cond_def filt pin)
qed


lemma generate_stop_first:
  "generate E m_impl model cfg (STOP # rest) = Some (True, m_impl)"
proof -
  have "loop_cond (g_pc (init_Planner m_impl))"
    by (simp add: init_Planner_def loop_cond_def)
  from generate_loop_stop [OF this] show ?thesis
    by (simp add: generate_def init_Planner_def)
qed

lemma add_sla_supports_volumes:
  assumes "add_sla_supports E model cfg ctl = Some model'"
  shows "\<exists>aborted stree obj.
            generate E empty_Impl model cfg ctl = Some (aborted, stree)
          \<and> objects model' = objects model @ [obj]
          \<and> volumes obj = tree_volumes stree"
  using assms by (auto simp: add_sla_supports_def split: bind_splits)

text \<open>
  Claim C3: after a cancellation no partial tree is published. \<open>generate\<close> returns the
  flag \<open>pc == ABORT\<close>, and \<open>add_sla_supports\<close>, its only caller, drops the flag and adds
  the volumes of whatever the tree holds. With one support point and the commands
  \<open>START_RESUME\<close>, \<open>START_RESUME\<close>, \<open>STOP\<close> the stages FILTER and PINHEADS have run when
  \<open>STOP\<close> arrives: \<open>generate\<close> returns true and the tree holds one head, whose mesh and
  tail become two volumes of the new object.
\<close>

theorem cancelled_run_publishes_heads:
  "generate (ext_example ray_free (0, 0, - 1)) empty_Impl model_one_point cfg_std
      [START_RESUME, START_RESUME, STOP]
     = Some (True, add_head (head_at (ext_example ray_free (0, 0, - 1)) 0 0) empty_Impl)
   \<and> map volumes (objects (the (add_sla_supports (ext_example ray_free (0, 0, - 1))
        model_one_point cfg_std [START_RESUME, START_RESUME, STOP])))
     = [[], [head_mesh (head_at (ext_example ray_free (0, 0, - 1)) 0 0),
             tail_mesh (tail (head_at (ext_example ray_free (0, 0, - 1)) 0 0))]]"
  unfolding add_sla_supports_def generate_example
  by (simp add: tree_volumes_def add_head_def empty_Impl_def model_one_point_def)


subsection \<open>Claim C9: \<open>cluster_centroid\<close>\<close>

lemma sorted_run_falses:
  "sorted_run (replicate a False @ True # False # zs) = (replicate a False @ [True], False # zs)"
proof (induction a)
  case 0
  then show ?case by simp
next
  case (Suc a)
  then show ?case by (cases a) simp_all
qed

lemma sorted_run_falses2:
  "sorted_run (replicate a False @ True # True # False # zs)
     = (replicate a False @ [True, True], False # zs)"
proof (induction a)
  case 0
  then show ?case by simp
next
  case (Suc a)
  then show ?case by (cases a) simp_all
qed

lemma sorted_run_falses3:
  "sorted_run (replicate a False @ [True, True]) = (replicate a False @ [True, True], [])"
proof (induction a)
  case 0
  then show ?case by simp
next
  case (Suc a)
  then show ?case by (cases a) simp_all
qed

lemma upper_bound_falses: "upper_bound (replicate a False @ True # xs) False = a"
  by (induction a) simp_all

lemma rev_mask2: "rev (mask2 a b c) = mask2 c b a"
  by (simp add: mask2_def)

lemma replicate_snoc: "replicate a x @ [x] = replicate (Suc a) x"
  by (simp add: replicate_append_same)

lemma next_permutation_shift:
  "next_permutation (mask2 a (Suc b) c) = (mask2 a b (Suc c), True)"
proof -
  have r: "rev (mask2 a (Suc b) c) = replicate c False @ True # False # (replicate b False @ True # replicate a False)"
    by (simp add: rev_mask2) (simp add: mask2_def)
  have u: "(replicate c False @ [True])[c := False] = replicate (Suc c) False"
    by (simp add: list_update_append replicate_append_same)
  have n: "(replicate c False @ [True]) ! c = True"
    by (simp add: nth_append)
  show ?thesis
    unfolding next_permutation_def r sorted_run_falses
    by (simp add: upper_bound_falses u n Let_def) (simp add: mask2_def replicate_append_same)
qed

lemma next_permutation_carry:
  "next_permutation (mask2 (Suc a) 0 c) = (mask2 a (Suc c) 0, True)"
proof -
  have r: "rev (mask2 (Suc a) 0 c) = replicate c False @ True # True # False # replicate a False"
    by (simp add: rev_mask2) (simp add: mask2_def)
  have u: "(replicate c False @ [True, True])[c := False] = replicate (Suc c) False @ [True]"
    by (simp add: list_update_append replicate_append_same)
  have n: "(replicate c False @ [True, True]) ! c = True"
    by (simp add: nth_append)
  show ?thesis
    unfolding next_permutation_def r sorted_run_falses2
    by (simp add: upper_bound_falses u n Let_def) (simp add: mask2_def replicate_append_same)
qed

lemma next_permutation_last:
  "snd (next_permutation (mask2 0 0 c)) = False"
proof -
  have r: "rev (mask2 0 0 c) = replicate c False @ [True, True]"
    by (simp add: rev_mask2) (simp add: mask2_def)
  show ?thesis
    unfolding next_permutation_def r sorted_run_falses3 by simp
qed

lemma filter_upt_two_aux:
  "i < j \<Longrightarrow> filter (\<lambda>k. k = i \<or> k = j) [0..<n]
     = (if i < n then [i] else []) @ (if j < n then [j] else [])"
  by (induction n) auto

lemma filter_upt_two:
  assumes "i < j" "j < n"
  shows "filter (\<lambda>k. k = i \<or> k = j) [0..<n] = [i, j]"
  using assms filter_upt_two_aux [of i j n] by simp

lemma mask2_nth:
  "k < a + b + c + 2 \<Longrightarrow> mask2 a b c ! k \<longleftrightarrow> k = a \<or> k = a + b + 1"
  by (auto simp: mask2_def nth_append nth_Cons split: nat.splits)

lemma sel_positions_mask2: "sel_positions (mask2 a b c) = [a, a + b + 1]"
proof -
  have len: "length (mask2 a b c) = a + b + c + 2"
    by (simp add: mask2_def)
  have "filter (\<lambda>i. mask2 a b c ! i) [0..<a + b + c + 2]
      = filter (\<lambda>k. k = a \<or> k = a + b + 1) [0..<a + b + c + 2]"
  proof (rule filter_cong [OF refl])
    fix k assume "k \<in> set [0..<a + b + c + 2]"
    then have "k < a + b + c + 2" by auto
    then show "mask2 a b c ! k = (k = a \<or> k = a + b + 1)"
      by (rule mask2_nth)
  qed
  also have "\<dots> = [a, a + b + 1]"
    by (rule filter_upt_two) simp_all
  finally show ?thesis
    by (simp add: sel_positions_def len)
qed

lemma centroid_loop_mask2:
  "centroid_loop pointfn df clust (mask2 a b c) avgs
     = Some (fold (\<lambda>(i0, i1). add_dist pointfn df clust i0 i1) (mask_pairs a b c) avgs)"
proof (induction a b c arbitrary: avgs rule: mask_pairs.induct)
  case (1 c)
  show ?case
    by (subst centroid_loop.simps) (simp add: sel_positions_mask2 next_permutation_last)
next
  case (2 a c)
  show ?case
    by (subst centroid_loop.simps)
       (simp add: sel_positions_mask2 next_permutation_carry "2.IH")
next
  case (3 a b c)
  show ?case
    by (subst centroid_loop.simps)
       (simp add: sel_positions_mask2 next_permutation_shift "3.IH")
qed

lemma mask_pairs_set:
  "set (mask_pairs a b c)
     = {(i, j). i < j \<and> j < a + b + c + 2 \<and> (i < a \<or> (i = a \<and> j \<le> a + b + 1))}"
proof (induction a b c rule: mask_pairs.induct)
  case (1 c)
  show ?case by auto
next
  case (2 a c)
  have "set (mask_pairs (Suc a) 0 c)
      = insert (Suc a, Suc (Suc a)) (set (mask_pairs a (Suc c) 0))"
    by (simp only: mask_pairs.simps list.set)
  also have "\<dots> = insert (Suc a, Suc (Suc a))
      {(i, j). i < j \<and> j < a + Suc c + 0 + 2 \<and> (i < a \<or> (i = a \<and> j \<le> a + Suc c + 1))}"
    by (simp only: "2.IH")
  also have "\<dots> = {(i, j). i < j \<and> j < Suc a + 0 + c + 2
      \<and> (i < Suc a \<or> (i = Suc a \<and> j \<le> Suc a + 0 + 1))}"
    by auto
  finally show ?case .
next
  case (3 a b c)
  have "set (mask_pairs a (Suc b) c) = insert (a, a + b + 2) (set (mask_pairs a b (Suc c)))"
    by (simp only: mask_pairs.simps list.set)
  also have "\<dots> = insert (a, a + b + 2)
      {(i, j). i < j \<and> j < a + b + Suc c + 2 \<and> (i < a \<or> (i = a \<and> j \<le> a + b + 1))}"
    by (simp only: "3.IH")
  also have "\<dots> = {(i, j). i < j \<and> j < a + Suc b + c + 2
      \<and> (i < a \<or> (i = a \<and> j \<le> a + Suc b + 1))}"
    by auto
  finally show ?case .
qed

lemma mask_pairs_distinct: "distinct (mask_pairs a b c)"
proof (induction a b c rule: mask_pairs.induct)
  case (1 c)
  show ?case by simp
next
  case (2 a c)
  then show ?case by (simp add: mask_pairs_set)
next
  case (3 a b c)
  then show ?case by (simp add: mask_pairs_set)
qed

lemma add_dist_length [simp]: "length (add_dist pointfn df clust i0 i1 avgs) = length avgs"
  by (simp add: add_dist_def Let_def)

lemma add_dist_nth:
  "i0 < i1 \<Longrightarrow> i1 < length avgs \<Longrightarrow> k < length avgs \<Longrightarrow>
   add_dist pointfn df clust i0 i1 avgs ! k
     = avgs ! k + (if k = i0 \<or> k = i1 then member_dist clust pointfn df i0 i1 else 0)"
  by (auto simp: add_dist_def Let_def member_dist_def nth_list_update)

lemma fold_add_dist_length [simp]:
  "length (fold (\<lambda>(i0, i1). add_dist pointfn df clust i0 i1) ps avgs) = length avgs"
  by (induction ps arbitrary: avgs) auto

lemma fold_add_dist_nth:
  "\<forall>(i, j) \<in> set ps. i < j \<and> j < length avgs \<Longrightarrow> k < length avgs \<Longrightarrow>
   fold (\<lambda>(i0, i1). add_dist pointfn df clust i0 i1) ps avgs ! k
     = avgs ! k + sum_list (map (\<lambda>(i, j). member_dist clust pointfn df i j)
                              (filter (\<lambda>(i, j). k = i \<or> k = j) ps))"
proof (induction ps arbitrary: avgs)
  case Nil
  then show ?case by simp
next
  case (Cons p ps)
  obtain i j where p: "p = (i, j)" by (cases p) auto
  from Cons.prems p have ij: "i < j" "j < length avgs" by auto
  have "fold (\<lambda>(i0, i1). add_dist pointfn df clust i0 i1) ps (add_dist pointfn df clust i j avgs) ! k
     = add_dist pointfn df clust i j avgs ! k
       + sum_list (map (\<lambda>(i, j). member_dist clust pointfn df i j)
                              (filter (\<lambda>(i, j). k = i \<or> k = j) ps))"
    by (rule Cons.IH) (use Cons.prems in auto)
  then show ?case
    unfolding p using ij Cons.prems(2) by (simp add: add_dist_nth)
qed

lemma member_dist_min_max:
  "member_dist clust pointfn df (min k j) (max k j) = member_dist clust pointfn df k j"
  by (simp add: member_dist_def)

lemma pair_sum_eq_dist_sum:
  assumes k: "k < n" and n: "n = length clust"
  shows "(\<Sum>(i, j) \<in> {(i, j). i < j \<and> j < n \<and> (k = i \<or> k = j)}.
            member_dist clust pointfn df i j)
       = dist_sum clust pointfn df k"
proof -
  let ?S = "{(i, j). i < j \<and> j < n \<and> (k = i \<or> k = j)}"
  let ?T = "{j. j < n \<and> j \<noteq> k}"
  have "(\<Sum>p \<in> ?S. case p of (i, j) \<Rightarrow> member_dist clust pointfn df i j)
      = (\<Sum>j \<in> ?T. member_dist clust pointfn df k j)"
  proof (rule sum.reindex_bij_witness
      [of _ "\<lambda>j. (min k j, max k j)" "\<lambda>p. if fst p = k then snd p else fst p"])
    fix p assume "p \<in> ?S"
    then show "(min k (if fst p = k then snd p else fst p),
                max k (if fst p = k then snd p else fst p)) = p"
      by (cases p) (auto simp: min_def max_def)
  next
    fix p assume "p \<in> ?S"
    then show "(if fst p = k then snd p else fst p) \<in> ?T"
      by (cases p) auto
  next
    fix j assume "j \<in> ?T"
    then show "(if fst (min k j, max k j) = k then snd (min k j, max k j)
                else fst (min k j, max k j)) = j"
      by (auto simp: min_def max_def)
  next
    fix j assume "j \<in> ?T"
    then show "(min k j, max k j) \<in> ?S"
      using k by (auto simp: min_def max_def)
  next
    fix p assume "p \<in> ?S"
    then show "member_dist clust pointfn df k (if fst p = k then snd p else fst p)
        = (case p of (i, j) \<Rightarrow> member_dist clust pointfn df i j)"
      by (cases p) (auto simp: member_dist_def min_def max_def)
  qed
  also have "\<dots> = dist_sum clust pointfn df k"
  proof -
    have "distinct (filter (\<lambda>j. j \<noteq> k) [0..<length clust])"
      by simp
    moreover have "set (filter (\<lambda>j. j \<noteq> k) [0..<length clust]) = ?T"
      using n by auto
    ultimately show ?thesis
      unfolding dist_sum_def by (metis sum_list_distinct_conv_sum_set)
  qed
  finally show ?thesis .
qed

lemma centroid_sums:
  assumes n: "2 \<le> length clust" and k: "k < length clust"
  shows "fold (\<lambda>(i0, i1). add_dist pointfn df clust i0 i1)
            (mask_pairs (length clust - 2) 0 0) (replicate (length clust) 0) ! k
       = dist_sum clust pointfn df k"
proof -
  let ?n = "length clust"
  let ?ps = "mask_pairs (?n - 2) 0 0"
  have set_ps: "set ?ps = {(i, j). i < j \<and> j < ?n}"
    using n by (auto simp: mask_pairs_set)
  have bound: "\<forall>(i, j) \<in> set ?ps. i < j \<and> j < length (replicate ?n (0::real))"
    unfolding set_ps by simp
  have "fold (\<lambda>(i0, i1). add_dist pointfn df clust i0 i1) ?ps (replicate ?n 0) ! k
      = replicate ?n 0 ! k
        + sum_list (map (\<lambda>(i, j). member_dist clust pointfn df i j)
                      (filter (\<lambda>(i, j). k = i \<or> k = j) ?ps))"
    by (rule fold_add_dist_nth [OF bound]) (use k in simp)
  also have "\<dots> = sum_list (map (\<lambda>(i, j). member_dist clust pointfn df i j)
                      (filter (\<lambda>(i, j). k = i \<or> k = j) ?ps))"
    using k by simp
  also have "\<dots> = (\<Sum>p \<in> set (filter (\<lambda>(i, j). k = i \<or> k = j) ?ps).
                       case p of (i, j) \<Rightarrow> member_dist clust pointfn df i j)"
    by (rule sum_list_distinct_conv_sum_set) (simp add: mask_pairs_distinct)
  also have "set (filter (\<lambda>(i, j). k = i \<or> k = j) ?ps)
      = {(i, j). i < j \<and> j < ?n \<and> (k = i \<or> k = j)}"
    unfolding set_filter set_ps by auto
  also have "(\<Sum>(i, j) \<in> {(i, j). i < j \<and> j < ?n \<and> (k = i \<or> k = j)}.
                 member_dist clust pointfn df i j) = dist_sum clust pointfn df k"
    by (rule pair_sum_eq_dist_sum [OF k refl])
  finally show ?thesis .
qed

lemma min_element_fold:
  fixes xs :: "real list"
  shows "1 \<le> n \<Longrightarrow> n \<le> length xs \<Longrightarrow>
   (let m = fold (\<lambda>i smallest. if xs ! i < xs ! smallest then i else smallest) [1..<n] 0
    in m < n \<and> (\<forall>k < n. xs ! m \<le> xs ! k) \<and> (\<forall>k < m. xs ! m < xs ! k))"
proof (induction n)
  case 0
  then show ?case by simp
next
  case (Suc n)
  show ?case
  proof (cases "n = 0")
    case True
    then show ?thesis by simp
  next
    case False
    then have n1: "1 \<le> n" by simp
    from Suc.prems have nl: "n \<le> length xs" by simp
    let ?m = "fold (\<lambda>i smallest. if xs ! i < xs ! smallest then i else smallest) [1..<n] 0"
    from Suc.IH [OF n1 nl] have IH: "?m < n" "\<forall>k < n. xs ! ?m \<le> xs ! k" "\<forall>k < ?m. xs ! ?m < xs ! k"
      by (simp_all add: Let_def)
    have upt: "[1..<Suc n] = [1..<n] @ [n]"
      using n1 by simp
    show ?thesis
    proof (cases "xs ! n < xs ! ?m")
      case True
      then have m: "fold (\<lambda>i smallest. if xs ! i < xs ! smallest then i else smallest) [1..<Suc n] 0 = n"
        unfolding upt by simp
      have lt: "\<forall>k < n. xs ! n < xs ! k"
      proof (intro allI impI)
        fix k assume "k < n"
        with IH(2) have "xs ! ?m \<le> xs ! k" by simp
        with True show "xs ! n < xs ! k" by simp
      qed
      have "\<forall>k < Suc n. xs ! n \<le> xs ! k"
      proof (intro allI impI)
        fix k assume "k < Suc n"
        then consider "k < n" | "k = n" by linarith
        then show "xs ! n \<le> xs ! k"
          using lt by cases (simp_all add: less_imp_le)
      qed
      moreover note lt
      ultimately show ?thesis
        unfolding m Let_def by simp
    next
      case False
      then have m: "fold (\<lambda>i smallest. if xs ! i < xs ! smallest then i else smallest) [1..<Suc n] 0 = ?m"
        unfolding upt by simp
      have "\<forall>k < Suc n. xs ! ?m \<le> xs ! k"
      proof (intro allI impI)
        fix k assume "k < Suc n"
        then consider "k < n" | "k = n" by linarith
        then show "xs ! ?m \<le> xs ! k"
          using False IH(2) by cases simp_all
      qed
      then show ?thesis
        unfolding m Let_def using IH by simp
    qed
  qed
qed

lemma min_element_spec:
  assumes "xs \<noteq> []"
  shows "min_element xs < length xs"
    and "\<And>k. k < length xs \<Longrightarrow> xs ! min_element xs \<le> xs ! k"
    and "\<And>k. k < min_element xs \<Longrightarrow> xs ! min_element xs < xs ! k"
proof -
  from assms have "1 \<le> length xs"
    by (cases xs) simp_all
  from min_element_fold [OF this order_refl]
  show "min_element xs < length xs"
    and "\<And>k. k < length xs \<Longrightarrow> xs ! min_element xs \<le> xs ! k"
    and "\<And>k. k < min_element xs \<Longrightarrow> xs ! min_element xs < xs ! k"
    by (simp_all add: min_element_def Let_def)
qed

lemma initial_mask: "replicate n False @ [True, True] = mask2 n 0 0"
  by (simp add: mask2_def)

lemma cluster_centroid_large:
  assumes n: "3 \<le> length clust"
  shows "cluster_centroid clust pointfn df
     = Some (int (min_element (map (\<lambda>k. dist_sum clust pointfn df k / real (length clust))
                                  [0..<length clust])))"
proof -
  let ?n = "length clust"
  let ?avgs = "fold (\<lambda>(i0, i1). add_dist pointfn df clust i0 i1)
                 (mask_pairs (?n - 2) 0 0) (replicate ?n 0)"
  have len: "length ?avgs = ?n"
    by simp
  have "map (\<lambda>a. a / real ?n) ?avgs
      = map (\<lambda>k. dist_sum clust pointfn df k / real ?n) [0..<?n]"
  proof (rule nth_equalityI)
    show "length (map (\<lambda>a. a / real ?n) ?avgs)
        = length (map (\<lambda>k. dist_sum clust pointfn df k / real ?n) [0..<?n])"
      by simp
  next
    fix k assume "k < length (map (\<lambda>a. a / real ?n) ?avgs)"
    then have k: "k < ?n" by simp
    then show "map (\<lambda>a. a / real ?n) ?avgs ! k
        = map (\<lambda>k. dist_sum clust pointfn df k / real ?n) [0..<?n] ! k"
      using centroid_sums [of clust k pointfn df] n by simp
  qed
  moreover have "length clust \<noteq> 0" "length clust \<noteq> 1" "length clust \<noteq> 2"
    using n by linarith+
  ultimately show ?thesis
    unfolding cluster_centroid_def Let_def initial_mask centroid_loop_mask2
    by (simp del: length_0_conv)
qed

lemma dist_sum_symmetric:
  assumes "\<forall>p q. df p q = df q p"
  shows "dist_sum clust pointfn df k
     = sum_list (map (\<lambda>j. df (pointfn (clust ! k)) (pointfn (clust ! j)))
                  (filter (\<lambda>j. j \<noteq> k) [0..<length clust]))"
proof -
  have "member_dist clust pointfn df k = (\<lambda>j. df (pointfn (clust ! k)) (pointfn (clust ! j)))"
    using assms by (intro ext) (simp add: member_dist_def min_def max_def)
  then show ?thesis
    by (simp add: dist_sum_def)
qed

lemma cluster_centroid_exists:
  "\<exists>c. cluster_centroid clust pointfn df = Some c
      \<and> (c = - 1 \<longleftrightarrow> clust = [])
      \<and> (length clust = 1 \<or> length clust = 2 \<longrightarrow> c = 0)
      \<and> (3 \<le> length clust \<longrightarrow>
            0 \<le> c \<and> nat c < length clust
          \<and> (\<forall>k < length clust.
                dist_sum clust pointfn df (nat c) \<le> dist_sum clust pointfn df k)
          \<and> (\<forall>k < nat c.
                dist_sum clust pointfn df (nat c) < dist_sum clust pointfn df k))
      \<and> ((\<forall>p q. df p q = df q p) \<longrightarrow>
            (\<forall>k. dist_sum clust pointfn df k
                 = sum_list (map (\<lambda>j. df (pointfn (clust ! k)) (pointfn (clust ! j)))
                              (filter (\<lambda>j. j \<noteq> k) [0..<length clust]))))"
proof (cases "3 \<le> length clust")
  case False
  then have "length clust = 0 \<or> length clust = 1 \<or> length clust = 2"
    by linarith
  then show ?thesis
    using dist_sum_symmetric [of df clust pointfn]
    by (auto simp: cluster_centroid_def)
next
  case True
  let ?n = "length clust"
  let ?avgs = "map (\<lambda>k. dist_sum clust pointfn df k / real ?n) [0..<?n]"
  let ?m = "min_element ?avgs"
  have "0 < length clust"
    using True by linarith
  then have cne: "clust \<noteq> []"
    by simp
  then have ne: "?avgs \<noteq> []"
    by simp
  have npos: "0 < real ?n"
    using cne by simp
  have m: "?m < ?n"
    using min_element_spec(1) [OF ne] by simp
  have least: "dist_sum clust pointfn df ?m \<le> dist_sum clust pointfn df k" if "k < ?n" for k
  proof -
    have "?avgs ! ?m \<le> ?avgs ! k"
      using min_element_spec(2) [OF ne, of k] that by simp
    then show ?thesis
      using m that npos by (simp add: divide_le_cancel)
  qed
  have first: "dist_sum clust pointfn df ?m < dist_sum clust pointfn df k" if "k < ?m" for k
  proof -
    have "?avgs ! ?m < ?avgs ! k"
      using min_element_spec(3) [OF ne, of k] that by simp
    then show ?thesis
      using m that npos by (simp add: divide_less_cancel)
  qed
  show ?thesis
    using cne True m least first dist_sum_symmetric [of df clust pointfn]
    by (simp add: cluster_centroid_large)
qed


lemma dist_xy_commute: "dist_xy p q = dist_xy q p"
proof -
  have "(a - b) * (a - b) = (b - a) * (b - a)" for a b :: real
    by (simp add: algebra_simps)
  then show ?thesis
    by (simp add: dist_xy_def distance2d_def)
qed

lemma dist_sum_line:
  "dist_sum [0, 1, 2] points_on_line dist_xy 0 = 4"
  "dist_sum [0, 1, 2] points_on_line dist_xy 1 = 3"
  "dist_sum [0, 1, 2] points_on_line dist_xy 2 = 5"
  by (simp_all add: dist_sum_def member_dist_def points_on_line_def dist_xy_def distance2d_def
        upt_rec [of 0] upt_rec [of 1] upt_rec [of 2])


text \<open>
  Claim C9. \<open>cluster_centroid\<close> returns for every cluster: \<open>-1\<close> exactly when the cluster
  is empty, 0 for a cluster of one or two members, and for a cluster of at least three
  members the position \<open>c\<close> of a member whose sum of distances to all other members is
  minimal, the lowest such position. The sum \<open>dist_sum\<close> takes the distance of two
  members as the loop does, with the member of the lower position first; for a
  symmetric \<open>df\<close> it is the sum of \<open>df(member, other)\<close> over the other members.
\<close>

theorem cluster_centroid_spec:
  "cluster_centroid [] pointfn df = Some (- 1)
   \<and> cluster_centroid [x] pointfn df = Some 0
   \<and> cluster_centroid [x, y] pointfn df = Some 0
   \<and> (\<exists>c. cluster_centroid clust pointfn df = Some c
        \<and> (c = - 1 \<longleftrightarrow> clust = [])
        \<and> (3 \<le> length clust \<longrightarrow>
              0 \<le> c \<and> nat c < length clust
            \<and> (\<forall>k < length clust.
                  dist_sum clust pointfn df (nat c) \<le> dist_sum clust pointfn df k)
            \<and> (\<forall>k < nat c.
                  dist_sum clust pointfn df (nat c) < dist_sum clust pointfn df k)))
   \<and> ((\<forall>p q. df p q = df q p) \<longrightarrow>
         (\<forall>k. dist_sum clust pointfn df k
              = sum_list (map (\<lambda>j. df (pointfn (clust ! k)) (pointfn (clust ! j)))
                           (filter (\<lambda>j. j \<noteq> k) [0..<length clust]))))"
proof -
  have small: "cluster_centroid [] pointfn df = Some (- 1)"
    "cluster_centroid [x] pointfn df = Some 0" "cluster_centroid [x, y] pointfn df = Some 0"
    by (simp_all add: cluster_centroid_def)
  from cluster_centroid_exists [of clust pointfn df] small show ?thesis
    by blast
qed

theorem cluster_centroid_spec_witness:
  "(3::nat) \<le> length [0, 1, 2 :: nat]
   \<and> (\<forall>p q. dist_xy p q = dist_xy q p)
   \<and> cluster_centroid [0, 1, 2] points_on_line dist_xy = Some 1"
proof -
  from cluster_centroid_spec [of points_on_line dist_xy 0 0 "[0, 1, 2]"]
  obtain c where c: "cluster_centroid [0, 1, 2] points_on_line dist_xy = Some c"
    and range: "0 \<le> c" "nat c < 3"
    and least: "\<forall>k < 3. dist_sum [0, 1, 2] points_on_line dist_xy (nat c)
                  \<le> dist_sum [0, 1, 2] points_on_line dist_xy k"
    by auto
  from least have "dist_sum [0, 1, 2] points_on_line dist_xy (nat c) \<le> 3"
    using dist_sum_line(2) by (metis One_nat_def Suc_1 lessI less_SucI numeral_3_eq_3)
  moreover from range have "nat c = 0 \<or> nat c = 1 \<or> nat c = 2"
    by linarith
  ultimately have "nat c = 1"
    using dist_sum_line by auto
  with range have "c = 1"
    by simp
  with c show ?thesis
    using dist_xy_commute by simp
qed

subsection \<open>The stage ROUTING_GROUND\<close>

lemma distance2d_commute: "distance2d a b = distance2d b a"
proof -
  have "(x - y) * (x - y) = (y - x) * (y - x)" for x y :: real
    by (simp add: algebra_simps)
  then show ?thesis
    by (simp add: distance2d_def)
qed

lemma weave_adds_refl: "weave_adds E cfg emesh r r"
  by (simp add: weave_adds_def)

lemma weave_adds_trans:
  "weave_adds E cfg emesh r1 r2 \<Longrightarrow> weave_adds E cfg emesh r2 r3 \<Longrightarrow> weave_adds E cfg emesh r1 r3"
  by (auto simp: weave_adds_def)

lemma weave_bridge_adds:
  assumes "weave_bridge E cfg pillar pillar_dist nstartz sj ej chkd result = Some result'"
    and "chkd = ray_mesh_intersect E sj (normalized (vsub ej sj)) emesh"
    and "pillar_dist = distance2d (vX sj, vY sj) (vX ej, vY ej)"
  shows "weave_adds E cfg emesh result result'"
proof (cases "dbl_ge chkd pillar_dist \<and> nstartz > vZ ej")
  case False
  with assms(1) show ?thesis
    by (simp add: weave_bridge_def weave_adds_refl)
next
  case True
  with assms(1) obtain jS jE b where
    jS: "Junction_ctor sj (head_back_radius_mm cfg) 45 = Some jS"
    and jE: "Junction_ctor ej (head_back_radius_mm cfg) 45 = Some jE"
    and b: "Bridge_junctions E jS jE (pillar_r pillar) = Some b"
    and r: "result' = add_bridge b (add_junction jE (add_junction jS result))"
    by (auto simp: weave_bridge_def Let_def split: bind_splits if_splits)
  have "clear_bridge E cfg emesh b"
    unfolding clear_bridge_def using True assms(2,3) jS jE b by blast
  then show ?thesis
    by (simp add: r weave_adds_def add_bridge_def add_junction_def)
qed

text \<open>
  The invariant of the inner loop: \<open>chkd\<close> is the cast from \<open>sj\<close> toward \<open>ej\<close>, which are
  \<open>pillar_dist\<close> apart in the plane.
\<close>

lemma weave_while_body_adds:
  assumes "weave_while_body E cfg emesh pillar pillar_dist nstartz (sj, ej, chkd, result)
             = Some (sj', ej', chkd', result')"
    and "chkd = ray_mesh_intersect E sj (normalized (vsub ej sj)) emesh"
    and "pillar_dist = distance2d (vX sj, vY sj) (vX ej, vY ej)"
  shows "chkd' = ray_mesh_intersect E sj' (normalized (vsub ej' sj')) emesh
       \<and> pillar_dist = distance2d (vX sj', vY sj') (vX ej', vY ej')
       \<and> weave_adds E cfg emesh result result'"
proof -
  from assms(1) have
    w: "weave_bridge E cfg pillar pillar_dist nstartz sj ej chkd result = Some result'"
    and s: "sj' = ej" "ej' = (vX sj, vY sj, vZ ej + pillar_dist * sin (- tilt cfg))"
      "chkd' = ray_mesh_intersect E sj' (normalized (vsub ej' sj')) emesh"
    by (auto simp: weave_while_body_def Let_def split: bind_splits)
  have "pillar_dist = distance2d (vX sj', vY sj') (vX ej', vY ej')"
    using assms(3) by (simp add: s distance2d_commute)
  with s(3) weave_bridge_adds [OF w assms(2,3)] show ?thesis
    by simp
qed

lemma weave_while_reaches_adds:
  assumes "weave_while_reaches E cfg emesh pillar nextpillar pillar_dist nstartz st0 st"
    and "fst (snd (snd st0))
           = ray_mesh_intersect E (fst st0) (normalized (vsub (fst (snd st0)) (fst st0))) emesh"
    and "pillar_dist
           = distance2d (vX (fst st0), vY (fst st0)) (vX (fst (snd st0)), vY (fst (snd st0)))"
  shows "fst (snd (snd st))
           = ray_mesh_intersect E (fst st) (normalized (vsub (fst (snd st)) (fst st))) emesh
       \<and> pillar_dist
           = distance2d (vX (fst st), vY (fst st)) (vX (fst (snd st)), vY (fst (snd st)))
       \<and> weave_adds E cfg emesh (snd (snd (snd st0))) (snd (snd (snd st)))"
  using assms
proof (induction rule: weave_while_reaches.induct)
  case (weave_while_start st)
  then show ?case
    by (simp add: weave_adds_refl)
next
  case (weave_while_turn st st' st'')
  obtain sj ej chkd result where st': "st' = (sj, ej, chkd, result)"
    by (cases st') auto
  obtain sj' ej' chkd' result' where st'': "st'' = (sj', ej', chkd', result')"
    by (cases st'') auto
  from weave_while_turn.IH [OF weave_while_turn.prems] have
    inv: "chkd = ray_mesh_intersect E sj (normalized (vsub ej sj)) emesh"
      "pillar_dist = distance2d (vX sj, vY sj) (vX ej, vY ej)"
    and adds: "weave_adds E cfg emesh (snd (snd (snd st))) result"
    by (simp_all add: st')
  from weave_while_body_adds [OF weave_while_turn.hyps(3) [unfolded st' st''] inv] adds
  show ?case
    by (auto simp: st'' intro: weave_adds_trans)
qed

lemma weave_while_reaches_first:
  assumes "weave_while_reaches E cfg emesh pillar nextpillar pillar_dist nstartz st1 st2"
    and "weave_while_cond pillar nextpillar st"
    and "weave_while_body E cfg emesh pillar pillar_dist nstartz st = Some st1"
  shows "weave_while_reaches E cfg emesh pillar nextpillar pillar_dist nstartz st st2"
  using assms
proof (induction rule: weave_while_reaches.induct)
  case (weave_while_start st1)
  from weave_while_reaches.weave_while_start this show ?case
    by (rule weave_while_reaches.weave_while_turn)
next
  case (weave_while_turn st1 st' st'')
  from weave_while_turn.IH [OF weave_while_turn.prems] weave_while_turn.hyps(2,3) show ?case
    by (rule weave_while_reaches.weave_while_turn)
qed

lemma weave_while_reaches_result:
  assumes "weave_while E cfg emesh pillar nextpillar pillar_dist nstartz st = Some st'"
  shows "weave_while_reaches E cfg emesh pillar nextpillar pillar_dist nstartz st st'"
proof (rule weave_while.raw_induct
    [where P = "\<lambda>E cfg emesh pillar nextpillar pillar_dist nstartz st st'.
       weave_while_reaches E cfg emesh pillar nextpillar pillar_dist nstartz st st'",
     OF _ assms], goal_cases)
  case (1 weave_while' E cfg emesh pillar nextpillar pillar_dist nstartz st st')
  show ?case
  proof (cases "weave_while_cond pillar nextpillar st")
    case False
    with "1"(2) have "st' = st"
      by simp
    then show ?thesis
      by (simp add: weave_while_start)
  next
    case True
    with "1"(2) obtain st1 where
      b: "weave_while_body E cfg emesh pillar pillar_dist nstartz st = Some st1"
      and w: "weave_while' E cfg emesh pillar nextpillar pillar_dist nstartz st1 = Some st'"
      by (auto split: option.splits)
    from "1"(1) [OF w] True b show ?thesis
      by (rule weave_while_reaches_first)
  qed
qed

lemma weave_edge_start_inv:
  assumes "weave_edge_start E cfg emesh ji edge result
             = Some (pillar, nextpillar, pillar_dist, nstartz, st0)"
  shows "fst (snd (snd st0))
           = ray_mesh_intersect E (fst st0) (normalized (vsub (fst (snd st0)) (fst st0))) emesh
       \<and> pillar_dist
           = distance2d (vX (fst st0), vY (fst st0)) (vX (fst (snd st0)), vY (fst (snd st0)))
       \<and> snd (snd (snd st0)) = result"
  using assms by (auto simp: weave_edge_start_def Let_def split: bind_splits)

lemma weave_edge_None: "weave_edge E cfg emesh ji edge None = None"
  by (simp add: weave_edge_def)

lemma fold_weave_edge_None: "fold (weave_edge E cfg emesh ji) edges None = None"
  by (induction edges) (simp_all add: weave_edge_None)

lemma weave_edge_adds:
  assumes "weave_edge E cfg emesh ji edge (Some result) = Some result'"
  shows "weave_adds E cfg emesh result result'"
proof -
  from assms obtain pillar nextpillar pillar_dist nstartz st0 st' where
    s: "weave_edge_start E cfg emesh ji edge result
          = Some (pillar, nextpillar, pillar_dist, nstartz, st0)"
    and w: "weave_while E cfg emesh pillar nextpillar pillar_dist nstartz st0 = Some st'"
    and r: "result' = snd (snd (snd st'))"
    by (auto simp: weave_edge_def split: bind_splits prod.splits)
  from weave_edge_start_inv [OF s]
    weave_while_reaches_adds [OF weave_while_reaches_result [OF w]]
  show ?thesis
    by (simp add: r)
qed

lemma fold_weave_edge_adds:
  "fold (weave_edge E cfg emesh ji) edges (Some result) = Some result'
     \<Longrightarrow> weave_adds E cfg emesh result result'"
proof (induction edges arbitrary: result)
  case Nil
  then show ?case by (simp add: weave_adds_refl)
next
  case (Cons e edges)
  show ?case
  proof (cases "weave_edge E cfg emesh ji e (Some result)")
    case None
    with Cons.prems show ?thesis
      by (simp add: fold_weave_edge_None)
  next
    case (Some r)
    with Cons.prems have "fold (weave_edge E cfg emesh ji) edges (Some r) = Some result'"
      by simp
    from Cons.IH [OF this] weave_edge_adds [OF Some] show ?thesis
      by (rule weave_adds_trans [rotated])
  qed
qed

lemma weave_edges_reaches_adds:
  assumes "weave_edges_reaches E cfg emesh ji edges result tree"
  shows "weave_adds E cfg emesh result tree"
  using assms
proof (induction rule: weave_edges_reaches.induct)
  case (weave_edges_start edges result)
  show ?case
    by (rule weave_adds_refl)
next
  case (weave_edges_within edge result pillar nextpillar pillar_dist nstartz st0 st edges)
  from weave_edge_start_inv [OF weave_edges_within(1)]
    weave_while_reaches_adds [OF weave_edges_within(2)]
  show ?case
    by simp
next
  case (weave_edges_next edge result result' edges tree)
  from weave_edge_adds [OF weave_edges_next(1)] weave_edges_next.IH show ?case
    by (rule weave_adds_trans)
qed

lemma weave_edges_reaches_result:
  "fold (weave_edge E cfg emesh ji) edges (Some result) = Some result'
     \<Longrightarrow> weave_edges_reaches E cfg emesh ji edges result result'"
proof (induction edges arbitrary: result)
  case Nil
  then show ?case
    by (simp add: weave_edges_start)
next
  case (Cons e edges)
  show ?case
  proof (cases "weave_edge E cfg emesh ji e (Some result)")
    case None
    with Cons.prems show ?thesis
      by (simp add: fold_weave_edge_None)
  next
    case (Some r)
    with Cons.prems have "fold (weave_edge E cfg emesh ji) edges (Some r) = Some result'"
      by simp
    from Some Cons.IH [OF this] show ?thesis
      by (rule weave_edges_next)
  qed
qed

lemma weave_rings_reaches_adds:
  assumes "weave_rings_reaches E cfg emesh gndidx head_positions ji rem result tree"
  shows "weave_adds E cfg emesh result tree"
  using assms
proof (induction rule: weave_rings_reaches.induct)
  case (weave_rings_start rem result)
  show ?case
    by (rule weave_adds_refl)
next
  case (weave_rings_within rem ring result tree)
  from weave_rings_within(3) show ?case
    by (rule weave_edges_reaches_adds)
next
  case (weave_rings_next rem ring result result' tree)
  from fold_weave_edge_adds [OF weave_rings_next(3)] weave_rings_next.IH show ?case
    by (rule weave_adds_trans)
qed

lemma weave_rings_reaches_result:
  assumes "weave_rings E cfg emesh gndidx head_positions ji rem result = Some result'"
  shows "weave_rings_reaches E cfg emesh gndidx head_positions ji rem result result'"
proof (rule weave_rings.raw_induct
    [where P = "\<lambda>E cfg emesh gndidx head_positions ji rem result result'.
       weave_rings_reaches E cfg emesh gndidx head_positions ji rem result result'",
     OF _ assms], goal_cases)
  case (1 weave_rings' E cfg emesh gndidx head_positions ji rem result result')
  show ?case
  proof (cases "rem = []")
    case True
    with "1"(2) show ?thesis
      by (simp add: weave_rings_start)
  next
    case False
    with "1"(2) obtain ring r where
      h: "pts_convex_hull (sort rem)
           (\<lambda>i. map_option (\<lambda>p. (vX p, vY p)) (gnd_head_pt gndidx head_positions i))
          = Some ring"
      and f: "fold (weave_edge E cfg emesh ji) (zip ring (tl ring)) (Some result) = Some r"
      and w: "weave_rings' E cfg emesh gndidx head_positions ji
                (set_difference (sort rem) (sort ring)) r = Some result'"
      by (auto simp: Let_def split: option.splits)
    from False h f "1"(1) [OF w] show ?thesis
      by (rule weave_rings_next)
  qed
qed

lemma Junction_ctor_at: "Junction_ctor p r 45 = Some (junction_at p r)"
  using Junction_ctor_Some [of 45 p r] by (auto simp: junction_at_def)

lemma pos_junction_at: "pos (junction_at p r) = p"
  using Junction_ctor_Some [of 45 p r] by (auto simp: junction_at_def)

lemma Bridge_junctions_of: "Bridge_junctions E j1 j2 r = Some (bridge_of E j1 j2 r)"
proof -
  obtain m where "cylinder r (distance3d (pos j2) (pos j1)) (2 * pi / 45) = Some m"
    using cylinder_45 by blast
  then show ?thesis
    by (simp add: Bridge_junctions_def bridge_of_def)
qed

lemma add_tail_tailed: "head_steps h \<noteq> 0 \<Longrightarrow> add_tail (- 1) (- 1) h = Some (tailed h)"
  by (simp add: add_tail_def tailed_def Let_def)

lemma tailed_fields:
  assumes "head_steps h \<noteq> 0"
  shows "junction_point (tailed h) = junction_point h" "fullwidth (tailed h) = fullwidth h"
    "head_steps (tailed h) = head_steps h" "r_back_mm (tailed h) = r_back_mm h"
    "head_steps h \<le> length (points (tail_mesh (tail (tailed h))))"
  using assms
  by (simp_all add: add_tail_def tailed_def Let_def junction_point_def fullwidth_def)

lemma transformed_fields:
  "junction_point (transform E h) = junction_point h" "fullwidth (transform E h) = fullwidth h"
  "head_steps (transform E h) = head_steps h" "r_back_mm (transform E h) = r_back_mm h"
  "tail (transform E h) = tail h"
  by (simp_all add: transform_def junction_point_def fullwidth_def)

lemma Pillar_ctor_of:
  "head_steps h \<noteq> 0 \<Longrightarrow> head_steps h \<le> length (points (tail_mesh (tail h)))
     \<Longrightarrow> Pillar_ctor h i e r = Some (pillar_of h i e r)"
  by (simp add: Pillar_ctor_def pillar_of_def Let_def)

lemma pillar_of_fields:
  assumes "head_steps h \<noteq> 0" "head_steps h \<le> length (points (tail_mesh (tail h)))"
  shows "endpoint (pillar_of h i e r) = e" "headref (pillar_of h i e r) = i"
    "pillar_r (pillar_of h i e r) = request_pillar_radius h r"
    "pillar_steps (pillar_of h i e r) = head_steps h"
  using assms by (simp_all add: Pillar_ctor_def pillar_of_def Let_def)

lemma add_base_based:
  "pillar_steps p \<noteq> 0 \<Longrightarrow> add_base height radius p = Some (based height radius p)"
  by (simp add: add_base_def based_def Let_def)

lemma based_fields:
  assumes "pillar_steps p \<noteq> 0"
  shows "endpoint (based height radius p) = endpoint p"
    "headref (based height radius p) = headref p"
    "pillar_r (based height radius p) = pillar_r p"
  using assms by (simp_all add: add_base_def based_def Let_def)

lemma sin_tilt30: "sin (tilt cfg_tilt30) = 1 / 2"
  by (simp add: cfg_tilt30_def cfg_std_def sin_30)

lemma cfg_tilt30_fields:
  "head_back_radius_mm cfg_tilt30 = 0.5" "pillar_radius_mm cfg_tilt30 = 0.3"
  "base_radius_mm cfg_tilt30 = 1" "base_height_mm cfg_tilt30 = 1"
  by (simp_all add: cfg_tilt30_def cfg_std_def)

lemma distance2d_x: "distance2d (a, y) (b, y) = \<bar>b - a\<bar>"
  by (simp add: distance2d_def)

lemma distance2d_y: "distance2d (x, a) (x, b) = \<bar>b - a\<bar>"
  by (simp add: distance2d_def)

lemma side_head_fields:
  "junction_point (tailed (transform E (head_at E x y))) = (x, y, 8.1)"
  "fullwidth (tailed (transform E (head_at E x y))) = 2.4"
  "head_steps (tailed (transform E (head_at E x y))) = 45"
  "r_back_mm (tailed (transform E (head_at E x y))) = 0.5"
  "45 \<le> length (points (tail_mesh (tail (tailed (transform E (head_at E x y))))))"
  using tailed_fields [of "transform E (head_at E x y)"]
  by (simp_all add: transformed_fields head_at_fields)

lemma main_head_fields:
  "junction_point (tailed (head_at E x y)) = (x, y, 8.1)"
  "fullwidth (tailed (head_at E x y)) = 2.4"
  "head_steps (tailed (head_at E x y)) = 45"
  "r_back_mm (tailed (head_at E x y)) = 0.5"
  "45 \<le> length (points (tail_mesh (tail (tailed (head_at E x y)))))"
  using tailed_fields [of "head_at E x y"]
  by (simp_all add: head_at_fields)

lemma grows_from_four_small: "\<not> grows_from_four 1" "\<not> grows_from_four 3"
  by (simp_all add: grows_from_four_def)

lemma grows_doubling_one: "grows_doubling 1"
  by (simp add: grows_doubling_def)

lemma ext_roomy_fields:
  "ray_mesh_intersect (ext_roomy ray n) = ray" "emplace_moves (ext_roomy ray n) = grows_from_four"
  by (simp_all add: ext_roomy_def ext_example_def)

lemma route_sidehead_example:
  assumes "\<not> emplace_moves E (Suc (length js))"
  shows "route_sidehead E cfg_tilt30 [0, 1] 0 1
     (Some \<lparr>m_heads = [transform E (tailed (head_at E 0 0)), head_at E 2 0],
            m_pillars = ps, m_junctions = js, m_bridges = bs\<rparr>)
   = Some \<lparr>m_heads = [transform E (tailed (head_at E 0 0)), tailed (transform E (head_at E 2 0))],
           m_pillars = ps @ [pillar_of (tailed (transform E (head_at E 2 0))) 1 (2, 0, 5.7) 0.3],
           m_junctions = js @ [junction_at (2, 0, 5.7) 0.5, junction_at (0, 0, 4.7) 0.5],
           m_bridges = bs @ [bridge_of E (junction_at (2, 0, 5.7) 0.5) (junction_at (0, 0, 4.7) 0.5)
                               0.3]\<rparr>"
  using assms
  by (simp add: route_sidehead_def Let_def row_def transformed_fields head_at_fields add_tail_tailed
      side_head_fields main_head_fields request_pillar_radius_def distance2d_x sin_tilt30
      cfg_tilt30_fields Junction_ctor_at Pillar_ctor_of Bridge_junctions_of
      add_junction_def add_pillar_def add_bridge_def)

lemma route_sidehead_dangling:
  assumes "emplace_moves E (Suc (length js))"
  shows "route_sidehead E cfg_tilt30 [0, 1] 0 1
     (Some \<lparr>m_heads = [transform E (tailed (head_at E 0 0)), head_at E 2 0],
            m_pillars = ps, m_junctions = js, m_bridges = bs\<rparr>)
   = None"
  using assms
  by (simp add: route_sidehead_def Let_def row_def transformed_fields head_at_fields add_tail_tailed
      side_head_fields main_head_fields request_pillar_radius_def distance2d_x sin_tilt30
      cfg_tilt30_fields Junction_ctor_at Pillar_ctor_of Bridge_junctions_of
      add_junction_def add_pillar_def add_bridge_def)

lemma weave_rings_Nil: "weave_rings E cfg emesh gndidx head_positions ji [] result = Some result"
  by (subst weave_rings.simps) simp

lemma weave_rings_single:
  "weave_rings E cfg emesh gndidx head_positions ji [c] result = Some result"
  by (subst weave_rings.simps) (simp add: pts_convex_hull_def weave_rings_Nil)

lemma route_cluster_pair_example:
  "route_cluster E cfg_tilt30 [0, 1] head_positions [0, 1] (Some ([], heads_pair E))
   = (if emplace_moves E 1 then None
      else Some ([0],
       \<lparr>m_heads = [transform E (tailed (head_at E 0 0)), tailed (transform E (head_at E 2 0))],
        m_pillars = [based 1 1 (pillar_of (transform E (tailed (head_at E 0 0))) 0 (0, 0, 0) 0.3),
                     pillar_of (tailed (transform E (head_at E 2 0))) 1 (2, 0, 5.7) 0.3],
        m_junctions = [junction_at (2, 0, 5.7) 0.5, junction_at (0, 0, 4.7) 0.5],
        m_bridges = [bridge_of E (junction_at (2, 0, 5.7) 0.5) (junction_at (0, 0, 4.7) 0.5)
                       0.3]\<rparr>))"
proof (cases "emplace_moves E 1")
  case True
  with route_sidehead_dangling [of E "[]"
      "[based 1 1 (pillar_of (transform E (tailed (head_at E 0 0))) 0 (0, 0, 0) 0.3)]" "[]"]
  show ?thesis
    by (simp add: route_cluster_def Let_def row_def cluster_centroid_def transformed_fields
        head_at_fields add_tail_tailed main_head_fields cfg_tilt30_fields Pillar_ctor_of
        pillar_of_fields add_base_based add_pillar_def heads_pair_def)
next
  case False
  with route_sidehead_example [of E "[]"
      "[based 1 1 (pillar_of (transform E (tailed (head_at E 0 0))) 0 (0, 0, 0) 0.3)]" "[]"]
  show ?thesis
    by (simp add: route_cluster_def Let_def row_def cluster_centroid_def transformed_fields
        head_at_fields add_tail_tailed main_head_fields cfg_tilt30_fields Pillar_ctor_of
        pillar_of_fields add_base_based add_pillar_def heads_pair_def)
qed

lemma routing_ground_pair_example:
  "routing_ground_fn E cfg_tilt30 [[0, 1]] [0, 1] emesh head_positions (heads_pair E)
   = (if emplace_moves E 1 then None
      else Some
       \<lparr>m_heads = [transform E (tailed (head_at E 0 0)), tailed (transform E (head_at E 2 0))],
        m_pillars = [based 1 1 (pillar_of (transform E (tailed (head_at E 0 0))) 0 (0, 0, 0) 0.3),
                     pillar_of (tailed (transform E (head_at E 2 0))) 1 (2, 0, 5.7) 0.3],
        m_junctions = [junction_at (2, 0, 5.7) 0.5, junction_at (0, 0, 4.7) 0.5],
        m_bridges = [bridge_of E (junction_at (2, 0, 5.7) 0.5) (junction_at (0, 0, 4.7) 0.5)
                       0.3]\<rparr>)"
  unfolding routing_ground_fn_def
  using route_cluster_pair_example [of E head_positions]
  by (simp add: weave_rings_single)

lemma wall_between:
  "ray_plane_x 1 (2, 0, 5.7) (normalized (vsub (0, 0, 4.7) (2, 0, 5.7))) emesh = Dbl (sqrt 5 / 2)"
  "ray_plane_x 1 (0, 0, 4.7) (normalized (vsub (2, 0, 5.7) (0, 0, 4.7))) emesh = Dbl (sqrt 5 / 2)"
  by (simp_all add: ray_plane_x_def normalized_def vsub_def norm3d_def smul_def)

lemma ground_head_fields:
  "junction_point (ground_head E x y) = (x, y, 8.1)"
  "head_steps (ground_head E x y) = 45"
  "r_back_mm (ground_head E x y) = 0.5"
  "45 \<le> length (points (tail_mesh (tail (ground_head E x y))))"
  by (simp_all add: ground_head_def transformed_fields main_head_fields)

lemma ground_pillar_fields:
  "endpoint (ground_pillar E i x y) = (x, y, 0)"
  "headref (ground_pillar E i x y) = i"
  "pillar_r (ground_pillar E i x y) = 0.3"
  by (simp_all add: ground_pillar_def based_fields pillar_of_fields ground_head_fields
      request_pillar_radius_def)

lemma route_cluster_single:
  assumes "i < length gndidx" and "gndidx ! i < length (m_heads result)"
    and "m_heads result ! (gndidx ! i) = head_at E x y"
  shows "route_cluster E cfg_tilt30 gndidx head_positions [i] (Some (cs, result))
    = Some (cs @ [i],
        result\<lparr>m_heads := (m_heads result)[gndidx ! i := ground_head E x y],
               m_pillars := m_pillars result @ [ground_pillar E (gndidx ! i) x y]\<rparr>)"
  using assms
  by (simp add: route_cluster_def Let_def row_def cluster_centroid_def transformed_fields
      head_at_fields add_tail_tailed main_head_fields cfg_tilt30_fields Pillar_ctor_of
      pillar_of_fields add_base_based add_pillar_def ground_head_def ground_pillar_def)

lemma route_clusters_triangle:
  "fold (route_cluster E cfg_tilt30 [0, 1, 2] head_positions) [[0], [1], [2]]
     (Some ([], heads_triangle E))
   = Some ([0, 1, 2], pillars_triangle E)"
  by (simp add: route_cluster_single heads_triangle_def pillars_triangle_def)

lemma hull_triangle:
  "pts_convex_hull [0, 1, 2]
     (\<lambda>i. map_option (\<lambda>p. (vX p, vY p)) (gnd_head_pt [0, 1, 2] positions_triangle i))
   = Some [0, 1, 2]"
proof -
  let ?pts = "[(0, 0), (12, 0), (12, 16)] :: Vec2d list"
  have o: "orientation (0, 0) (12, 16) (12, 0) = 1" "orientation (12, 0) (0, 0) (12, 16) = 1"
    "orientation (12, 16) (12, 0) (0, 0) = 1" "orientation p p q = 0" "orientation p q q = 0"
    for p q :: Vec2d
    by (simp_all add: orientation_def ERR_def)
  have upt: "[0..<3] = [0, 1, 2]"
    by (simp add: upt_rec)
  have l: "leftmost ?pts = 0"
    by (simp add: leftmost_def ERR_def upt_rec)
  have h3: "hull_loop ?pts 0 2 [0, 1] = Some [0, 1, 2]"
    by (subst hull_loop.simps) (simp add: upt o numeral_2_eq_2)
  have h2: "hull_loop ?pts 0 1 [0] = Some [0, 1, 2]"
    by (subst hull_loop.simps) (use h3 in \<open>simp add: upt o numeral_2_eq_2\<close>)
  have h1: "hull_loop ?pts 0 0 [] = Some [0, 1, 2]"
    by (subst hull_loop.simps) (use h2 in \<open>simp add: upt o numeral_2_eq_2\<close>)
  show ?thesis
    using h1 by (simp add: pts_convex_hull_def gnd_head_pt_def row_def positions_triangle_def l)
qed

lemma weave_while_one_turn:
  assumes "weave_while_cond pillar nextpillar st"
    and "weave_while_body E cfg emesh pillar pillar_dist nstartz st = Some st1"
    and "\<not> weave_while_cond pillar nextpillar st1"
  shows "weave_while E cfg emesh pillar nextpillar pillar_dist nstartz st = Some st1"
proof -
  have "weave_while E cfg emesh pillar nextpillar pillar_dist nstartz st1 = Some st1"
    using assms(3) by (subst weave_while.simps) simp
  with assms(1,2) show ?thesis
    by (subst weave_while.simps) simp
qed

lemma weave_edge_start_triangle_01:
  "weave_edge_start E cfg_tilt30 emesh [] (0, 1)
     ((pillars_triangle E)\<lparr>m_junctions := js, m_bridges := bs\<rparr>)
   = Some (ground_pillar E 0 0 0, ground_pillar E 1 12 0, 12, 8.1,
       ((0, 0, 8.1), (12, 0, 2.1),
        ray_mesh_intersect E (0, 0, 8.1) (normalized (vsub (12, 0, 2.1) (0, 0, 8.1))) emesh,
        (pillars_triangle E)\<lparr>m_junctions := js, m_bridges := bs\<rparr>))"
  by (simp add: weave_edge_start_def Let_def row_def start_junction_def spat_query_def
      pillars_triangle_def ground_pillar_fields ground_head_fields distance2d_x sin_tilt30)

lemma weave_edge_start_triangle_12:
  "weave_edge_start E cfg_tilt30 emesh [] (1, 2)
     ((pillars_triangle E)\<lparr>m_junctions := js, m_bridges := bs\<rparr>)
   = Some (ground_pillar E 1 12 0, ground_pillar E 2 12 16, 16, 8.1,
       ((12, 0, 8.1), (12, 16, 0.1),
        ray_mesh_intersect E (12, 0, 8.1) (normalized (vsub (12, 16, 0.1) (12, 0, 8.1))) emesh,
        (pillars_triangle E)\<lparr>m_junctions := js, m_bridges := bs\<rparr>))"
  by (simp add: weave_edge_start_def Let_def row_def start_junction_def spat_query_def
      pillars_triangle_def ground_pillar_fields ground_head_fields distance2d_y sin_tilt30)

lemma weave_bridge_built:
  assumes "dbl_ge chkd pillar_dist" and "vZ ej < nstartz"
    and "\<not> emplace_moves E (Suc (length (m_junctions result)))"
  shows "weave_bridge E cfg_tilt30 pillar pillar_dist nstartz sj ej chkd result
    = Some (result\<lparr>m_junctions := m_junctions result @ [junction_at sj 0.5, junction_at ej 0.5],
                   m_bridges := m_bridges result
                     @ [bridge_of E (junction_at sj 0.5) (junction_at ej 0.5) (pillar_r pillar)]\<rparr>)"
  using assms
  by (simp add: weave_bridge_def cfg_tilt30_fields Junction_ctor_at Bridge_junctions_of
      add_junction_def add_bridge_def)

lemma weave_bridge_blocked:
  "\<not> dbl_ge chkd pillar_dist
     \<Longrightarrow> weave_bridge E cfg pillar pillar_dist nstartz sj ej chkd result = Some result"
  by (simp add: weave_bridge_def)

lemma weave_edge_triangle_01:
  assumes "dbl_ge (ray_mesh_intersect E (0, 0, 8.1)
                     (normalized (vsub (12, 0, 2.1) (0, 0, 8.1))) emesh) 12"
    and "\<not> emplace_moves E (Suc (length js))"
  shows "weave_edge E cfg_tilt30 emesh [] (0, 1)
     (Some ((pillars_triangle E)\<lparr>m_junctions := js, m_bridges := bs\<rparr>))
   = Some ((pillars_triangle E)
       \<lparr>m_junctions := js @ [junction_at (0, 0, 8.1) 0.5, junction_at (12, 0, 2.1) 0.5],
        m_bridges := bs @ [bridge_of E (junction_at (0, 0, 8.1) 0.5)
                             (junction_at (12, 0, 2.1) 0.5) 0.3]\<rparr>)"
proof -
  let ?R = "(pillars_triangle E)\<lparr>m_junctions := js, m_bridges := bs\<rparr>"
  let ?chkd = "ray_mesh_intersect E (0, 0, 8.1) (normalized (vsub (12, 0, 2.1) (0, 0, 8.1))) emesh"
  let ?st = "((0, 0, 8.1), (12, 0, 2.1), ?chkd, ?R) :: weave_state"
  have j: "m_junctions ?R = js" "m_bridges ?R = bs"
    by simp_all
  obtain st1 where b: "weave_while_body E cfg_tilt30 emesh (ground_pillar E 0 0 0) 12 8.1 ?st
      = Some st1"
    and z: "vZ (fst (snd st1)) < 0"
    and r: "snd (snd (snd st1)) = (pillars_triangle E)
       \<lparr>m_junctions := js @ [junction_at (0, 0, 8.1) 0.5, junction_at (12, 0, 2.1) 0.5],
        m_bridges := bs @ [bridge_of E (junction_at (0, 0, 8.1) 0.5)
                             (junction_at (12, 0, 2.1) 0.5) 0.3]\<rparr>"
    using assms
    by (simp add: weave_while_body_def weave_bridge_built j Let_def sin_tilt30
        ground_pillar_fields)
  have c: "weave_while_cond (ground_pillar E 0 0 0) (ground_pillar E 1 12 0) ?st"
    by (simp add: weave_while_cond_def ground_pillar_fields)
  have nc: "\<not> weave_while_cond (ground_pillar E 0 0 0) (ground_pillar E 1 12 0) st1"
    using z by (simp add: weave_while_cond_def ground_pillar_fields split_def)
  from weave_while_one_turn [OF c b nc] r
    weave_edge_start_triangle_01 [where E = E and emesh = emesh and js = js and bs = bs]
  show ?thesis
    by (simp add: weave_edge_def split_def)
qed

lemma weave_edge_triangle_01_blocked:
  assumes "\<not> dbl_ge (ray_mesh_intersect E (0, 0, 8.1)
                     (normalized (vsub (12, 0, 2.1) (0, 0, 8.1))) emesh) 12"
  shows "weave_edge E cfg_tilt30 emesh [] (0, 1)
     (Some ((pillars_triangle E)\<lparr>m_junctions := js, m_bridges := bs\<rparr>))
   = Some ((pillars_triangle E)\<lparr>m_junctions := js, m_bridges := bs\<rparr>)"
proof -
  let ?R = "(pillars_triangle E)\<lparr>m_junctions := js, m_bridges := bs\<rparr>"
  let ?chkd = "ray_mesh_intersect E (0, 0, 8.1) (normalized (vsub (12, 0, 2.1) (0, 0, 8.1))) emesh"
  let ?st = "((0, 0, 8.1), (12, 0, 2.1), ?chkd, ?R) :: weave_state"
  obtain st1 where b: "weave_while_body E cfg_tilt30 emesh (ground_pillar E 0 0 0) 12 8.1 ?st
      = Some st1"
    and z: "vZ (fst (snd st1)) < 0"
    and r: "snd (snd (snd st1)) = ?R"
    using assms
    by (simp add: weave_while_body_def weave_bridge_blocked Let_def sin_tilt30)
  have c: "weave_while_cond (ground_pillar E 0 0 0) (ground_pillar E 1 12 0) ?st"
    by (simp add: weave_while_cond_def ground_pillar_fields)
  have nc: "\<not> weave_while_cond (ground_pillar E 0 0 0) (ground_pillar E 1 12 0) st1"
    using z by (simp add: weave_while_cond_def ground_pillar_fields split_def)
  from weave_while_one_turn [OF c b nc] r
    weave_edge_start_triangle_01 [where E = E and emesh = emesh and js = js and bs = bs]
  show ?thesis
    by (simp add: weave_edge_def split_def)
qed

lemma weave_edge_triangle_12:
  assumes "dbl_ge (ray_mesh_intersect E (12, 0, 8.1)
                     (normalized (vsub (12, 16, 0.1) (12, 0, 8.1))) emesh) 16"
    and "\<not> emplace_moves E (Suc (length js))"
  shows "weave_edge E cfg_tilt30 emesh [] (1, 2)
     (Some ((pillars_triangle E)\<lparr>m_junctions := js, m_bridges := bs\<rparr>))
   = Some ((pillars_triangle E)
       \<lparr>m_junctions := js @ [junction_at (12, 0, 8.1) 0.5, junction_at (12, 16, 0.1) 0.5],
        m_bridges := bs @ [bridge_of E (junction_at (12, 0, 8.1) 0.5)
                             (junction_at (12, 16, 0.1) 0.5) 0.3]\<rparr>)"
proof -
  let ?R = "(pillars_triangle E)\<lparr>m_junctions := js, m_bridges := bs\<rparr>"
  let ?chkd = "ray_mesh_intersect E (12, 0, 8.1) (normalized (vsub (12, 16, 0.1) (12, 0, 8.1))) emesh"
  let ?st = "((12, 0, 8.1), (12, 16, 0.1), ?chkd, ?R) :: weave_state"
  have j: "m_junctions ?R = js" "m_bridges ?R = bs"
    by simp_all
  obtain st1 where b: "weave_while_body E cfg_tilt30 emesh (ground_pillar E 1 12 0) 16 8.1 ?st
      = Some st1"
    and z: "vZ (fst (snd st1)) < 0"
    and r: "snd (snd (snd st1)) = (pillars_triangle E)
       \<lparr>m_junctions := js @ [junction_at (12, 0, 8.1) 0.5, junction_at (12, 16, 0.1) 0.5],
        m_bridges := bs @ [bridge_of E (junction_at (12, 0, 8.1) 0.5)
                             (junction_at (12, 16, 0.1) 0.5) 0.3]\<rparr>"
    using assms
    by (simp add: weave_while_body_def weave_bridge_built j Let_def sin_tilt30
        ground_pillar_fields)
  have c: "weave_while_cond (ground_pillar E 1 12 0) (ground_pillar E 2 12 16) ?st"
    by (simp add: weave_while_cond_def ground_pillar_fields)
  have nc: "\<not> weave_while_cond (ground_pillar E 1 12 0) (ground_pillar E 2 12 16) st1"
    using z by (simp add: weave_while_cond_def ground_pillar_fields split_def)
  from weave_while_one_turn [OF c b nc] r
    weave_edge_start_triangle_12 [where E = E and emesh = emesh and js = js and bs = bs]
  show ?thesis
    by (simp add: weave_edge_def split_def)
qed

lemma pillars_triangle_empty:
  "pillars_triangle E = (pillars_triangle E)\<lparr>m_junctions := [], m_bridges := []\<rparr>"
  by (simp add: pillars_triangle_def)

lemma weave_rings_triangle:
  assumes "fold (weave_edge E cfg_tilt30 emesh []) [(0, 1), (1, 2)] (Some (pillars_triangle E))
    = Some tree"
  shows "weave_rings E cfg_tilt30 emesh [0, 1, 2] positions_triangle [] [0, 1, 2]
     (pillars_triangle E) = Some tree"
proof -
  have s: "sort [0, 1, 2 :: nat] = [0, 1, 2]"
    by simp
  show ?thesis
    by (subst weave_rings.simps)
      (simp only: s Let_def hull_triangle list.sel zip.simps list.case assms option.case
        set_difference.simps weave_rings_Nil if_False if_True not_Cons_self2 list.simps
        less_irrefl)
qed

lemma routing_ground_triangle:
  assumes "fold (weave_edge E cfg_tilt30 emesh []) [(0, 1), (1, 2)] (Some (pillars_triangle E))
    = Some tree"
  shows "routing_ground_fn E cfg_tilt30 [[0], [1], [2]] [0, 1, 2] emesh positions_triangle
     (heads_triangle E) = Some tree"
  unfolding routing_ground_fn_def route_clusters_triangle
  using weave_rings_triangle [OF assms]
  by (simp add: pillars_triangle_def [of E, THEN arg_cong, of m_junctions]
      fill_junction_index_def)

lemma fold_edges_free:
  "fold (weave_edge (ext_roomy ray_free n) cfg_tilt30 emesh []) [(0, 1), (1, 2)]
     (Some (pillars_triangle (ext_roomy ray_free n)))
   = Some (woven_triangle (ext_roomy ray_free n))"
proof -
  let ?E = "ext_roomy ray_free n"
  have r: "ray_mesh_intersect ?E s d emesh = PosInf" for s d
    by (simp add: ext_roomy_fields ray_free_def)
  have m: "\<not> emplace_moves ?E (Suc 0)" "\<not> emplace_moves ?E (Suc (Suc (Suc 0)))"
    using grows_from_four_small by (simp_all add: ext_roomy_fields eval_nat_numeral)
  have "weave_edge ?E cfg_tilt30 emesh [] (0, 1)
      (Some ((pillars_triangle ?E)\<lparr>m_junctions := [], m_bridges := []\<rparr>))
    = Some ((pillars_triangle ?E)
       \<lparr>m_junctions := [] @ [junction_at (0, 0, 8.1) 0.5, junction_at (12, 0, 2.1) 0.5],
        m_bridges := [] @ [bridge_of ?E (junction_at (0, 0, 8.1) 0.5)
                             (junction_at (12, 0, 2.1) 0.5) 0.3]\<rparr>)"
    by (rule weave_edge_triangle_01) (simp_all add: r m)
  then have e1: "weave_edge ?E cfg_tilt30 emesh [] (0, 1) (Some (pillars_triangle ?E))
    = Some ((pillars_triangle ?E)
       \<lparr>m_junctions := [junction_at (0, 0, 8.1) 0.5, junction_at (12, 0, 2.1) 0.5],
        m_bridges := [bridge_of ?E (junction_at (0, 0, 8.1) 0.5)
                             (junction_at (12, 0, 2.1) 0.5) 0.3]\<rparr>)"
    by (simp add: pillars_triangle_empty [symmetric])
  have "weave_edge ?E cfg_tilt30 emesh [] (1, 2)
     (Some ((pillars_triangle ?E)
       \<lparr>m_junctions := [junction_at (0, 0, 8.1) 0.5, junction_at (12, 0, 2.1) 0.5],
        m_bridges := [bridge_of ?E (junction_at (0, 0, 8.1) 0.5)
                             (junction_at (12, 0, 2.1) 0.5) 0.3]\<rparr>))
    = Some ((pillars_triangle ?E)
       \<lparr>m_junctions := [junction_at (0, 0, 8.1) 0.5, junction_at (12, 0, 2.1) 0.5]
            @ [junction_at (12, 0, 8.1) 0.5, junction_at (12, 16, 0.1) 0.5],
        m_bridges := [bridge_of ?E (junction_at (0, 0, 8.1) 0.5)
                             (junction_at (12, 0, 2.1) 0.5) 0.3]
            @ [bridge_of ?E (junction_at (12, 0, 8.1) 0.5)
                             (junction_at (12, 16, 0.1) 0.5) 0.3]\<rparr>)"
    by (rule weave_edge_triangle_12) (simp_all add: r m)
  then have e2: "weave_edge ?E cfg_tilt30 emesh [] (1, 2)
     (Some ((pillars_triangle ?E)
       \<lparr>m_junctions := [junction_at (0, 0, 8.1) 0.5, junction_at (12, 0, 2.1) 0.5],
        m_bridges := [bridge_of ?E (junction_at (0, 0, 8.1) 0.5)
                             (junction_at (12, 0, 2.1) 0.5) 0.3]\<rparr>))
    = Some (woven_triangle ?E)"
    by (simp add: woven_triangle_def)
  from e1 e2 show ?thesis
    by simp
qed

lemma wall_blocks:
  "\<not> dbl_ge (ray_plane_x 6 (0, 0, 8.1) (normalized (vsub (12, 0, 2.1) (0, 0, 8.1))) emesh) 12"
proof -
  have "sqrt 180 < 24"
    by (rule real_less_lsqrt) simp_all
  moreover have "ray_plane_x 6 (0, 0, 8.1) (normalized (vsub (12, 0, 2.1) (0, 0, 8.1))) emesh
      = Dbl (sqrt 180 / 2)"
    by (simp add: ray_plane_x_def normalized_def vsub_def norm3d_def smul_def)
  ultimately show ?thesis
    by simp
qed

lemma wall_beside:
  "ray_plane_x 6 (12, 0, 8.1) (normalized (vsub (12, 16, 0.1) (12, 0, 8.1))) emesh = PosInf"
  by (simp add: ray_plane_x_def normalized_def vsub_def norm3d_def smul_def)

lemma grows_from_four_odd: "odd m \<Longrightarrow> \<not> grows_from_four m"
proof
  assume "odd m" and "grows_from_four m"
  then obtain k where "4 \<le> m" and "m = 2 ^ k"
    by (auto simp: grows_from_four_def)
  with \<open>odd m\<close> show False
    by (cases k) simp_all
qed

lemma fold_edges_walled:
  assumes "even (length js)"
  shows "fold (weave_edge (ext_roomy (ray_plane_x 6) n) cfg_tilt30 emesh []) [(0, 1), (1, 2)]
     (Some ((pillars_triangle (ext_roomy (ray_plane_x 6) n))
              \<lparr>m_junctions := js, m_bridges := bs\<rparr>))
   = Some ((pillars_triangle (ext_roomy (ray_plane_x 6) n))
       \<lparr>m_junctions := js @ [junction_at (12, 0, 8.1) 0.5, junction_at (12, 16, 0.1) 0.5],
        m_bridges := bs @ [bridge_of (ext_roomy (ray_plane_x 6) n) (junction_at (12, 0, 8.1) 0.5)
                             (junction_at (12, 16, 0.1) 0.5) 0.3]\<rparr>)"
proof -
  let ?E = "ext_roomy (ray_plane_x 6) n"
  have m: "\<not> emplace_moves ?E (Suc (length js))"
    using assms by (simp add: ext_roomy_fields grows_from_four_odd)
  have e1: "weave_edge ?E cfg_tilt30 emesh [] (0, 1)
      (Some ((pillars_triangle ?E)\<lparr>m_junctions := js, m_bridges := bs\<rparr>))
    = Some ((pillars_triangle ?E)\<lparr>m_junctions := js, m_bridges := bs\<rparr>)"
    by (rule weave_edge_triangle_01_blocked) (simp add: ext_roomy_fields wall_blocks)
  have e2: "weave_edge ?E cfg_tilt30 emesh [] (1, 2)
      (Some ((pillars_triangle ?E)\<lparr>m_junctions := js, m_bridges := bs\<rparr>))
    = Some ((pillars_triangle ?E)
       \<lparr>m_junctions := js @ [junction_at (12, 0, 8.1) 0.5, junction_at (12, 16, 0.1) 0.5],
        m_bridges := bs @ [bridge_of ?E (junction_at (12, 0, 8.1) 0.5)
                             (junction_at (12, 16, 0.1) 0.5) 0.3]\<rparr>)"
    by (rule weave_edge_triangle_12) (simp_all add: ext_roomy_fields wall_beside m [simplified ext_roomy_fields])
  from e1 e2 show ?thesis
    by simp
qed

lemma hull_shifted:
  "pts_convex_hull [3, 4, 5]
     (\<lambda>i. map_option (\<lambda>p. (vX p, vY p)) (gnd_head_pt [0, 0, 0, 0, 1, 2] positions_triangle i))
   = Some [0, 1, 2]"
proof -
  let ?pts = "[(0, 0), (12, 0), (12, 16)] :: Vec2d list"
  have o: "orientation (0, 0) (12, 16) (12, 0) = 1" "orientation (12, 0) (0, 0) (12, 16) = 1"
    "orientation (12, 16) (12, 0) (0, 0) = 1" "orientation p p q = 0" "orientation p q q = 0"
    for p q :: Vec2d
    by (simp_all add: orientation_def ERR_def)
  have upt: "[0..<3] = [0, 1, 2]"
    by (simp add: upt_rec)
  have l: "leftmost ?pts = 0"
    by (simp add: leftmost_def ERR_def upt_rec)
  have h3: "hull_loop ?pts 0 2 [0, 1] = Some [0, 1, 2]"
    by (subst hull_loop.simps) (simp add: upt o numeral_2_eq_2)
  have h2: "hull_loop ?pts 0 1 [0] = Some [0, 1, 2]"
    by (subst hull_loop.simps) (use h3 in \<open>simp add: upt o numeral_2_eq_2\<close>)
  have h1: "hull_loop ?pts 0 0 [] = Some [0, 1, 2]"
    by (subst hull_loop.simps) (use h2 in \<open>simp add: upt o numeral_2_eq_2\<close>)
  show ?thesis
    using h1 by (simp add: pts_convex_hull_def gnd_head_pt_def row_def positions_triangle_def l)
qed

lemma ring_stays:
  "sort [3, 4, 5 :: nat] = [3, 4, 5]" "sort [0, 1, 2 :: nat] = [0, 1, 2]"
  "set_difference [3, 4, 5] [0, 1, 2] = [3, 4, 5]"
  by simp_all

lemma weave_rings_never_returns:
  assumes "even (length js)"
  shows "weave_rings (ext_roomy (ray_plane_x 6) n) cfg_tilt30 emesh [0, 0, 0, 0, 1, 2]
     positions_triangle [] [3, 4, 5]
     ((pillars_triangle (ext_roomy (ray_plane_x 6) n))\<lparr>m_junctions := js, m_bridges := bs\<rparr>)
   = None"
proof (rule ccontr)
  let ?E = "ext_roomy (ray_plane_x 6) n"
  assume "weave_rings ?E cfg_tilt30 emesh [0, 0, 0, 0, 1, 2] positions_triangle [] [3, 4, 5]
     ((pillars_triangle ?E)\<lparr>m_junctions := js, m_bridges := bs\<rparr>) \<noteq> None"
  then obtain y where y: "weave_rings ?E cfg_tilt30 emesh [0, 0, 0, 0, 1, 2] positions_triangle
     [] [3, 4, 5] ((pillars_triangle ?E)\<lparr>m_junctions := js, m_bridges := bs\<rparr>) = Some y"
    by auto
  have "E' = ?E \<and> cfg' = cfg_tilt30 \<and> emesh' = emesh \<and> gndidx' = [0, 0, 0, 0, 1, 2]
      \<and> hp' = positions_triangle \<and> ji' = [] \<and> rem' = [3, 4, 5]
      \<and> (\<exists>js bs. even (length js)
            \<and> result' = (pillars_triangle ?E)\<lparr>m_junctions := js, m_bridges := bs\<rparr>)
      \<longrightarrow> False"
    if "weave_rings E' cfg' emesh' gndidx' hp' ji' rem' result' = Some y'"
    for E' cfg' emesh' gndidx' hp' ji' rem' result' y'
  proof (rule weave_rings.raw_induct
    [where P = "\<lambda>E' cfg' emesh' gndidx' hp' ji' rem' result' y'.
       E' = ?E \<and> cfg' = cfg_tilt30 \<and> emesh' = emesh \<and> gndidx' = [0, 0, 0, 0, 1, 2]
      \<and> hp' = positions_triangle \<and> ji' = [] \<and> rem' = [3, 4, 5]
      \<and> (\<exists>js bs. even (length js)
            \<and> result' = (pillars_triangle ?E)\<lparr>m_junctions := js, m_bridges := bs\<rparr>)
      \<longrightarrow> False", OF _ that], goal_cases)
    case (1 weave_rings' E' cfg' emesh' gndidx' hp' ji' rem' result' y')
    show ?case
    proof
      assume a: "E' = ?E \<and> cfg' = cfg_tilt30 \<and> emesh' = emesh \<and> gndidx' = [0, 0, 0, 0, 1, 2]
        \<and> hp' = positions_triangle \<and> ji' = [] \<and> rem' = [3, 4, 5]
        \<and> (\<exists>js bs. even (length js)
            \<and> result' = (pillars_triangle ?E)\<lparr>m_junctions := js, m_bridges := bs\<rparr>)"
      then obtain js' bs' where e: "even (length js')"
        and r: "result' = (pillars_triangle ?E)\<lparr>m_junctions := js', m_bridges := bs'\<rparr>"
        by blast
      let ?next = "(pillars_triangle ?E)
         \<lparr>m_junctions := js' @ [junction_at (12, 0, 8.1) 0.5, junction_at (12, 16, 0.1) 0.5],
          m_bridges := bs' @ [bridge_of ?E (junction_at (12, 0, 8.1) 0.5)
                             (junction_at (12, 16, 0.1) 0.5) 0.3]\<rparr>"
      from "1"(2) a have "weave_rings' ?E cfg_tilt30 emesh [0, 0, 0, 0, 1, 2] positions_triangle []
          [3, 4, 5] ?next = Some y'"
        by (simp only: r ring_stays Let_def hull_shifted list.sel zip.simps list.case
            fold_edges_walled [OF e] option.case if_False not_Cons_self2 list.simps)
      moreover have "\<exists>js bs. even (length js)
          \<and> ?next = (pillars_triangle ?E)\<lparr>m_junctions := js, m_bridges := bs\<rparr>"
        using e
        by (intro exI [of _ "js' @ [junction_at (12, 0, 8.1) 0.5, junction_at (12, 16, 0.1) 0.5]"]
            exI [of _ "bs' @ [bridge_of ?E (junction_at (12, 0, 8.1) 0.5)
                             (junction_at (12, 16, 0.1) 0.5) 0.3]"]) simp
      ultimately show False
        using "1"(1) by blast
    qed
  qed
  from this [OF y] assms show False
    by blast
qed

lemma rewoven_reached:
  "weave_rings_reaches (ext_roomy (ray_plane_x 6) n) cfg_tilt30 emesh [0, 0, 0, 0, 1, 2]
     positions_triangle [] [3, 4, 5] (pillars_triangle (ext_roomy (ray_plane_x 6) n))
     (rewoven_triangle (ext_roomy (ray_plane_x 6) n))"
proof -
  let ?E = "ext_roomy (ray_plane_x 6) n"
  have f1: "fold (weave_edge ?E cfg_tilt30 emesh []) (zip [0, 1, 2] (tl [0, 1, 2]))
      (Some (pillars_triangle ?E)) = Some (walled_triangle ?E)"
    using fold_edges_walled [of "[]" n emesh "[]"]
    by (simp add: pillars_triangle_empty [symmetric] walled_triangle_def)
  have f2: "fold (weave_edge ?E cfg_tilt30 emesh []) (zip [0, 1, 2] (tl [0, 1, 2]))
      (Some (walled_triangle ?E)) = Some (rewoven_triangle ?E)"
    using fold_edges_walled [of "[junction_at (12, 0, 8.1) 0.5, junction_at (12, 16, 0.1) 0.5]"
        n emesh "[bridge_of ?E (junction_at (12, 0, 8.1) 0.5) (junction_at (12, 16, 0.1) 0.5) 0.3]"]
    by (simp add: walled_triangle_def rewoven_triangle_def)
  have ne: "[3, 4, 5 :: nat] \<noteq> []"
    by simp
  have h: "pts_convex_hull (sort [3, 4, 5])
     (\<lambda>i. map_option (\<lambda>p. (vX p, vY p)) (gnd_head_pt [0, 0, 0, 0, 1, 2] positions_triangle i))
   = Some [0, 1, 2]"
    by (simp only: ring_stays hull_shifted)
  have "weave_rings_reaches ?E cfg_tilt30 emesh [0, 0, 0, 0, 1, 2] positions_triangle []
      (set_difference (sort [3, 4, 5]) (sort [0, 1, 2])) (walled_triangle ?E)
      (rewoven_triangle ?E)"
    unfolding ring_stays
    using ne h weave_edges_reaches_result [OF f2]
    by (rule weave_rings_within)
  with ne h f1 show ?thesis
    by (rule weave_rings_next)
qed

lemma Bridge_junctions_ray:
  "Bridge_junctions (E\<lparr>ray_mesh_intersect := ray\<rparr>) j1 j2 r = Bridge_junctions E j1 j2 r"
  by (simp add: Bridge_junctions_def)

lemma transform_ray: "transform (E\<lparr>ray_mesh_intersect := ray\<rparr>) head = transform E head"
  by (simp add: transform_def)

lemma distance3d_x: "distance3d (a, y, z) (b, y, z) = \<bar>b - a\<bar>"
  by (simp add: distance3d_def norm3d_def vsub_def)

lemma first_bridge_dangles:
  "routing_ground_fn (ext_example ray n) cfg_tilt30 [[0, 1]] [0, 1] emesh head_positions
     (heads_pair (ext_example ray n)) = None"
proof -
  have "emplace_moves (ext_example ray n) 1"
    by (simp add: ext_example_def grows_doubling_def)
  then show ?thesis
    unfolding routing_ground_pair_example by simp
qed

subsection \<open>Claim C4: the cast of a bridge\<close>

text \<open>
  Claim C4, as stated, has every bridge of the tree pass the cast, those between a side
  head's junction and the main pillar included. Take two heads of one cluster at
  \<open>(0, 0, 10)\<close> and \<open>(2, 0, 10)\<close>, bridges that descend by half their run, a wall at
  \<open>x = 1\<close> between the heads, and a library whose vectors start with room for four, so
  that no reference dangles (with vectors that double from one element the first
  bridge is already read from a dangling reference, \<open>first_bridge_dangles\<close>).
  ROUTING_GROUND joins the side head's junction at \<open>(2, 0, 5.7)\<close> to a junction at
  \<open>(0, 0, 4.7)\<close> on the main pillar. The two are 2 apart in the plane; the ray from
  either toward the other meets the wall after \<open>sqrt 5 / 2\<close>.
\<close>

theorem side_bridge_through_wall:
  "routing_ground_fn (ext_roomy (ray_plane_x 1) (0, 0, - 1)) cfg_tilt30 [[0, 1]] [0, 1]
       mesh_example [(0, 0, 10), (2, 0, 10)] (heads_pair (ext_roomy (ray_plane_x 1) (0, 0, - 1)))
     \<noteq> None
   \<and> map pos (m_junctions (the
        (routing_ground_fn (ext_roomy (ray_plane_x 1) (0, 0, - 1)) cfg_tilt30 [[0, 1]] [0, 1]
          mesh_example [(0, 0, 10), (2, 0, 10)]
          (heads_pair (ext_roomy (ray_plane_x 1) (0, 0, - 1))))))
       = [(2, 0, 5.7), (0, 0, 4.7)]
   \<and> map Some (m_bridges (the
        (routing_ground_fn (ext_roomy (ray_plane_x 1) (0, 0, - 1)) cfg_tilt30 [[0, 1]] [0, 1]
          mesh_example [(0, 0, 10), (2, 0, 10)]
          (heads_pair (ext_roomy (ray_plane_x 1) (0, 0, - 1))))))
       = [Bridge_junctions (ext_roomy (ray_plane_x 1) (0, 0, - 1))
            (m_junctions (the
              (routing_ground_fn (ext_roomy (ray_plane_x 1) (0, 0, - 1)) cfg_tilt30 [[0, 1]]
                [0, 1] mesh_example [(0, 0, 10), (2, 0, 10)]
                (heads_pair (ext_roomy (ray_plane_x 1) (0, 0, - 1))))) ! 0)
            (m_junctions (the
              (routing_ground_fn (ext_roomy (ray_plane_x 1) (0, 0, - 1)) cfg_tilt30 [[0, 1]]
                [0, 1] mesh_example [(0, 0, 10), (2, 0, 10)]
                (heads_pair (ext_roomy (ray_plane_x 1) (0, 0, - 1))))) ! 1)
            0.3]
   \<and> ray_mesh_intersect (ext_roomy (ray_plane_x 1) (0, 0, - 1)) (2, 0, 5.7)
        (normalized (vsub (0, 0, 4.7) (2, 0, 5.7))) mesh_example = Dbl (sqrt 5 / 2)
   \<and> ray_mesh_intersect (ext_roomy (ray_plane_x 1) (0, 0, - 1)) (0, 0, 4.7)
        (normalized (vsub (2, 0, 5.7) (0, 0, 4.7))) mesh_example = Dbl (sqrt 5 / 2)
   \<and> \<not> dbl_ge (Dbl (sqrt 5 / 2)) (distance2d (2, 0) (0, 0))"
proof -
  let ?E = "ext_roomy (ray_plane_x 1) (0, 0, - 1)"
  have far: "sqrt 5 < 4"
    by (rule real_less_lsqrt) simp_all
  have rays: "ray_mesh_intersect ?E (2, 0, 5.7)
        (normalized (vsub (0, 0, 4.7) (2, 0, 5.7))) mesh_example = Dbl (sqrt 5 / 2)"
    "ray_mesh_intersect ?E (0, 0, 4.7)
        (normalized (vsub (2, 0, 5.7) (0, 0, 4.7))) mesh_example = Dbl (sqrt 5 / 2)"
    using wall_between [of mesh_example] by (simp_all add: ext_roomy_fields)
  have room: "\<not> emplace_moves ?E 1"
    using grows_from_four_small by (simp add: ext_roomy_fields)
  show ?thesis
    unfolding routing_ground_pair_example rays
    using far room by (simp add: pos_junction_at Bridge_junctions_of distance2d_x)
qed

text \<open>
  Claim C4, amended: at every point of the ring weaving, whether the weaving comes to
  an end or not, the tree has the heads and pillars the weaving started on, and every
  bridge added since joins two junctions \<open>sj\<close> and \<open>ej\<close> of the configured back radius such
  that the ray cast from \<open>sj\<close> toward \<open>ej\<close> meets the mesh no nearer than the distance of
  \<open>sj\<close> and \<open>ej\<close> in the plane. The tree a weaving returns is one of these. The bridges
  between a side head's junction and the main pillar are built without a cast: what
  the loop over the side heads does is the same for every interrogator.
\<close>

theorem ring_bridges_clear:
  "(weave_rings_reaches E cfg emesh gndidx head_positions junction_index rem result tree
      \<longrightarrow> m_heads tree = m_heads result \<and> m_pillars tree = m_pillars result
          \<and> (\<exists>bs. m_bridges tree = m_bridges result @ bs
                \<and> (\<forall>b \<in> set bs. clear_bridge E cfg emesh b)))
   \<and> (weave_rings E cfg emesh gndidx head_positions junction_index rem result = Some result'
      \<longrightarrow> weave_rings_reaches E cfg emesh gndidx head_positions junction_index rem result
            result')
   \<and> route_sidehead (E\<lparr>ray_mesh_intersect := ray\<rparr>) cfg gndidx index_to_heads c st
       = route_sidehead E cfg gndidx index_to_heads c st"
proof -
  have "route_sidehead (E\<lparr>ray_mesh_intersect := ray\<rparr>) cfg gndidx index_to_heads c st
       = route_sidehead E cfg gndidx index_to_heads c st"
    by (simp add: route_sidehead_def Let_def transform_ray Bridge_junctions_ray cong: if_cong)
  moreover have "m_heads tree = m_heads result \<and> m_pillars tree = m_pillars result
          \<and> (\<exists>bs. m_bridges tree = m_bridges result @ bs
                \<and> (\<forall>b \<in> set bs. clear_bridge E cfg emesh b))"
    if "weave_rings_reaches E cfg emesh gndidx head_positions junction_index rem result tree"
    using weave_rings_reaches_adds [OF that] by (simp add: weave_adds_def)
  ultimately show ?thesis
    using weave_rings_reaches_result by blast
qed

text \<open>
  The theorem at a weaving that never ends: the ring of the positions 0, 1, 2 takes
  nothing away from the remaining 3, 4, 5, and every pass over the ring adds the bridge
  of its second edge again, while the wall at \<open>x = 6\<close> blocks the first edge.
\<close>

theorem ring_bridges_clear_witness:
  "weave_rings (ext_roomy (ray_plane_x 6) (0, 0, - 1)) cfg_tilt30 mesh_example
       [0, 0, 0, 0, 1, 2] positions_triangle [] [3, 4, 5]
       (pillars_triangle (ext_roomy (ray_plane_x 6) (0, 0, - 1))) = None
   \<and> weave_rings_reaches (ext_roomy (ray_plane_x 6) (0, 0, - 1)) cfg_tilt30 mesh_example
       [0, 0, 0, 0, 1, 2] positions_triangle [] [3, 4, 5]
       (pillars_triangle (ext_roomy (ray_plane_x 6) (0, 0, - 1)))
       (rewoven_triangle (ext_roomy (ray_plane_x 6) (0, 0, - 1)))
   \<and> m_bridges (pillars_triangle (ext_roomy (ray_plane_x 6) (0, 0, - 1))) = []
   \<and> length (m_bridges (rewoven_triangle (ext_roomy (ray_plane_x 6) (0, 0, - 1)))) = 2
   \<and> clear_bridge (ext_roomy (ray_plane_x 6) (0, 0, - 1)) cfg_tilt30 mesh_example
        (m_bridges (rewoven_triangle (ext_roomy (ray_plane_x 6) (0, 0, - 1))) ! 0)
   \<and> clear_bridge (ext_roomy (ray_plane_x 6) (0, 0, - 1)) cfg_tilt30 mesh_example
        (m_bridges (rewoven_triangle (ext_roomy (ray_plane_x 6) (0, 0, - 1))) ! 1)
   \<and> \<not> dbl_ge (ray_mesh_intersect (ext_roomy (ray_plane_x 6) (0, 0, - 1)) (0, 0, 8.1)
               (normalized (vsub (12, 0, 2.1) (0, 0, 8.1))) mesh_example) 12"
proof -
  let ?E = "ext_roomy (ray_plane_x 6) (0, 0, - 1)"
  have never: "weave_rings ?E cfg_tilt30 mesh_example [0, 0, 0, 0, 1, 2] positions_triangle []
      [3, 4, 5] (pillars_triangle ?E) = None"
    using weave_rings_never_returns [of "[]" "(0, 0, - 1)" mesh_example "[]"]
    by (simp add: pillars_triangle_empty [symmetric])
  note reached = rewoven_reached [of "(0, 0, - 1)" mesh_example]
  have none: "m_bridges (pillars_triangle ?E) = []"
    by (simp add: pillars_triangle_def)
  have two: "length (m_bridges (rewoven_triangle ?E)) = 2"
    by (simp add: rewoven_triangle_def)
  have blocked: "\<not> dbl_ge (ray_mesh_intersect ?E (0, 0, 8.1)
               (normalized (vsub (12, 0, 2.1) (0, 0, 8.1))) mesh_example) 12"
    using wall_blocks [of mesh_example] by (simp add: ext_roomy_fields)
  from ring_bridges_clear [of ?E cfg_tilt30 mesh_example "[0, 0, 0, 0, 1, 2]" positions_triangle
      "[]" "[3, 4, 5]" "pillars_triangle ?E" "rewoven_triangle ?E"] reached
  obtain bs where "m_bridges (rewoven_triangle ?E) = m_bridges (pillars_triangle ?E) @ bs"
    and "\<forall>b \<in> set bs. clear_bridge ?E cfg_tilt30 mesh_example b"
    by blast
  then have "\<forall>b \<in> set (m_bridges (rewoven_triangle ?E)). clear_bridge ?E cfg_tilt30 mesh_example b"
    by (simp add: none)
  with two have "clear_bridge ?E cfg_tilt30 mesh_example (m_bridges (rewoven_triangle ?E) ! 0)"
    "clear_bridge ?E cfg_tilt30 mesh_example (m_bridges (rewoven_triangle ?E) ! 1)"
    by simp_all
  with never reached none two blocked show ?thesis
    by simp
qed

subsection \<open>Claim C8: the junction index during ring weaving\<close>

text \<open>
  Claim C8: every ring edge's query sees the junctions created so far, those of earlier
  edges included; the source's comments ask for the same (\<open>we must find the already
  created junctions on current pillar\<close>, and the head is used when there are
  \<open>No junctions on the pillar so far\<close>). The index is filled once, before the weaving, and
  nothing inserts into it afterwards. Three single heads at \<open>(0, 0)\<close>, \<open>(12, 0)\<close> and
  \<open>(12, 16)\<close> form one ring with the edges \<open>(0, 1)\<close> and \<open>(1, 2)\<close> (the library's vectors
  start with room for four, so that no reference dangles). The first edge creates
  junctions at \<open>(0, 0, 8.1)\<close> and, on pillar 1, at \<open>(12, 0, 2.1)\<close>. An index that held
  these two would hand the second edge the junction at \<open>(12, 0, 2.1)\<close> as its start.
  The stage finds no junction on pillar 1, starts the second edge at the junction point
  \<open>(12, 0, 8.1)\<close> of head 1, and bridges from there to \<open>(12, 16, 0.1)\<close>.
\<close>

theorem ring_edge_misses_new_junction:
  "routing_ground_fn (ext_roomy ray_free (0, 0, - 1)) cfg_tilt30 [[0], [1], [2]] [0, 1, 2]
       mesh_example positions_triangle (heads_triangle (ext_roomy ray_free (0, 0, - 1)))
     \<noteq> None
   \<and> map endpoint (m_pillars (the
        (routing_ground_fn (ext_roomy ray_free (0, 0, - 1)) cfg_tilt30 [[0], [1], [2]] [0, 1, 2]
          mesh_example positions_triangle (heads_triangle (ext_roomy ray_free (0, 0, - 1))))))
       = [(0, 0, 0), (12, 0, 0), (12, 16, 0)]
   \<and> map pos (m_junctions (the
        (routing_ground_fn (ext_roomy ray_free (0, 0, - 1)) cfg_tilt30 [[0], [1], [2]] [0, 1, 2]
          mesh_example positions_triangle (heads_triangle (ext_roomy ray_free (0, 0, - 1))))))
       = [(0, 0, 8.1), (12, 0, 2.1), (12, 0, 8.1), (12, 16, 0.1)]
   \<and> start_junction
        (fill_junction_index (take 2 (m_junctions (the
          (routing_ground_fn (ext_roomy ray_free (0, 0, - 1)) cfg_tilt30 [[0], [1], [2]]
            [0, 1, 2] mesh_example positions_triangle
            (heads_triangle (ext_roomy ray_free (0, 0, - 1))))))))
        (the (routing_ground_fn (ext_roomy ray_free (0, 0, - 1)) cfg_tilt30 [[0], [1], [2]]
            [0, 1, 2] mesh_example positions_triangle
            (heads_triangle (ext_roomy ray_free (0, 0, - 1)))))
        (m_pillars (the (routing_ground_fn (ext_roomy ray_free (0, 0, - 1)) cfg_tilt30
            [[0], [1], [2]] [0, 1, 2] mesh_example positions_triangle
            (heads_triangle (ext_roomy ray_free (0, 0, - 1))))) ! 1)
       = Some (12, 0, 2.1)"
proof -
  let ?E = "ext_roomy ray_free (0, 0, - 1)"
  note run = routing_ground_triangle [OF fold_edges_free [of "(0, 0, - 1)" mesh_example]]
  have idx: "fill_junction_index [junction_at (0, 0, 8.1) 0.5, junction_at (12, 0, 2.1) 0.5]
      = [((0, 0, 0), 0), ((12, 0, 0), 1)]"
    by (simp add: fill_junction_index_def spat_insert_def pos_junction_at)
  have q: "spat_query [((0, 0, 0), 0), ((12, 0, 0), 1)]
      (\<lambda>se. distance3d (12, 0, 0) (fst se) < 2 * 0.3) = [((12, 0, 0), 1)]"
    by (simp add: spat_query_def distance3d_x)
  have "start_junction [((0, 0, 0), 0), ((12, 0, 0), 1)] (woven_triangle ?E)
      (ground_pillar ?E 1 12 0) = Some (12, 0, 2.1)"
    using q
    by (simp add: start_junction_def Let_def ground_pillar_fields max_element_z_def row_def
        woven_triangle_def pos_junction_at)
  with idx show ?thesis
    unfolding run
    by (simp add: woven_triangle_def pillars_triangle_def ground_pillar_fields pos_junction_at)
qed

end
